(* ===== verification/Prelude.thy ===== *)
theory Prelude
  imports Complex_Main "HOL-Library.Word"
begin

text \<open>
  Shared vocabulary of the development. The example clients are C++ programs
  whose only failure mechanism is the exception: a call either returns a value or
  throws, and whatever it did to the world before throwing (output printed, a
  process started, a request sent) stays done. An operation on a state \<open>'s\<close>
  is therefore modelled as a function \<open>'s \<Rightarrow> (exn + 'a) \<times> 's\<close>
  (type \<open>('s, 'a) exc\<close>): \<open>Inl\<close> is a thrown exception, \<open>Inr\<close> a normal return,
  and the state is returned on both paths. \<open>bindE\<close> is C++ sequencing
  (an exception skips the rest), \<open>catchE\<close> a \<open>try\<close>/\<open>catch\<close>, and
  \<open>finallyE\<close> the destructor of a local object, which runs on the normal
  path and while an exception unwinds the frame.
  The collection \<open>exc_simps\<close> holds the rewrite rules of these combinators.
\<close>

named_theorems exc_simps "rewrite rules of the exception-state combinators"

section \<open>Exceptions, bytes and console output\<close>

text \<open>
  The exception classes the sources throw or catch: \<open>Diatheke::ClientError\<close>
  (thrown by the Diatheke SDK), \<open>CubicException\<close> (thrown by the Cubic SDK)
  and \<open>std::runtime_error\<close> (thrown by the examples themselves). \<open>Undefined\<close>
  is not an exception: it marks a step whose behaviour C++ leaves undefined
  (an index out of range, \<open>erase\<close> before the beginning of a string). The model
  stops there, and no \<open>catch\<close> clause handles it (\<open>catch_std\<close>).
\<close>

datatype exn =
    ClientError string
  | CubicError string
  | RuntimeError string
  | Undefined string

type_synonym byte = "8 word"

text \<open>
  What a client prints with \<open>std::cout << ...\<close>: each inserted value is one
  piece, kept with its C++ type, since the formatting of numbers by the stream
  is not part of the model. \<open>std::endl\<close> is the piece \<open>Endl\<close>.
\<close>

datatype piece =
    Str string
  | Real real
  | Nat nat
  | Bool bool
  | Endl

section \<open>State with exceptions\<close>

type_synonym ('s, 'a) exc = "'s \<Rightarrow> (exn + 'a) \<times> 's"

definition returnE :: "'a \<Rightarrow> ('s, 'a) exc" where
  "returnE x = (\<lambda>s. (Inr x, s))"

definition throwE :: "exn \<Rightarrow> ('s, 'a) exc" where
  "throwE e = (\<lambda>s. (Inl e, s))"

definition bindE :: "('s, 'a) exc \<Rightarrow> ('a \<Rightarrow> ('s, 'b) exc) \<Rightarrow> ('s, 'b) exc" where
  "bindE m f = (\<lambda>s. case m s of (Inl e, s') \<Rightarrow> (Inl e, s') | (Inr x, s') \<Rightarrow> f x s')"

text \<open>A state change that cannot throw (printing, bookkeeping).\<close>

definition modifyE :: "('s \<Rightarrow> 's) \<Rightarrow> ('s, unit) exc" where
  "modifyE f = (\<lambda>s. (Inr (), f s))"

definition catchE :: "('s, 'a) exc \<Rightarrow> (exn \<Rightarrow> ('s, 'a) exc) \<Rightarrow> ('s, 'a) exc" where
  "catchE m h = (\<lambda>s. case m s of (Inl e, s') \<Rightarrow> h e s' | (Inr x, s') \<Rightarrow> (Inr x, s'))"

text \<open>\<open>catch (std::exception &e)\<close>: every exception, but not undefined behaviour.\<close>

definition catch_std :: "('s, 'a) exc \<Rightarrow> (exn \<Rightarrow> ('s, 'a) exc) \<Rightarrow> ('s, 'a) exc" where
  "catch_std m h = catchE m (\<lambda>e. case e of Undefined u \<Rightarrow> throwE e | _ \<Rightarrow> h e)"

text \<open>
  \<open>finallyE m c\<close>: run \<open>m\<close>, then the cleanup \<open>c\<close> (which does not throw)
  whatever \<open>m\<close> did, keeping \<open>m\<close>'s outcome.
\<close>

definition finallyE :: "('s, 'a) exc \<Rightarrow> ('s \<Rightarrow> 's) \<Rightarrow> ('s, 'a) exc" where
  "finallyE m c = (\<lambda>s. case m s of (r, s') \<Rightarrow> (r, c s'))"

text \<open>
  \<open>unwindE m c\<close>: the destructor of a local object while an exception from
  \<open>m\<close> unwinds the frame; on the normal path nothing happens.
\<close>

definition unwindE :: "('s, 'a) exc \<Rightarrow> ('s \<Rightarrow> 's) \<Rightarrow> ('s, 'a) exc" where
  "unwindE m c = (\<lambda>s. case m s of (Inl e, s') \<Rightarrow> (Inl e, c s') | (Inr x, s') \<Rightarrow> (Inr x, s'))"

text \<open>\<open>keepsE P m\<close>: every run of \<open>m\<close> from a state with \<open>P\<close> ends in one with \<open>P\<close>.\<close>

definition keepsE :: "('s \<Rightarrow> bool) \<Rightarrow> ('s, 'a) exc \<Rightarrow> bool" where
  "keepsE P m \<longleftrightarrow> (\<forall>s. P s \<longrightarrow> P (snd (m s)))"

lemma returnE_apply [exc_simps]: "returnE x s = (Inr x, s)"
  by (simp add: returnE_def)

lemma throwE_apply [exc_simps]: "throwE e s = (Inl e, s)"
  by (simp add: throwE_def)

lemma modifyE_apply [exc_simps]: "modifyE f s = (Inr (), f s)"
  by (simp add: modifyE_def)

lemma bindE_apply [exc_simps]:
  "bindE m f s = (case m s of (Inl e, s') \<Rightarrow> (Inl e, s') | (Inr x, s') \<Rightarrow> f x s')"
  by (simp add: bindE_def)

lemma catchE_apply [exc_simps]:
  "catchE m h s = (case m s of (Inl e, s') \<Rightarrow> h e s' | (Inr x, s') \<Rightarrow> (Inr x, s'))"
  by (simp add: catchE_def)

lemma finallyE_apply [exc_simps]: "finallyE m c s = (fst (m s), c (snd (m s)))"
  by (simp add: finallyE_def split: prod.split)

lemma unwindE_apply [exc_simps]:
  "unwindE m c s = (case m s of (Inl e, s') \<Rightarrow> (Inl e, c s') | (Inr x, s') \<Rightarrow> (Inr x, s'))"
  by (simp add: unwindE_def)

lemma bindE_returnE [simp]: "bindE (returnE x) f = f x"
  by (simp add: fun_eq_iff exc_simps)

lemma bindE_returnE_right [simp]: "bindE m returnE = m"
  by (auto simp: fun_eq_iff exc_simps split: prod.split sum.split)

lemma bindE_throwE [simp]: "bindE (throwE e) f = throwE e"
  by (simp add: fun_eq_iff exc_simps)

lemma bindE_assoc: "bindE (bindE m f) g = bindE m (\<lambda>x. bindE (f x) g)"
  by (auto simp: fun_eq_iff exc_simps split: prod.split sum.split)

text \<open>How a sequence ends: normally only if both parts return normally.\<close>

lemma bindE_Inr_iff:
  "bindE m f s = (Inr y, t) \<longleftrightarrow> (\<exists>x s'. m s = (Inr x, s') \<and> f x s' = (Inr y, t))"
  by (auto simp: exc_simps split: prod.split sum.split)

lemma bindE_Inl_iff:
  "bindE m f s = (Inl e, t) \<longleftrightarrow>
     m s = (Inl e, t) \<or> (\<exists>x s'. m s = (Inr x, s') \<and> f x s' = (Inl e, t))"
  by (auto simp: exc_simps split: prod.split sum.split)

text \<open>
  A property of the state that every step keeps is kept by a sequence, on both
  paths: the shape of every invariant proof of the development (\<open>keepsE\<close>).
\<close>

lemma keepsE_returnE [intro, simp]: "keepsE P (returnE x)"
  by (simp add: keepsE_def exc_simps)

lemma keepsE_throwE [intro, simp]: "keepsE P (throwE e)"
  by (simp add: keepsE_def exc_simps)

lemma keepsE_modifyE [intro]: "(\<And>s. P s \<Longrightarrow> P (f s)) \<Longrightarrow> keepsE P (modifyE f)"
  by (simp add: keepsE_def exc_simps)

lemma keepsE_bindE [intro]:
  "keepsE P m \<Longrightarrow> (\<And>x. keepsE P (f x)) \<Longrightarrow> keepsE P (bindE m f)"
  unfolding keepsE_def
  by (auto simp: exc_simps split: prod.split sum.split)

lemma keepsE_catchE [intro]:
  "keepsE P m \<Longrightarrow> (\<And>e. keepsE P (h e)) \<Longrightarrow> keepsE P (catchE m h)"
  unfolding keepsE_def
  by (auto simp: exc_simps split: prod.split sum.split)

lemma catch_std_apply [exc_simps]:
  "catch_std m h w = (case m w of (Inl (Undefined u), w') \<Rightarrow> (Inl (Undefined u), w')
                       | (Inl e, w') \<Rightarrow> h e w' | (Inr x, w') \<Rightarrow> (Inr x, w'))"
  by (auto simp: catch_std_def exc_simps split: prod.split sum.split exn.split)

lemma keepsE_catch_std [intro]:
  "keepsE P m \<Longrightarrow> (\<And>e. keepsE P (h e)) \<Longrightarrow> keepsE P (catch_std m h)"
  unfolding catch_std_def by (intro keepsE_catchE) (auto split: exn.split)

lemma keepsE_finallyE [intro]:
  "keepsE P m \<Longrightarrow> (\<And>s. P s \<Longrightarrow> P (c s)) \<Longrightarrow> keepsE P (finallyE m c)"
  unfolding keepsE_def by (simp add: exc_simps)

lemma keepsE_unwindE [intro]:
  "keepsE P m \<Longrightarrow> (\<And>s. P s \<Longrightarrow> P (c s)) \<Longrightarrow> keepsE P (unwindE m c)"
  unfolding keepsE_def
  by (auto simp: exc_simps split: prod.split sum.split)

lemma keepsE_by_run:
  assumes "\<And>w x w'. P w \<Longrightarrow> m w = (x, w') \<Longrightarrow> P w'"
  shows "keepsE P m"
  unfolding keepsE_def
proof (intro allI impI)
  fix s assume "P s"
  obtain x t where "m s = (x, t)" by fastforce
  with assms \<open>P s\<close> show "P (snd (m s))" by simp
qed

lemma keepsE_D: "keepsE P m \<Longrightarrow> P s \<Longrightarrow> m s = (r, t) \<Longrightarrow> P t"
  unfolding keepsE_def by (metis snd_conv)

section \<open>Lists\<close>

text \<open>A reader that takes a non-empty prefix leaves a strictly shorter rest.\<close>

lemma append_rest_shorter: "xs @ ys = zs \<Longrightarrow> xs \<noteq> [] \<Longrightarrow> length ys < length zs"
  by (auto dest: arg_cong [where f = length])

text \<open>Appending one element to an interleaving appends it to either side: the
  step by which a thread writes one more piece to a shared stream.\<close>

lemma snoc_in_shuffles:
  "zs \<in> shuffles xs ys \<Longrightarrow> zs @ [z] \<in> shuffles (xs @ [z]) ys \<and> zs @ [z] \<in> shuffles xs (ys @ [z])"
proof (induction xs ys arbitrary: zs rule: shuffles.induct)
  case (1 ys)
  then show ?case
    by (induction ys arbitrary: zs) (auto simp: Cons_in_shuffles_iff)
next
  case (2 xs)
  then show ?case
    by (induction xs arbitrary: zs) (auto simp: Cons_in_shuffles_iff)
next
  case (3 x xs y ys)
  then show ?case by (auto simp: Cons_in_shuffles_iff)
qed

end
