(* ===== verification/Process_IO.thy ===== *)
theory Process_IO
  imports Prelude
begin

text \<open>
  The part of the operating system the audio wrappers use: \<open>popen\<close>,
  \<open>fread\<close>, \<open>fwrite\<close> and \<open>pclose\<close> of the C library. This is the environment
  of the program, not code of the repository: a \<open>FILE*\<close> returned by
  \<open>popen\<close> is a handle (a number) into the table of open pipes, the
  recording device is the list of bytes it will still deliver (\<open>mic\<close>), the
  playback device the list of bytes written to it so far (\<open>speaker\<close>), and
  \<open>spawn_ok\<close> says whether the system can start a process (\<open>popen\<close>
  returns \<open>NULL\<close> when it cannot). \<open>pclose\<close> frees the \<open>FILE\<close>: closing
  a stream that is not open (a second \<open>pclose\<close> of the same handle, a use
  after free) is undefined in C, and the model records that it happened in
  \<open>bad_close\<close> instead of ignoring it. A read from a recording process blocks until
  it has the requested bytes or the device has ended, so it returns the next
  \<open>min n (length mic)\<close> bytes.
\<close>

datatype pmode = PRead | PWrite

record pipe =
  p_cmd :: string
  p_mode :: pmode

record os =
  pipes :: "nat \<Rightarrow> pipe option"
  next_fd :: nat
  spawn_ok :: bool
  mic :: "byte list"
  speaker :: "byte list"
  bad_close :: bool

text \<open>Handles in use are below \<open>next_fd\<close>, so a new handle is fresh.\<close>

definition os_wf :: "os \<Rightarrow> bool" where
  "os_wf s \<longleftrightarrow> (\<forall>h \<in> dom (pipes s). h < next_fd s)"

definition popen :: "string \<Rightarrow> pmode \<Rightarrow> os \<Rightarrow> nat option \<times> os" where
  "popen cmd m s =
     (if spawn_ok s
      then (Some (next_fd s),
            s\<lparr>pipes := (pipes s)(next_fd s \<mapsto> \<lparr>p_cmd = cmd, p_mode = m\<rparr>),
              next_fd := Suc (next_fd s)\<rparr>)
      else (None, s))"

definition pclose :: "nat \<Rightarrow> os \<Rightarrow> os" where
  "pclose h s =
     (case pipes s h of
        Some p \<Rightarrow> s\<lparr>pipes := (pipes s)(h := None)\<rparr>
      | None \<Rightarrow> s\<lparr>bad_close := True\<rparr>)"

text \<open>
  Reading or writing a handle that is not an open pipe of the right direction is
  undefined in C; the model transfers nothing there, and the invariants of the
  wrappers show that they never do it.
\<close>

definition fread :: "nat \<Rightarrow> nat \<Rightarrow> os \<Rightarrow> byte list \<times> os" where
  "fread h n s =
     (case pipes s h of
        Some p \<Rightarrow> if p_mode p = PRead then (take n (mic s), s\<lparr>mic := drop n (mic s)\<rparr>) else ([], s)
      | None \<Rightarrow> ([], s))"

definition fwrite :: "nat \<Rightarrow> byte list \<Rightarrow> os \<Rightarrow> nat \<times> os" where
  "fwrite h bs s =
     (case pipes s h of
        Some p \<Rightarrow> if p_mode p = PWrite then (length bs, s\<lparr>speaker := speaker s @ bs\<rparr>) else (0, s)
      | None \<Rightarrow> (0, s))"

lemma popen_wf: "os_wf s \<Longrightarrow> os_wf (snd (popen c m s))"
  by (auto simp: os_wf_def popen_def less_Suc_eq)

lemma popen_fresh: "os_wf s \<Longrightarrow> popen c m s = (Some h, s') \<Longrightarrow> pipes s h = None"
  by (auto simp: os_wf_def popen_def split: if_splits)

lemma popen_Some:
  "popen c m s = (Some h, s') \<Longrightarrow> pipes s' = (pipes s)(h \<mapsto> \<lparr>p_cmd = c, p_mode = m\<rparr>)"
  by (auto simp: popen_def split: if_splits)

lemma popen_None: "popen c m s = (None, s') \<Longrightarrow> s' = s"
  by (auto simp: popen_def split: if_splits)

lemma pclose_wf: "os_wf s \<Longrightarrow> os_wf (pclose h s)"
  by (auto simp: os_wf_def pclose_def split: option.split)

lemma fread_frame: "fread h n s = (bs, s') \<Longrightarrow> \<exists>m. s' = s\<lparr>mic := m\<rparr>"
  by (rule exI [of _ "mic s'"]) (auto simp: fread_def split: option.splits if_splits)

lemma fwrite_frame: "fwrite h bs s = (k, s') \<Longrightarrow> \<exists>sp. s' = s\<lparr>speaker := sp\<rparr>"
  by (rule exI [of _ "speaker s'"]) (auto simp: fwrite_def split: option.splits if_splits)

text \<open>What a read takes from the device it removes from it: nothing is lost or duplicated.\<close>

lemma fread_mic: "fread h n s = (bs, s') \<Longrightarrow> bs @ mic s' = mic s"
  by (auto simp: fread_def split: option.splits if_splits)

lemma fread_open:
  "pipes s h = Some p \<Longrightarrow> p_mode p = PRead \<Longrightarrow>
     fread h n s = (take n (mic s), s\<lparr>mic := drop n (mic s)\<rparr>)"
  by (simp add: fread_def)

lemma fwrite_open:
  "pipes s h = Some p \<Longrightarrow> p_mode p = PWrite \<Longrightarrow>
     fwrite h bs s = (length bs, s\<lparr>speaker := speaker s @ bs\<rparr>)"
  by (simp add: fwrite_def)

text \<open>A process started from a well-formed table and closed again leaves the table as it was.\<close>

lemma os_wf_next_free: "os_wf s \<Longrightarrow> pipes s (next_fd s) = None"
  by (auto simp: os_wf_def)

lemma popen_pclose_pipes:
  "os_wf s \<Longrightarrow> popen c m s = (Some h, s1) \<Longrightarrow> pipes s2 = pipes s1 \<Longrightarrow> pipes (pclose h s2) = pipes s"
  by (auto simp: popen_def pclose_def os_wf_next_free split: if_splits option.split)

lemma pclose_open_bad_close: "pipes s h \<noteq> None \<Longrightarrow> bad_close (pclose h s) = bad_close s"
  by (auto simp: pclose_def)

lemma popen_next_fd: "next_fd s \<le> next_fd (snd (popen c m s))"
  by (simp add: popen_def)

lemma pclose_next_fd [simp]: "next_fd (pclose h s) = next_fd s"
  by (simp add: pclose_def split: option.split)

lemma os_wf_same_pipes: "os_wf s \<Longrightarrow> pipes t = pipes s \<Longrightarrow> next_fd s \<le> next_fd t \<Longrightarrow> os_wf t"
  unfolding os_wf_def by (metis order_less_le_trans)

end
