(* ===== verification/Recorder.thy ===== *)
theory Recorder
  imports Process_IO
begin

text \<open>
  The class \<open>Recorder\<close> of \<open>src/diatheke/recorder.h\<close> and
  \<open>src/diatheke/recorder.cpp\<close>: it starts an external recording program with
  \<open>popen(cmd, "r")\<close> and hands the bytes that program writes to the Diatheke SDK
  as an \<open>AudioReader\<close>. Its state is the command and the \<open>FILE*\<close> of the
  pipe (\<open>None\<close> for \<open>nullptr\<close>). Each method is a function on the recorder and
  the operating system; \<open>readAudio\<close> may throw. The lemmas show the invariant
  (a non-null \<open>mStdout\<close> is an open read pipe of the recorder's command), that
  \<open>start\<close> and \<open>stop\<close> are idempotent as their comments say, the error of a
  read before \<open>start\<close>, and that a start/read/stop cycle leaves the table of
  open pipes as it found it.
\<close>

record recorder =
  mCmd :: string
  mStdout :: "nat option"

text \<open>\<open>Recorder::Recorder(const std::string &recordCmd)\<close>\<close>

definition Recorder :: "string \<Rightarrow> recorder" where
  "Recorder cmd = \<lparr>mCmd = cmd, mStdout = None\<rparr>"

text \<open>\<open>Recorder::start()\<close>: ignored when running; otherwise \<open>popen\<close>, which may give \<open>NULL\<close>.\<close>

definition recorder_start :: "recorder \<Rightarrow> os \<Rightarrow> recorder \<times> os" where
  "recorder_start r s =
     (if mStdout r \<noteq> None then (r, s)
      else (case popen (mCmd r) PRead s of (f, s') \<Rightarrow> (r\<lparr>mStdout := f\<rparr>, s')))"

text \<open>\<open>Recorder::readAudio(buffer, buffSize)\<close>: the bytes read; throws when not running.\<close>

definition recorder_readAudio :: "recorder \<Rightarrow> nat \<Rightarrow> os \<Rightarrow> (exn + byte list) \<times> os" where
  "recorder_readAudio r n s =
     (case mStdout r of
        None \<Rightarrow> (Inl (RuntimeError ''can't read audio - recorder not started.''), s)
      | Some f \<Rightarrow> (case fread f n s of (bs, s') \<Rightarrow> (Inr bs, s')))"

text \<open>\<open>Recorder::stop()\<close>: ignored when stopped; otherwise \<open>pclose\<close> and reset to null.\<close>

definition recorder_stop :: "recorder \<Rightarrow> os \<Rightarrow> recorder \<times> os" where
  "recorder_stop r s =
     (case mStdout r of
        None \<Rightarrow> (r, s)
      | Some f \<Rightarrow> (r\<lparr>mStdout := None\<rparr>, pclose f s))"

text \<open>\<open>Recorder::~Recorder()\<close> calls \<open>stop()\<close>.\<close>

definition recorder_destroy :: "recorder \<Rightarrow> os \<Rightarrow> os" where
  "recorder_destroy r s = snd (recorder_stop r s)"

section \<open>Invariant\<close>

definition recorder_inv :: "recorder \<Rightarrow> os \<Rightarrow> bool" where
  "recorder_inv r s \<longleftrightarrow> os_wf s \<and>
     (case mStdout r of None \<Rightarrow> True
      | Some f \<Rightarrow> pipes s f = Some \<lparr>p_cmd = mCmd r, p_mode = PRead\<rparr>)"

lemma Recorder_inv: "os_wf s \<Longrightarrow> recorder_inv (Recorder c) s"
  by (simp add: recorder_inv_def Recorder_def)

lemma recorder_start_inv:
  "recorder_inv r s \<Longrightarrow> recorder_start r s = (r', s') \<Longrightarrow> recorder_inv r' s'"
  by (auto simp: recorder_inv_def recorder_start_def popen_def os_wf_def less_Suc_eq
           split: if_splits option.splits)

lemma recorder_readAudio_inv:
  "recorder_inv r s \<Longrightarrow> recorder_readAudio r n s = (x, s') \<Longrightarrow> recorder_inv r s'"
  by (auto simp: recorder_inv_def recorder_readAudio_def os_wf_def dest!: fread_frame
           split: option.splits prod.splits)

lemma recorder_stop_inv:
  "recorder_inv r s \<Longrightarrow> recorder_stop r s = (r', s') \<Longrightarrow> recorder_inv r' s'"
  by (auto simp: recorder_inv_def recorder_stop_def pclose_wf split: option.splits)

lemma recorder_readAudio_pipes:
  "recorder_readAudio r n s = (x, s') \<Longrightarrow> pipes s' = pipes s \<and> next_fd s' = next_fd s \<and> bad_close s' = bad_close s"
  by (auto simp: recorder_readAudio_def dest!: fread_frame split: option.splits prod.splits)

section \<open>Behaviour\<close>

text \<open>A read hands over the next bytes of the recording: none is lost or read twice.\<close>

lemma recorder_readAudio_mic:
  "recorder_readAudio r n s = (Inr bs, s') \<Longrightarrow> bs @ mic s' = mic s"
  by (auto simp: recorder_readAudio_def dest: fread_mic split: option.splits prod.splits)

lemma recorder_readAudio_started:
  "recorder_inv r s \<Longrightarrow> mStdout r = Some f \<Longrightarrow>
     recorder_readAudio r n s = (Inr (take n (mic s)), s\<lparr>mic := drop n (mic s)\<rparr>)"
  by (simp add: recorder_inv_def recorder_readAudio_def fread_open)

lemma recorder_start_running: "mStdout r \<noteq> None \<Longrightarrow> recorder_start r s = (r, s)"
  by (simp add: recorder_start_def)

lemma recorder_stop_stopped: "mStdout r = None \<Longrightarrow> recorder_stop r s = (r, s)"
  by (simp add: recorder_stop_def)

lemma recorder_stop_result: "mStdout (fst (recorder_stop r s)) = None"
  by (simp add: recorder_stop_def split: option.split)

lemma recorder_start_Some:
  "mStdout r = None \<Longrightarrow> spawn_ok s \<Longrightarrow> mStdout (fst (recorder_start r s)) = Some (next_fd s)"
  by (simp add: recorder_start_def popen_def)

section \<open>A start/stop cycle\<close>

lemma recorder_cycle_pipes:
  assumes "os_wf s" "recorder_start (Recorder c) s = (r, s1)" "pipes s2 = pipes s1"
  shows "pipes (snd (recorder_stop r s2)) = pipes s"
  using assms
  by (auto simp: recorder_start_def Recorder_def recorder_stop_def popen_pclose_pipes
           dest: popen_None split: option.splits prod.splits)

lemma recorder_start_next_fd: "recorder_start r s = (r', s') \<Longrightarrow> next_fd s \<le> next_fd s'"
  by (auto simp: recorder_start_def popen_def split: if_splits)

lemma recorder_start_bad_close: "recorder_start r s = (r', s') \<Longrightarrow> bad_close s' = bad_close s"
  by (auto simp: recorder_start_def popen_def split: if_splits)

lemma recorder_stop_next_fd: "next_fd (snd (recorder_stop r s)) = next_fd s"
  by (simp add: recorder_stop_def split: option.split)

lemma recorder_stop_twice [simp]: "snd (recorder_stop (fst (recorder_stop r s)) t) = t"
  by (simp add: recorder_stop_def split: option.split)

text \<open>
  Whatever happens between \<open>start\<close> and \<open>stop\<close>, as long as it opens and
  closes no pipe, a fresh recorder leaves the table of open pipes as it found it.
\<close>

lemma recorder_session_pipes:
  assumes "os_wf s" "recorder_start (Recorder c) s = (r, s1)"
    and "pipes s2 = pipes s1" "next_fd s2 = next_fd s1"
  shows "pipes (snd (recorder_stop r s2)) = pipes s \<and> os_wf (snd (recorder_stop r s2)) \<and>
         bad_close (snd (recorder_stop r s2)) = bad_close s2"
proof -
  have "pipes (snd (recorder_stop r s2)) = pipes s"
    using recorder_cycle_pipes [OF assms(1,2,3)] .
  moreover have "bad_close (snd (recorder_stop r s2)) = bad_close s2"
    using assms(2,3)
    by (auto simp: recorder_start_def Recorder_def recorder_stop_def popen_def pclose_open_bad_close
             split: if_splits)
  moreover have "next_fd s \<le> next_fd (snd (recorder_stop r s2))"
    using recorder_start_next_fd [OF assms(2)] assms(4) by (simp add: recorder_stop_next_fd)
  ultimately show ?thesis
    using assms(1) os_wf_same_pipes by blast
qed

section \<open>Properties\<close>

text \<open>
  C31. A fresh recorder on a system that can start processes: \<open>start\<close>,
  one \<open>readAudio\<close> of \<open>n\<close> bytes and \<open>stop\<close> hand over exactly the next
  \<open>n\<close> bytes of the recording, leave the recorder stopped and the table of open
  pipes as it was, and keep the system well formed.
\<close>

theorem recorder_cycle:
  assumes "os_wf s" "spawn_ok s"
  shows "case recorder_start (Recorder c) s of (r1, s1) \<Rightarrow>
           case recorder_readAudio r1 n s1 of (x, s2) \<Rightarrow>
             case recorder_stop r1 s2 of (r3, s3) \<Rightarrow>
               x = Inr (take n (mic s)) \<and> mStdout r3 = None \<and> pipes s3 = pipes s \<and>
               mic s3 = drop n (mic s) \<and> os_wf s3"
proof -
  have fresh: "pipes s (next_fd s) = None" using assms(1) by (auto simp: os_wf_def)
  have wf: "os_wf (s\<lparr>next_fd := Suc (next_fd s), mic := drop n (mic s)\<rparr>)"
    using assms(1) by (auto simp: os_wf_def less_Suc_eq)
  show ?thesis
    using assms(2) fresh wf
    by (simp add: Recorder_def recorder_start_def popen_def recorder_readAudio_def fread_def
        recorder_stop_def pclose_def fun_upd_idem os_wf_def)
qed

lemma recorder_cycle_witness:
  "case recorder_start (Recorder ''rec'') \<lparr>pipes = Map.empty, next_fd = 3, spawn_ok = True, mic = [1, 2, 3], speaker = [], bad_close = False\<rparr> of (r1, s1) \<Rightarrow>
     case recorder_readAudio r1 2 s1 of (x, s2) \<Rightarrow>
       case recorder_stop r1 s2 of (r3, s3) \<Rightarrow>
         x = Inr (take 2 [1, 2, 3]) \<and> mStdout r3 = None \<and> pipes s3 = Map.empty \<and>
         mic s3 = drop 2 [1, 2, 3] \<and> os_wf s3"
  using recorder_cycle [where s = "\<lparr>pipes = Map.empty, next_fd = 3, spawn_ok = True, mic = [1, 2, 3], speaker = [], bad_close = False\<rparr>"
      and c = "''rec''" and n = 2]
  by (simp add: os_wf_def)

text \<open>C32. \<open>start\<close> is idempotent ("Ignore if the recorder is already running"), also when \<open>popen\<close> fails.\<close>

theorem recorder_start_idempotent:
  "recorder_start (fst (recorder_start r s)) (snd (recorder_start r s)) = recorder_start r s"
  by (auto simp: recorder_start_def popen_def split: prod.split)

text \<open>
  C33. \<open>stop\<close> is idempotent ("Ignore if the recorder is already stopped"): for a
  well-formed recorder on a system where no stream has been closed twice, a
  second \<open>stop\<close> changes nothing, and neither \<open>stop\<close> nor the destructor
  that follows it closes the recording stream a second time.
\<close>

theorem recorder_stop_idempotent:
  assumes "recorder_inv r s" "\<not> bad_close s"
  shows "recorder_stop (fst (recorder_stop r s)) (snd (recorder_stop r s)) = recorder_stop r s \<and>
         \<not> bad_close (recorder_destroy (fst (recorder_stop r s)) (snd (recorder_stop r s)))"
  using assms
  by (auto simp: recorder_inv_def recorder_stop_def recorder_destroy_def pclose_def split: option.splits)

lemma recorder_stop_idempotent_witness:
  "recorder_stop (fst (recorder_stop \<lparr>mCmd = ''rec'', mStdout = Some 3\<rparr>
       \<lparr>pipes = [3 \<mapsto> \<lparr>p_cmd = ''rec'', p_mode = PRead\<rparr>], next_fd = 4, spawn_ok = True, mic = [], speaker = [], bad_close = False\<rparr>))
     (snd (recorder_stop \<lparr>mCmd = ''rec'', mStdout = Some 3\<rparr>
       \<lparr>pipes = [3 \<mapsto> \<lparr>p_cmd = ''rec'', p_mode = PRead\<rparr>], next_fd = 4, spawn_ok = True, mic = [], speaker = [], bad_close = False\<rparr>)) =
   recorder_stop \<lparr>mCmd = ''rec'', mStdout = Some 3\<rparr>
     \<lparr>pipes = [3 \<mapsto> \<lparr>p_cmd = ''rec'', p_mode = PRead\<rparr>], next_fd = 4, spawn_ok = True, mic = [], speaker = [], bad_close = False\<rparr>"
  using recorder_stop_idempotent [of "\<lparr>mCmd = ''rec'', mStdout = Some 3\<rparr>"
      "\<lparr>pipes = [3 \<mapsto> \<lparr>p_cmd = ''rec'', p_mode = PRead\<rparr>], next_fd = 4, spawn_ok = True, mic = [], speaker = [], bad_close = False\<rparr>"]
  by (simp add: recorder_inv_def os_wf_def)

text \<open>
  C34. When the recording program cannot be started, \<open>start\<close> fails silently:
  the recorder stays stopped, the next \<open>readAudio\<close> throws "can't read audio -
  recorder not started." and \<open>stop\<close> does nothing.
\<close>

theorem recorder_start_failure:
  assumes "\<not> spawn_ok s"
  shows "recorder_start (Recorder c) s = (Recorder c, s) \<and>
         recorder_readAudio (Recorder c) n s = (Inl (RuntimeError ''can't read audio - recorder not started.''), s) \<and>
         recorder_stop (Recorder c) s = (Recorder c, s)"
  using assms by (simp add: Recorder_def recorder_start_def popen_def recorder_readAudio_def recorder_stop_def)

lemma recorder_start_failure_witness:
  "recorder_start (Recorder ''rec'') \<lparr>pipes = Map.empty, next_fd = 3, spawn_ok = False, mic = [1], speaker = [], bad_close = False\<rparr> =
     (Recorder ''rec'', \<lparr>pipes = Map.empty, next_fd = 3, spawn_ok = False, mic = [1], speaker = [], bad_close = False\<rparr>) \<and>
   recorder_readAudio (Recorder ''rec'') 4 \<lparr>pipes = Map.empty, next_fd = 3, spawn_ok = False, mic = [1], speaker = [], bad_close = False\<rparr> =
     (Inl (RuntimeError ''can't read audio - recorder not started.''),
      \<lparr>pipes = Map.empty, next_fd = 3, spawn_ok = False, mic = [1], speaker = [], bad_close = False\<rparr>) \<and>
   recorder_stop (Recorder ''rec'') \<lparr>pipes = Map.empty, next_fd = 3, spawn_ok = False, mic = [1], speaker = [], bad_close = False\<rparr> =
     (Recorder ''rec'', \<lparr>pipes = Map.empty, next_fd = 3, spawn_ok = False, mic = [1], speaker = [], bad_close = False\<rparr>)"
  by (rule recorder_start_failure) simp

text \<open>
  C38. The recorder's well-formedness (a running recorder holds an open read pipe
  of its own command, on a well-formed system) is kept by every method:
  \<open>start\<close>, \<open>readAudio\<close>, \<open>stop\<close>, and the destructor leaves the system
  well formed.
\<close>

theorem recorder_wf:
  assumes "recorder_inv r s"
  shows "recorder_inv (fst (recorder_start r s)) (snd (recorder_start r s)) \<and>
         recorder_inv r (snd (recorder_readAudio r n s)) \<and>
         recorder_inv (fst (recorder_stop r s)) (snd (recorder_stop r s)) \<and>
         os_wf (recorder_destroy r s)"
  using recorder_start_inv [OF assms] recorder_readAudio_inv [OF assms] recorder_stop_inv [OF assms]
  by (auto simp: recorder_destroy_def recorder_inv_def prod_eq_iff)

lemma recorder_wf_witness:
  "recorder_inv \<lparr>mCmd = ''rec'', mStdout = None\<rparr> \<lparr>pipes = Map.empty, next_fd = 3, spawn_ok = True, mic = [1], speaker = [], bad_close = False\<rparr> \<and>
   os_wf (recorder_destroy \<lparr>mCmd = ''rec'', mStdout = None\<rparr> \<lparr>pipes = Map.empty, next_fd = 3, spawn_ok = True, mic = [1], speaker = [], bad_close = False\<rparr>)"
proof -
  have inv: "recorder_inv \<lparr>mCmd = ''rec'', mStdout = None\<rparr> \<lparr>pipes = Map.empty, next_fd = 3, spawn_ok = True, mic = [1], speaker = [], bad_close = False\<rparr>"
    by (simp add: recorder_inv_def os_wf_def)
  show ?thesis using inv recorder_wf [OF inv, of 1] by simp
qed

end
