(* ===== verification/Player.thy ===== *)
theory Player
  imports Process_IO
begin

text \<open>
  The class \<open>Player\<close> declared in \<open>src/diatheke/player.h\<close>: it starts an
  external playback program with \<open>popen(cmd, "w")\<close> and writes the TTS audio
  the Diatheke SDK gives it to that program, as an \<open>AudioWriter\<close>. The
  declaration (the two fields, \<open>start\<close>, \<open>stop\<close>, \<open>writeAudio\<close>, a destructor
  that stops a running player) is in the repository; the definitions of the
  methods (\<open>player.cpp\<close>) are not, so they are modelled from the
  specification's AudioWriter capability (start, write a chunk, stop) in the
  shape of their counterpart \<open>Recorder\<close>: \<open>start\<close> and \<open>stop\<close> are
  idempotent, and writing to a player that is not running throws.
\<close>

record player =
  player_mCmd :: string
  mStdin :: "nat option"

definition Player :: "string \<Rightarrow> player" where
  "Player cmd = \<lparr>player_mCmd = cmd, mStdin = None\<rparr>"

definition player_start :: "player \<Rightarrow> os \<Rightarrow> player \<times> os" where
  "player_start p s =
     (if mStdin p \<noteq> None then (p, s)
      else (case popen (player_mCmd p) PWrite s of (f, s') \<Rightarrow> (p\<lparr>mStdin := f\<rparr>, s')))"

definition player_writeAudio :: "player \<Rightarrow> byte list \<Rightarrow> os \<Rightarrow> (exn + nat) \<times> os" where
  "player_writeAudio p bs s =
     (case mStdin p of
        None \<Rightarrow> (Inl (RuntimeError ''can't write audio - player not started.''), s)
      | Some f \<Rightarrow> (case fwrite f bs s of (k, s') \<Rightarrow> (Inr k, s')))"

definition player_stop :: "player \<Rightarrow> os \<Rightarrow> player \<times> os" where
  "player_stop p s =
     (case mStdin p of
        None \<Rightarrow> (p, s)
      | Some f \<Rightarrow> (p\<lparr>mStdin := None\<rparr>, pclose f s))"

definition player_destroy :: "player \<Rightarrow> os \<Rightarrow> os" where
  "player_destroy p s = snd (player_stop p s)"

definition player_inv :: "player \<Rightarrow> os \<Rightarrow> bool" where
  "player_inv p s \<longleftrightarrow> os_wf s \<and>
     (case mStdin p of None \<Rightarrow> True
      | Some f \<Rightarrow> pipes s f = Some \<lparr>p_cmd = player_mCmd p, p_mode = PWrite\<rparr>)"

lemma Player_inv: "os_wf s \<Longrightarrow> player_inv (Player c) s"
  by (simp add: player_inv_def Player_def)

lemma player_start_inv:
  "player_inv p s \<Longrightarrow> player_start p s = (p', s') \<Longrightarrow> player_inv p' s'"
  by (auto simp: player_inv_def player_start_def popen_def os_wf_def less_Suc_eq
           split: if_splits option.splits)

lemma player_writeAudio_inv:
  "player_inv p s \<Longrightarrow> player_writeAudio p bs s = (x, s') \<Longrightarrow> player_inv p s'"
  by (auto simp: player_inv_def player_writeAudio_def os_wf_def dest!: fwrite_frame
           split: option.splits prod.splits)

lemma player_stop_inv:
  "player_inv p s \<Longrightarrow> player_stop p s = (p', s') \<Longrightarrow> player_inv p' s'"
  by (auto simp: player_inv_def player_stop_def pclose_wf split: option.splits)

lemma player_writeAudio_pipes:
  "player_writeAudio p bs s = (x, s') \<Longrightarrow> pipes s' = pipes s \<and> next_fd s' = next_fd s \<and> bad_close s' = bad_close s"
  by (auto simp: player_writeAudio_def dest!: fwrite_frame split: option.splits prod.splits)

lemma player_writeAudio_started:
  "player_inv p s \<Longrightarrow> mStdin p = Some f \<Longrightarrow>
     player_writeAudio p bs s = (Inr (length bs), s\<lparr>speaker := speaker s @ bs\<rparr>)"
  by (simp add: player_inv_def player_writeAudio_def fwrite_open)

lemma player_stop_result: "mStdin (fst (player_stop p s)) = None"
  by (simp add: player_stop_def split: option.split)

lemma player_cycle_pipes:
  assumes "os_wf s" "player_start (Player c) s = (p, s1)" "pipes s2 = pipes s1"
  shows "pipes (snd (player_stop p s2)) = pipes s"
  using assms
  by (auto simp: player_start_def Player_def player_stop_def popen_pclose_pipes
           dest: popen_None split: option.splits prod.splits)

lemma player_start_next_fd: "player_start p s = (p', s') \<Longrightarrow> next_fd s \<le> next_fd s'"
  by (auto simp: player_start_def popen_def split: if_splits)

lemma player_start_bad_close: "player_start p s = (p', s') \<Longrightarrow> bad_close s' = bad_close s"
  by (auto simp: player_start_def popen_def split: if_splits)

lemma player_stop_next_fd: "next_fd (snd (player_stop p s)) = next_fd s"
  by (simp add: player_stop_def split: option.split)

lemma player_stop_twice [simp]: "snd (player_stop (fst (player_stop p s)) t) = t"
  by (simp add: player_stop_def split: option.split)

lemma player_session_pipes:
  assumes "os_wf s" "player_start (Player c) s = (p, s1)"
    and "pipes s2 = pipes s1" "next_fd s2 = next_fd s1"
  shows "pipes (snd (player_stop p s2)) = pipes s \<and> os_wf (snd (player_stop p s2)) \<and>
         bad_close (snd (player_stop p s2)) = bad_close s2"
proof -
  have "pipes (snd (player_stop p s2)) = pipes s"
    using player_cycle_pipes [OF assms(1,2,3)] .
  moreover have "bad_close (snd (player_stop p s2)) = bad_close s2"
    using assms(2,3)
    by (auto simp: player_start_def Player_def player_stop_def popen_def pclose_open_bad_close
             split: if_splits)
  moreover have "next_fd s \<le> next_fd (snd (player_stop p s2))"
    using player_start_next_fd [OF assms(2)] assms(4) by (simp add: player_stop_next_fd)
  ultimately show ?thesis
    using assms(1) os_wf_same_pipes by blast
qed

end
