(* ===== verification/Diatheke_Client.thy ===== *)
theory Diatheke_Client
  imports Recorder Player
begin

text \<open>
  The Diatheke protocol messages the examples read and build, and the interface
  to the Diatheke SDK (\<open>Diatheke::Client\<close>, \<open>ReadASRAudio\<close>, \<open>WriteTTSAudio\<close>),
  which is not part of the repository. The SDK is modelled as what the
  specification (section 6) says it offers: each server answer is a function of
  a server state \<open>'srv\<close> given in a record of type \<open>'srv server\<close>, so that
  every theorem holds for every server, and a concrete server is a test double.
  The world a client runs in is a record: the server state, the operating
  system of \<open>Process_IO\<close>, the list of SDK calls made so far (the observable
  interaction), the console output and the unread lines of standard input.
\<close>

section \<open>Protocol messages\<close>

type_synonym token = string

text \<open>\<open>cobaltspeech::diatheke::WaitForUserAction\<close>, \<open>ReplyAction\<close>, \<open>CommandAction\<close>.\<close>

record wait_for_user_action =
  immediate :: bool
  requires_wake_word :: bool

record reply_action =
  reply_text :: string
  luna_model :: string

record command_action =
  command_id :: string
  input_parameters :: "(string \<times> string) list"

text \<open>
  \<open>ActionData\<close>: its payload is a protobuf \<open>oneof\<close>, so at most one of
  \<open>has_input()\<close>, \<open>has_reply()\<close>, \<open>has_command()\<close> holds; \<open>ActionNotSet\<close> is the
  message with none of them set (or with a kind this client does not know).
\<close>

datatype action =
    Input wait_for_user_action
  | Reply reply_action
  | Command command_action
  | ActionNotSet

text \<open>\<open>SessionOutput\<close> (aliased \<open>DiathekeSession\<close> in the sources).\<close>

record session_output =
  token :: token
  action_list :: "action list"

record asr_result =
  asr_text :: string
  confidence :: real

text \<open>\<open>CommandResult\<close>: the examples set only its \<open>id\<close>.\<close>

record command_result =
  result_id :: string

record version_response =
  ver_diatheke :: string
  ver_chosun :: string
  ver_cubic :: string
  ver_luna :: string

record model_info =
  mdl_id :: string
  mdl_name :: string
  mdl_language :: string
  mdl_asr_sample_rate :: nat
  mdl_tts_sample_rate :: nat

section \<open>The server behind the SDK\<close>

text \<open>
  What the server answers to each request. The recogniser is three functions
  of the audio streamed so far: whether it has detected the end of the
  utterance, the transcript it gives, and whether the ASR stream has failed
  (a network error, an invalid token: section 7's external-call failure) once
  that audio was sent. A TTS stream is the list of messages it delivers: audio
  chunks, or the error the stream ends with.
\<close>

record 'srv server =
  sv_version :: "'srv \<Rightarrow> (exn + version_response) \<times> 'srv"
  sv_listModels :: "'srv \<Rightarrow> (exn + model_info list) \<times> 'srv"
  sv_createSession :: "'srv \<Rightarrow> string \<Rightarrow> (exn + session_output) \<times> 'srv"
  sv_deleteSession :: "'srv \<Rightarrow> token \<Rightarrow> (exn + unit) \<times> 'srv"
  sv_processText :: "'srv \<Rightarrow> token \<Rightarrow> string \<Rightarrow> (exn + session_output) \<times> 'srv"
  sv_processASRResult :: "'srv \<Rightarrow> token \<Rightarrow> asr_result \<Rightarrow> (exn + session_output) \<times> 'srv"
  sv_processCommandResult :: "'srv \<Rightarrow> token \<Rightarrow> command_result \<Rightarrow> (exn + session_output) \<times> 'srv"
  sv_newSessionASRStream :: "'srv \<Rightarrow> token \<Rightarrow> (exn + unit) \<times> 'srv"
  sv_asr_done :: "byte list \<Rightarrow> bool"
  sv_asr_result :: "byte list \<Rightarrow> asr_result"
  sv_asr_error :: "byte list \<Rightarrow> exn option"
  sv_newTTSStream :: "'srv \<Rightarrow> reply_action \<Rightarrow> (exn + (exn + byte list) list) \<times> 'srv"

text \<open>The SDK calls a client makes, in the order it makes them.\<close>

datatype call =
    CallClient string bool
  | CallVersion
  | CallListModels
  | CallCreateSession string
  | CallDeleteSession token
  | CallProcessText token string
  | CallProcessASRResult token asr_result
  | CallProcessCommandResult token command_result
  | CallNewSessionASRStream token
  | CallNewTTSStream reply_action

record 'srv world =
  srv :: 'srv
  w_os :: os
  calls :: "call list"
  stdout :: "piece list"
  stdin :: "string list"

section \<open>Client operations\<close>

text \<open>An SDK call: recorded, then answered by the server.\<close>

definition client_call :: "call \<Rightarrow> ('srv \<Rightarrow> (exn + 'a) \<times> 'srv) \<Rightarrow> ('srv world, 'a) exc" where
  "client_call c f w = (case f (srv w) of (r, s') \<Rightarrow> (r, w\<lparr>srv := s', calls := calls w @ [c]\<rparr>))"

text \<open>
  \<open>Diatheke::Client client(serverAddress, insecureConnection)\<close>: the client
  object opens its channel to the server lazily, so constructing it is recorded
  and cannot fail; the server sees nothing until the first call.
\<close>

definition new_client :: "string \<Rightarrow> bool \<Rightarrow> ('srv world, unit) exc" where
  "new_client addr insecure = client_call (CallClient addr insecure) (\<lambda>s. (Inr (), s))"

definition cout :: "piece list \<Rightarrow> ('srv world, unit) exc" where
  "cout ps = modifyE (\<lambda>w. w\<lparr>stdout := stdout w @ ps\<rparr>)"

text \<open>\<open>std::getline(std::cin, text)\<close>: at end of input the string stays empty.\<close>

definition getline :: "('srv world, string) exc" where
  "getline w = (case stdin w of [] \<Rightarrow> (Inr [], w) | l # ls \<Rightarrow> (Inr l, w\<lparr>stdin := ls\<rparr>))"

text \<open>Operations of the operating system, run from the world.\<close>

definition on_os :: "(os \<Rightarrow> 'a \<times> os) \<Rightarrow> ('srv world, 'a) exc" where
  "on_os f w = (case f (w_os w) of (x, s') \<Rightarrow> (Inr x, w\<lparr>w_os := s'\<rparr>))"

definition on_os_exc :: "(os \<Rightarrow> (exn + 'a) \<times> os) \<Rightarrow> ('srv world, 'a) exc" where
  "on_os_exc f w = (case f (w_os w) of (r, s') \<Rightarrow> (r, w\<lparr>w_os := s'\<rparr>))"

definition os_cleanup :: "(os \<Rightarrow> os) \<Rightarrow> 'srv world \<Rightarrow> 'srv world" where
  "os_cleanup c w = w\<lparr>w_os := c (w_os w)\<rparr>"

text \<open>
  The table of open pipes is \<open>P\<close> and no stream was closed twice: the
  resource invariant of the clients, which must close every recording or
  playback process they start, once (section 5 of the specification).
\<close>

definition pipes_kept :: "(nat \<Rightarrow> pipe option) \<Rightarrow> 'srv world \<Rightarrow> bool" where
  "pipes_kept P w \<longleftrightarrow> os_wf (w_os w) \<and> pipes (w_os w) = P \<and> \<not> bad_close (w_os w)"

text \<open>
  Since the world was \<open>w\<close> with the calls \<open>c0\<close>, no call has deleted a session.
\<close>

definition no_delete :: "call list \<Rightarrow> bool" where
  "no_delete cs \<longleftrightarrow> (\<forall>t. CallDeleteSession t \<notin> set cs)"

definition calls_after :: "call list \<Rightarrow> 'srv world \<Rightarrow> bool" where
  "calls_after c0 w \<longleftrightarrow> (\<exists>cs. calls w = c0 @ cs \<and> no_delete cs)"

section \<open>ReadASRAudio and WriteTTSAudio\<close>

text \<open>
  \<open>Diatheke::ReadASRAudio(stream, reader, buffSize)\<close> (SDK, modelled from
  section 4.1 of the specification, capture steps 3 and 4): read up to
  \<open>buffSize\<close> bytes from the reader, send them on the ASR stream, and stop
  when the recogniser has a result or the reader has no more audio; the result
  is the recogniser's transcript of everything sent. A read that throws, or a
  stream that fails once a chunk is sent, ends the call with that exception. The loop ends because every round that goes on
  has taken at least one byte from the finite recording (the termination proof
  below); for a reader that returns nothing it stops at once.
\<close>

function read_asr_audio ::
  "'srv server \<Rightarrow> recorder \<Rightarrow> nat \<Rightarrow> byte list \<Rightarrow> os \<Rightarrow> (exn + asr_result) \<times> os" where
  "read_asr_audio sv r n sent s =
     (case recorder_readAudio r n s of
        (Inl e, s') \<Rightarrow> (Inl e, s')
      | (Inr bs, s') \<Rightarrow>
          (if bs = [] then (Inr (sv_asr_result sv sent), s')
           else case sv_asr_error sv (sent @ bs) of
             Some e \<Rightarrow> (Inl e, s')
           | None \<Rightarrow>
               if sv_asr_done sv (sent @ bs) then (Inr (sv_asr_result sv (sent @ bs)), s')
               else read_asr_audio sv r n (sent @ bs) s'))"
  by pat_completeness auto
termination
  by (relation "measure (\<lambda>(sv, r, n, sent, s). length (mic s))")
     (auto dest!: recorder_readAudio_mic [OF sym] intro: append_rest_shorter)

declare read_asr_audio.simps [simp del]

text \<open>
  \<open>Diatheke::WriteTTSAudio(stream, writer)\<close> (SDK): every chunk of the TTS
  stream is written to the writer, in order; a write that throws, or an error
  message on the stream, ends it with that exception.
\<close>

fun write_tts_audio :: "player \<Rightarrow> (exn + byte list) list \<Rightarrow> os \<Rightarrow> (exn + unit) \<times> os" where
  "write_tts_audio p [] s = (Inr (), s)"
| "write_tts_audio p (Inl e # cs) s = (Inl e, s)"
| "write_tts_audio p (Inr c # cs) s =
     (case player_writeAudio p c s of
        (Inl e, s') \<Rightarrow> (Inl e, s')
      | (Inr k, s') \<Rightarrow> write_tts_audio p cs s')"

section \<open>A test double\<close>

text \<open>
  The mock client of the scenarios of section 8 of the specification: the
  session \<open>s1\<close> asks to say ``Hello'' and to listen; the recogniser, once it
  has heard four bytes, transcribes ``turn on lights'' with confidence 0.92;
  submitting the transcript gives session \<open>s2\<close> and submitting a command
  result gives \<open>s3\<close>. Its state is \<open>unit\<close>: it answers every request the same.
\<close>

definition mock_reply :: reply_action where
  "mock_reply = \<lparr>reply_text = ''Hello'', luna_model = ''1''\<rparr>"

definition mock_input :: wait_for_user_action where
  "mock_input = \<lparr>immediate = True, requires_wake_word = False\<rparr>"

definition mock_command :: command_action where
  "mock_command = \<lparr>command_id = ''lights_on'', input_parameters = []\<rparr>"

definition mock_session :: "token \<Rightarrow> action list \<Rightarrow> session_output" where
  "mock_session t as = \<lparr>token = t, action_list = as\<rparr>"

definition mock_server :: "unit server" where
  "mock_server =
     \<lparr>sv_version = (\<lambda>s. (Inr \<lparr>ver_diatheke = ''2'', ver_chosun = ''1'', ver_cubic = ''5'', ver_luna = ''1''\<rparr>, s)),
      sv_listModels = (\<lambda>s. (Inr [], s)),
      sv_createSession = (\<lambda>s m. (Inr (mock_session ''s1'' [Reply mock_reply, Input mock_input]), s)),
      sv_deleteSession = (\<lambda>s t. (Inr (), s)),
      sv_processText = (\<lambda>s t txt. (Inr (mock_session ''s2'' []), s)),
      sv_processASRResult = (\<lambda>s t r. (Inr (mock_session ''s2'' []), s)),
      sv_processCommandResult = (\<lambda>s t r. (Inr (mock_session ''s3'' []), s)),
      sv_newSessionASRStream = (\<lambda>s t. (Inr (), s)),
      sv_asr_done = (\<lambda>audio. 4 \<le> length audio),
      sv_asr_result = (\<lambda>audio. \<lparr>asr_text = ''turn on lights'', confidence = 92 / 100\<rparr>),
      sv_asr_error = (\<lambda>audio. None),
      sv_newTTSStream = (\<lambda>s r. (Inr [Inr [1, 2], Inr [3]], s))\<rparr>"

text \<open>A machine with no open pipe that can start processes and whose microphone holds ten bytes.\<close>

definition mock_os :: os where
  "mock_os = \<lparr>pipes = Map.empty, next_fd = 3, spawn_ok = True, mic = replicate 10 7, speaker = [],
             bad_close = False\<rparr>"

definition mock_world :: "unit world" where
  "mock_world = \<lparr>srv = (), w_os = mock_os, calls = [], stdout = [], stdin = [''lights on'']\<rparr>"

section \<open>Lemmas\<close>

lemma client_call_calls: "calls (snd (client_call c f w)) = calls w @ [c]"
  by (simp add: client_call_def split: prod.split)

lemma client_call_frame:
  "client_call c f w = (r, w') \<Longrightarrow> w_os w' = w_os w \<and> stdout w' = stdout w \<and> stdin w' = stdin w"
  by (auto simp: client_call_def split: prod.splits)

lemma keepsE_client_call [intro]: "keepsE (pipes_kept P) (client_call c f)"
  by (simp add: keepsE_def pipes_kept_def client_call_def split: prod.split)

lemma keepsE_cout [intro]: "keepsE (pipes_kept P) (cout ps)"
  by (simp add: keepsE_def pipes_kept_def cout_def modifyE_def)

lemma cout_apply [exc_simps]: "cout ps w = (Inr (), w\<lparr>stdout := stdout w @ ps\<rparr>)"
  by (simp add: cout_def exc_simps)

lemma on_os_apply [exc_simps]:
  "on_os f w = (Inr (fst (f (w_os w))), w\<lparr>w_os := snd (f (w_os w))\<rparr>)"
  by (simp add: on_os_def split: prod.split)

lemma on_os_exc_apply [exc_simps]:
  "on_os_exc f w = (fst (f (w_os w)), w\<lparr>w_os := snd (f (w_os w))\<rparr>)"
  by (simp add: on_os_exc_def split: prod.split)

lemma os_cleanup_apply [simp]: "os_cleanup c w = w\<lparr>w_os := c (w_os w)\<rparr>"
  by (simp add: os_cleanup_def)

text \<open>The SDK loops open and close no pipe.\<close>

lemma read_asr_audio_pipes:
  "read_asr_audio sv r n sent s = (x, s') \<Longrightarrow> pipes s' = pipes s \<and> next_fd s' = next_fd s \<and> bad_close s' = bad_close s"
proof (induction sv r n sent s arbitrary: x s' rule: read_asr_audio.induct)
  case (1 sv r n sent s)
  then show ?case
    by (subst (asm) read_asr_audio.simps)
       (auto split: prod.splits sum.splits if_splits option.splits dest!: recorder_readAudio_pipes)
qed

lemma write_tts_audio_pipes:
  "write_tts_audio p cs s = (x, s') \<Longrightarrow> pipes s' = pipes s \<and> next_fd s' = next_fd s \<and> bad_close s' = bad_close s"
proof (induction p cs s arbitrary: x s' rule: write_tts_audio.induct)
  case (3 p c cs s)
  then show ?case
    by (auto split: prod.splits sum.splits dest!: player_writeAudio_pipes)
qed simp_all

lemma keepsE_client_call_after:
  "(\<And>t. c \<noteq> CallDeleteSession t) \<Longrightarrow> keepsE (calls_after c0) (client_call c f)"
  by (fastforce simp: keepsE_def calls_after_def no_delete_def client_call_def split: prod.split)

lemma calls_after_os [simp]: "calls_after c0 (w\<lparr>w_os := s\<rparr>) = calls_after c0 w"
  by (simp add: calls_after_def)

lemma calls_after_stdout [simp]: "calls_after c0 (w\<lparr>stdout := out\<rparr>) = calls_after c0 w"
  by (simp add: calls_after_def)

lemma keepsE_on_os_after [intro]: "keepsE (calls_after c0) (on_os f)"
  by (simp add: keepsE_def exc_simps)

lemma keepsE_on_os_exc_after [intro]: "keepsE (calls_after c0) (on_os_exc f)"
  by (simp add: keepsE_def exc_simps)

lemma keepsE_cout_after [intro]: "keepsE (calls_after c0) (cout ps)"
  by (simp add: keepsE_def exc_simps)

lemmas calls_after_rules = keepsE_bindE keepsE_unwindE keepsE_finallyE keepsE_modifyE
  keepsE_on_os_after keepsE_on_os_exc_after keepsE_cout_after keepsE_client_call_after

text \<open>
  C8. \<open>ReadASRAudio\<close> on a running recorder, reading blocks of \<open>n > 0\<close>
  bytes, always returns, and it consumes the recording from the front: the
  bytes \<open>heard\<close> are removed from the front of the recording, none lost and
  none read twice; at no block boundary before their end was the recogniser
  done or the stream failed; and either it returns the recogniser's transcript
  of the audio already sent followed by \<open>heard\<close>, the recording being exhausted
  or the recogniser done, or, having sent some audio, it throws the error the
  stream failed with.
\<close>

lemma read_asr_audio_result:
  assumes "recorder_inv r s" "mStdout r \<noteq> None" "0 < n"
  shows "\<exists>heard s'. heard @ mic s' = mic s \<and>
     (\<forall>k. 0 < k \<longrightarrow> k < length heard \<longrightarrow> n dvd k \<longrightarrow>
          sv_asr_error sv (sent @ take k heard) = None \<and> \<not> sv_asr_done sv (sent @ take k heard)) \<and>
     (read_asr_audio sv r n sent s = (Inr (sv_asr_result sv (sent @ heard)), s') \<and>
        (mic s' = [] \<or> sv_asr_done sv (sent @ heard)) \<or>
      heard \<noteq> [] \<and> (\<exists>e. sv_asr_error sv (sent @ heard) = Some e \<and> read_asr_audio sv r n sent s = (Inl e, s')))"
  using assms
proof (induction sv r n sent s rule: read_asr_audio.induct)
  case (1 sv r n sent s)
  obtain f where f: "mStdout r = Some f" using "1.prems"(2) by blast
  let ?bs = "take n (mic s)" and ?s1 = "s\<lparr>mic := drop n (mic s)\<rparr>"
  have rd: "recorder_readAudio r n s = (Inr ?bs, ?s1)"
    using recorder_readAudio_started [OF "1.prems"(1) f] .
  have inv1: "recorder_inv r ?s1" using recorder_readAudio_inv [OF "1.prems"(1) rd] .
  have run: "read_asr_audio sv r n sent s =
      (if ?bs = [] then (Inr (sv_asr_result sv sent), ?s1)
       else case sv_asr_error sv (sent @ ?bs) of Some e \<Rightarrow> (Inl e, ?s1)
         | None \<Rightarrow> if sv_asr_done sv (sent @ ?bs) then (Inr (sv_asr_result sv (sent @ ?bs)), ?s1)
                   else read_asr_audio sv r n (sent @ ?bs) ?s1)"
    by (subst read_asr_audio.simps) (simp add: rd)
  have short: "\<forall>k. 0 < k \<longrightarrow> k < length ?bs \<longrightarrow> n dvd k \<longrightarrow> P k" for P
    by (auto dest: dvd_imp_le)
  show ?case
  proof (cases "?bs = []")
    case True
    then show ?thesis using run "1.prems"(3) by (intro exI [of _ "[]"] exI [of _ ?s1]) simp
  next
    case nonempty: False
    show ?thesis
    proof (cases "sv_asr_error sv (sent @ ?bs)")
      case (Some e)
      then show ?thesis using run nonempty short by (intro exI [of _ ?bs] exI [of _ ?s1]) simp
    next
      case None
      show ?thesis
      proof (cases "sv_asr_done sv (sent @ ?bs)")
        case True
        then show ?thesis using run nonempty None short by (intro exI [of _ ?bs] exI [of _ ?s1]) simp
      next
        case False
        obtain heard s' where h: "heard @ mic s' = mic ?s1"
          and blocks: "\<forall>k. 0 < k \<longrightarrow> k < length heard \<longrightarrow> n dvd k \<longrightarrow>
              sv_asr_error sv ((sent @ ?bs) @ take k heard) = None \<and> \<not> sv_asr_done sv ((sent @ ?bs) @ take k heard)"
          and res: "read_asr_audio sv r n (sent @ ?bs) ?s1 = (Inr (sv_asr_result sv ((sent @ ?bs) @ heard)), s') \<and>
                (mic s' = [] \<or> sv_asr_done sv ((sent @ ?bs) @ heard)) \<or>
              heard \<noteq> [] \<and> (\<exists>e. sv_asr_error sv ((sent @ ?bs) @ heard) = Some e \<and>
                read_asr_audio sv r n (sent @ ?bs) ?s1 = (Inl e, s'))"
          using "1.IH" [OF rd [symmetric] refl nonempty None False inv1 "1.prems"(2,3)] by blast
        have full: "heard \<noteq> [] \<Longrightarrow> length ?bs = n"
          using h by (cases "n \<le> length (mic s)") auto
        have "\<forall>k. 0 < k \<longrightarrow> k < length (?bs @ heard) \<longrightarrow> n dvd k \<longrightarrow>
            sv_asr_error sv (sent @ take k (?bs @ heard)) = None \<and> \<not> sv_asr_done sv (sent @ take k (?bs @ heard))"
        proof (intro allI impI)
          fix k assume k: "0 < k" "k < length (?bs @ heard)" "n dvd k"
          then have "n \<le> k" by (simp add: dvd_imp_le)
          show "sv_asr_error sv (sent @ take k (?bs @ heard)) = None \<and> \<not> sv_asr_done sv (sent @ take k (?bs @ heard))"
          proof (cases "k = length ?bs")
            case True
            then have e: "take k (?bs @ heard) = ?bs" by (metis append_eq_conv_conj)
            show ?thesis unfolding e using None False by blast
          next
            case False
            then have "heard \<noteq> []" "length ?bs < k" using k \<open>n \<le> k\<close> by auto
            then have n: "length ?bs = n" using full by blast
            define k' where "k' = k - n"
            have k': "0 < k'" "k' < length heard" "n dvd k'"
              using k \<open>length ?bs < k\<close> n by (auto simp: k'_def dvd_diff_nat)
            then have "sv_asr_error sv ((sent @ ?bs) @ take k' heard) = None \<and>
                \<not> sv_asr_done sv ((sent @ ?bs) @ take k' heard)"
              using blocks by blast
            moreover have "take k (?bs @ heard) = ?bs @ take k' heard"
              using \<open>n \<le> k\<close> n by (simp add: k'_def)
            ultimately show ?thesis by (simp only: append_assoc) blast
          qed
        qed
        then show ?thesis
          using run nonempty None False h res by (intro exI [of _ "?bs @ heard"] exI [of _ s']) auto
      qed
    qed
  qed
qed

lemma read_asr_audio_result_witness:
  "recorder_inv \<lparr>mCmd = ''rec'', mStdout = Some 0\<rparr> (mock_os\<lparr>pipes := [0 \<mapsto> \<lparr>p_cmd = ''rec'', p_mode = PRead\<rparr>]\<rparr>) \<and>
   mStdout \<lparr>mCmd = ''rec'', mStdout = Some 0\<rparr> \<noteq> None \<and> (0 :: nat) < 4 \<and>
   (\<exists>heard s'. heard @ mic s' = mic (mock_os\<lparr>pipes := [0 \<mapsto> \<lparr>p_cmd = ''rec'', p_mode = PRead\<rparr>]\<rparr>) \<and>
     read_asr_audio mock_server \<lparr>mCmd = ''rec'', mStdout = Some 0\<rparr> 4 []
       (mock_os\<lparr>pipes := [0 \<mapsto> \<lparr>p_cmd = ''rec'', p_mode = PRead\<rparr>]\<rparr>) =
       (Inr (sv_asr_result mock_server ([] @ heard)), s') \<and>
     (mic s' = [] \<or> sv_asr_done mock_server ([] @ heard)))"
proof -
  have inv: "recorder_inv \<lparr>mCmd = ''rec'', mStdout = Some 0\<rparr> (mock_os\<lparr>pipes := [0 \<mapsto> \<lparr>p_cmd = ''rec'', p_mode = PRead\<rparr>]\<rparr>)"
    by (simp add: recorder_inv_def os_wf_def mock_os_def)
  show ?thesis
    using inv read_asr_audio_result [OF inv, where n = 4 and sv = mock_server and sent = "[]"]
    by (auto simp: mock_server_def)
qed

end
