(* ===== verification/Dispatch.thy ===== *)
theory Dispatch
  imports Diatheke_Client
begin

text \<open>
  The loop of \<open>processActions\<close>, which both Diatheke clients
  (\<open>src/diatheke/audio_client.cpp\<close> and \<open>src/diatheke/cli_client.cpp\<close>) contain
  as a copy: walk the session's action list in order; an input action or a
  command action is handed to its handler, whose updated session is returned at
  once; a reply is handed to its handler and the walk goes on; an action of no
  known kind throws, and so does reaching the end of the list. The two copies
  differ in their handlers and in the text of the end-of-list error, so the loop
  is defined once over handlers of any state type \<open>'s\<close> (the interface the
  clients instantiate), with the abstract specification of section 4.1 of the
  specification beside it: first all replies at the head of the list, then the
  first action that is not a reply decides the outcome. The refinement theorem
  says the loop is that specification, on every list and for every handler.
\<close>

type_synonym 's input_handler = "session_output \<Rightarrow> wait_for_user_action \<Rightarrow> ('s, session_output) exc"
type_synonym 's reply_handler = "reply_action \<Rightarrow> ('s, unit) exc"
type_synonym 's command_handler = "session_output \<Rightarrow> command_action \<Rightarrow> ('s, session_output) exc"

definition unknown_action_msg :: string where
  "unknown_action_msg = ''received unknown action type''"

fun dispatch ::
  "'s input_handler \<Rightarrow> 's reply_handler \<Rightarrow> 's command_handler \<Rightarrow> string \<Rightarrow>
   session_output \<Rightarrow> action list \<Rightarrow> ('s, session_output) exc" where
  "dispatch inp rep cmd msg ses [] = throwE (RuntimeError msg)"
| "dispatch inp rep cmd msg ses (Input a # _) = inp ses a"
| "dispatch inp rep cmd msg ses (Reply r # as) = bindE (rep r) (\<lambda>_. dispatch inp rep cmd msg ses as)"
| "dispatch inp rep cmd msg ses (Command c # _) = cmd ses c"
| "dispatch inp rep cmd msg ses (ActionNotSet # _) = throwE (RuntimeError unknown_action_msg)"

section \<open>Abstract specification\<close>

text \<open>The replies at the head of the list, and what follows them.\<close>

fun reply_prefix :: "action list \<Rightarrow> reply_action list" where
  "reply_prefix (Reply r # as) = r # reply_prefix as"
| "reply_prefix _ = []"

fun after_replies :: "action list \<Rightarrow> action list" where
  "after_replies (Reply r # as) = after_replies as"
| "after_replies as = as"

text \<open>Handle replies one after the other, stopping at the first that throws.\<close>

fun run_replies :: "'s reply_handler \<Rightarrow> reply_action list \<Rightarrow> ('s, unit) exc" where
  "run_replies rep [] = returnE ()"
| "run_replies rep (r # rs) = bindE (rep r) (\<lambda>_. run_replies rep rs)"

text \<open>What the first action after the replies makes of the call.\<close>

fun advance ::
  "'s input_handler \<Rightarrow> 's command_handler \<Rightarrow> string \<Rightarrow> session_output \<Rightarrow> action list \<Rightarrow>
   ('s, session_output) exc" where
  "advance inp cmd msg ses [] = throwE (RuntimeError msg)"
| "advance inp cmd msg ses (Input a # _) = inp ses a"
| "advance inp cmd msg ses (Command c # _) = cmd ses c"
| "advance inp cmd msg ses (_ # _) = throwE (RuntimeError unknown_action_msg)"

definition dispatch_spec ::
  "'s input_handler \<Rightarrow> 's reply_handler \<Rightarrow> 's command_handler \<Rightarrow> string \<Rightarrow>
   session_output \<Rightarrow> action list \<Rightarrow> ('s, session_output) exc" where
  "dispatch_spec inp rep cmd msg ses as =
     bindE (run_replies rep (reply_prefix as)) (\<lambda>_. advance inp cmd msg ses (after_replies as))"

section \<open>The main loop\<close>

text \<open>
  \<open>while (cond) { session = processActions(&client, session); }\<close>, the loop
  of both \<open>main\<close> functions, whose condition is \<open>true\<close>. It is left when the
  condition is false before a round (\<open>Finished\<close>, the statement after the loop
  runs next) or by an exception, which reaches the enclosing \<open>catch\<close> with the
  variable \<open>session\<close> still holding the last session a call returned. The
  model runs it for at most \<open>n\<close> rounds (the fuel); \<open>OutOfFuel\<close> says the
  program is still looping after them.
\<close>

datatype loop_exit = Thrown exn session_output | OutOfFuel session_output | Finished session_output

fun session_loop ::
  "(session_output \<Rightarrow> bool) \<Rightarrow> (session_output \<Rightarrow> ('s, session_output) exc) \<Rightarrow> nat \<Rightarrow>
   session_output \<Rightarrow> 's \<Rightarrow> loop_exit \<times> 's" where
  "session_loop cond pa 0 ses s = (if cond ses then (OutOfFuel ses, s) else (Finished ses, s))"
| "session_loop cond pa (Suc n) ses s =
     (if \<not> cond ses then (Finished ses, s)
      else case pa ses s of
        (Inl e, s') \<Rightarrow> (Thrown e ses, s')
      | (Inr ses', s') \<Rightarrow> session_loop cond pa n ses' s')"

section \<open>Lemmas\<close>

lemma reply_prefix_after_replies: "map Reply (reply_prefix as) @ after_replies as = as"
  by (induction as rule: reply_prefix.induct) auto

lemma after_replies_head: "after_replies as \<noteq> Reply r # bs"
  by (induction as rule: after_replies.induct) auto

lemma reply_prefix_map_Reply [simp]: "reply_prefix (map Reply rs @ as) = rs @ reply_prefix as"
  by (induction rs) auto

lemma after_replies_map_Reply [simp]: "after_replies (map Reply rs @ as) = after_replies as"
  by (induction rs) auto

lemma run_replies_append:
  "run_replies rep (rs @ qs) = bindE (run_replies rep rs) (\<lambda>_. run_replies rep qs)"
  by (induction rs) (simp_all add: bindE_assoc)

lemma dispatch_map_Reply:
  "dispatch inp rep cmd msg ses (map Reply rs @ as) =
     bindE (run_replies rep rs) (\<lambda>_. dispatch inp rep cmd msg ses as)"
  by (induction rs) (simp_all add: bindE_assoc)

text \<open>
  Every handler keeps a property of the state, so the whole walk keeps it, on
  every path: the rule by which a property of the handlers becomes one of
  \<open>processActions\<close>.
\<close>

lemma keepsE_dispatch:
  assumes "\<And>ses a. keepsE P (inp ses a)" "\<And>r. keepsE P (rep r)" "\<And>ses c. keepsE P (cmd ses c)"
  shows "keepsE P (dispatch inp rep cmd msg ses as)"
proof (induction as)
  case (Cons a as)
  then show ?case by (cases a) (simp_all add: assms keepsE_bindE)
qed simp

lemma session_loop_keeps:
  assumes "\<And>ses. keepsE P (pa ses)" "P s"
  shows "P (snd (session_loop cond pa n ses s))"
  using assms(2)
proof (induction n arbitrary: ses s)
  case (Suc n)
  obtain r s' where run: "pa ses s = (r, s')" by fastforce
  have "P s'" by (rule keepsE_D [OF assms(1) Suc.prems run])
  with run Suc.IH Suc.prems show ?case by (cases r) simp_all
qed simp

text \<open>\<open>while (true)\<close> is never left normally: the statement after it is unreachable.\<close>

lemma session_loop_true:
  "fst (session_loop (\<lambda>_. True) pa n ses s) \<noteq> Finished ses'"
proof (induction n arbitrary: ses s)
  case (Suc n)
  then show ?case by (simp split: prod.split sum.split)
qed simp

text \<open>
  C1. Refinement of the specification of section 4.1: on every action list and
  for any handlers, \<open>processActions\<close>'s loop first handles the replies at the
  head of the list in order, stopping at the first that throws, and then the
  first action that is not a reply decides the result: an input or a command
  action is handed to its handler, whose session is returned; an empty rest
  throws the end-of-list error and an action of unknown kind the unknown-action
  error. No action after the first input or command is looked at.
\<close>

theorem dispatch_refines:
  "dispatch inp rep cmd msg ses as = dispatch_spec inp rep cmd msg ses as"
proof (induction inp rep cmd msg ses as rule: dispatch.induct)
  case (3 inp rep cmd msg ses r as)
  then show ?case by (simp add: dispatch_spec_def bindE_assoc)
qed (simp_all add: dispatch_spec_def)

end
