(* ===== verification/Audio_Client.thy ===== *)
theory Audio_Client
  imports Dispatch
begin

text \<open>
  \<open>src/diatheke/audio_client.cpp\<close>: the Diatheke client that talks to the
  user by voice. \<open>waitForInput\<close> opens an ASR stream, records through a
  \<open>Recorder\<close> until the SDK has a transcript and submits it;
  \<open>handleReply\<close> prints a reply and plays its TTS audio through a \<open>Player\<close>;
  \<open>handleCommand\<close> prints a command and submits its result; \<open>processActions\<close>
  is the loop of \<open>Dispatch\<close> over these handlers; \<open>main\<close> prints the server
  version and models, creates a session and loops. Each local \<open>Recorder\<close> or
  \<open>Player\<close> is destroyed when its function is left, also by an exception: the
  destructor is \<open>unwindE\<close> on the exceptional path and \<open>finallyE\<close> at the end.
\<close>

definition serverAddress_audio :: string where
  "serverAddress_audio = ''localhost:9002''"

definition insecureConnection_audio :: bool where
  "insecureConnection_audio = True"

definition recordCmd :: string where
  "recordCmd = ''sox -q -d -c 1 -r 16000 -b 16 -L -e signed -t raw -''"

definition playCmd :: string where
  "playCmd = ''sox -q -c 1 -r 48000 -b 16 -L -e signed -t raw - -d''"

definition modelID :: string where
  "modelID = ''1''"

text \<open>
  \<open>waitForInput\<close>. The two flags of the input action are tested by empty
  \<open>if\<close> blocks (a place for a wake-word detector), so they have no effect.
  \<open>ReadASRAudio\<close> reads in blocks of 8192 bytes. If it throws, the destructor
  stops the recorder; otherwise \<open>recorder.stop()\<close> does, and the destructor at
  the end finds it stopped.
\<close>

definition waitForInput_audio ::
  "'srv server \<Rightarrow> session_output \<Rightarrow> wait_for_user_action \<Rightarrow> ('srv world, session_output) exc" where
  "waitForInput_audio sv session inputAction =
     bindE (client_call (CallNewSessionASRStream (token session))
              (\<lambda>s. sv_newSessionASRStream sv s (token session))) (\<lambda>stream.
     bindE (on_os (recorder_start (Recorder recordCmd))) (\<lambda>recorder.
     bindE (cout [Str ''\<newline>Recording...'', Endl]) (\<lambda>_.
     bindE (unwindE (on_os_exc (read_asr_audio sv recorder 8192 []))
              (os_cleanup (recorder_destroy recorder))) (\<lambda>result.
     bindE (on_os (recorder_stop recorder)) (\<lambda>recorder'.
     bindE (cout [Str ''\<newline>  ASRResult:'', Endl,
                  Str ''    Text: '', Str (asr_text result), Endl,
                  Str ''    Confidence: '', Real (confidence result), Endl]) (\<lambda>_.
     finallyE (client_call (CallProcessASRResult (token session) result)
                 (\<lambda>s. sv_processASRResult sv s (token session) result))
       (os_cleanup (recorder_destroy recorder'))))))))"

text \<open>\<open>handleReply\<close>: print, open the TTS stream, play it.\<close>

definition handleReply_audio :: "'srv server \<Rightarrow> reply_action \<Rightarrow> ('srv world, unit) exc" where
  "handleReply_audio sv reply =
     bindE (cout [Str ''\<newline>  Reply:'', Endl,
                  Str ''    Text: '', Str (reply_text reply), Endl,
                  Str ''    Luna Model: '', Str (luna_model reply), Endl]) (\<lambda>_.
     bindE (client_call (CallNewTTSStream reply) (\<lambda>s. sv_newTTSStream sv s reply)) (\<lambda>stream.
     bindE (on_os (player_start (Player playCmd))) (\<lambda>player.
     bindE (unwindE (on_os_exc (write_tts_audio player stream))
              (os_cleanup (player_destroy player))) (\<lambda>_.
     bindE (on_os (player_stop player)) (\<lambda>player'.
     modifyE (os_cleanup (player_destroy player')))))))"

text \<open>\<open>handleCommand\<close>: print the command and its parameters, submit its result.\<close>

definition print_command :: "command_action \<Rightarrow> piece list" where
  "print_command cmd =
     [Endl, Str ''  Command:'', Endl, Str ''    ID:'', Str (command_id cmd), Endl,
      Str ''    Input params:'', Endl] @
     concat (map (\<lambda>(k, v). [Str ''      '', Str k, Str '' = '', Str v, Endl]) (input_parameters cmd))"

definition handleCommand ::
  "'srv server \<Rightarrow> session_output \<Rightarrow> command_action \<Rightarrow> ('srv world, session_output) exc" where
  "handleCommand sv session cmd =
     bindE (cout (print_command cmd)) (\<lambda>_.
     (let result = \<lparr>result_id = command_id cmd\<rparr>
      in client_call (CallProcessCommandResult (token session) result)
           (\<lambda>s. sv_processCommandResult sv s (token session) result)))"

definition processActions_audio :: "'srv server \<Rightarrow> session_output \<Rightarrow> ('srv world, session_output) exc" where
  "processActions_audio sv session =
     dispatch (waitForInput_audio sv) (handleReply_audio sv) (handleCommand sv)
       ''ran all actions without receiving an updated session'' session (action_list session)"

section \<open>main\<close>

definition print_version :: "version_response \<Rightarrow> piece list" where
  "print_version ver =
     [Str ''Server Version'', Endl,
      Str ''  Diatheke: '', Str (ver_diatheke ver), Endl,
      Str ''  Chosun (NLU): '', Str (ver_chosun ver), Endl,
      Str ''  Cubic (ASR): '', Str (ver_cubic ver), Endl,
      Str ''  Luna (TTS): '', Str (ver_luna ver), Endl]"

definition print_models :: "model_info list \<Rightarrow> piece list" where
  "print_models ms =
     [Str ''\<newline>Available Models:'', Endl] @
     concat (map (\<lambda>m. [Str ''  ID: '', Str (mdl_id m), Endl,
                       Str ''    Name: '', Str (mdl_name m), Endl,
                       Str ''    Language: '', Str (mdl_language m), Endl,
                       Str ''    ASR Sample Rate: '', Nat (mdl_asr_sample_rate m), Endl,
                       Str ''    TTS Sample Rate: '', Nat (mdl_tts_sample_rate m), Endl]) ms)"

text \<open>The two \<open>catch\<close> clauses: \<open>Diatheke::ClientError\<close> first, then any \<open>std::exception\<close>.\<close>

fun print_error :: "exn \<Rightarrow> piece list" where
  "print_error (ClientError m) = [Str ''Diatheke Error: '', Str m, Endl]"
| "print_error (CubicError m) = [Str ''Error: '', Str m, Endl]"
| "print_error (RuntimeError m) = [Str ''Error: '', Str m, Endl]"

text \<open>How a run of \<open>main\<close> ends: still looping when the fuel ran out, or returned.\<close>

datatype run_state = Running | Exited

text \<open>
  \<open>main\<close>. Everything is inside the \<open>try\<close>, the statement after the
  \<open>while (true)\<close> loop, \<open>client.deleteSession(session.token())\<close>, too; the
  \<open>catch\<close> clauses follow it.
\<close>

definition main_audio :: "'srv server \<Rightarrow> nat \<Rightarrow> ('srv world, run_state) exc" where
  "main_audio sv n =
     catch_std
       (bindE (new_client serverAddress_audio insecureConnection_audio) (\<lambda>_.
        bindE (client_call CallVersion (sv_version sv)) (\<lambda>ver.
        bindE (cout (print_version ver)) (\<lambda>_.
        bindE (client_call CallListModels (sv_listModels sv)) (\<lambda>modelList.
        bindE (cout (print_models modelList)) (\<lambda>_.
        bindE (client_call (CallCreateSession modelID) (\<lambda>s. sv_createSession sv s modelID)) (\<lambda>session.
        (\<lambda>w. case session_loop (\<lambda>_. True) (processActions_audio sv) n session w of
               (Thrown e _, w') \<Rightarrow> (Inl e, w')
             | (OutOfFuel _, w') \<Rightarrow> (Inr Running, w')
             | (Finished session', w') \<Rightarrow>
                 bindE (client_call (CallDeleteSession (token session'))
                          (\<lambda>s. sv_deleteSession sv s (token session'))) (\<lambda>_.
                 returnE Exited) w'))))))))
       (\<lambda>e. bindE (cout (print_error e)) (\<lambda>_. returnE Exited))"

section \<open>No recording or playback process is leaked\<close>

lemma waitForInput_audio_pipes:
  assumes wf: "os_wf (w_os w)" and run: "waitForInput_audio sv ses a w = (x, w')"
  shows "pipes (w_os w') = pipes (w_os w) \<and> os_wf (w_os w') \<and> bad_close (w_os w') = bad_close (w_os w)"
proof (cases "sv_newSessionASRStream sv (srv w) (token ses)")
  case (Pair res s1)
  show ?thesis
  proof (cases res)
    case (Inl e)
    with run Pair wf show ?thesis by (auto simp: waitForInput_audio_def exc_simps client_call_def)
  next
    case (Inr u)
    obtain r o1 where st: "recorder_start (Recorder recordCmd) (w_os w) = (r, o1)" by fastforce
    obtain y o2 where rd: "read_asr_audio sv r 8192 [] o1 = (y, o2)" by fastforce
    have o2: "pipes o2 = pipes o1" "next_fd o2 = next_fd o1" "bad_close o2 = bad_close o1"
      using read_asr_audio_pipes [OF rd] by simp_all
    have fin: "pipes (snd (recorder_stop r o2)) = pipes (w_os w) \<and> os_wf (snd (recorder_stop r o2)) \<and>
               bad_close (snd (recorder_stop r o2)) = bad_close o2"
      using recorder_session_pipes [OF wf st o2(1,2)] .
    have b1: "bad_close o1 = bad_close (w_os w)" by (rule recorder_start_bad_close [OF st])
    from run Pair Inr st rd fin b1 o2(3) show ?thesis
      by (cases y) (auto simp: waitForInput_audio_def exc_simps client_call_def recorder_destroy_def
                         split: prod.splits)
  qed
qed

lemma handleReply_audio_pipes:
  assumes wf: "os_wf (w_os w)" and run: "handleReply_audio sv r w = (x, w')"
  shows "pipes (w_os w') = pipes (w_os w) \<and> os_wf (w_os w') \<and> bad_close (w_os w') = bad_close (w_os w)"
proof (cases "sv_newTTSStream sv (srv w) r")
  case (Pair res s1)
  show ?thesis
  proof (cases res)
    case (Inl e)
    with run Pair wf show ?thesis by (auto simp: handleReply_audio_def exc_simps client_call_def)
  next
    case (Inr stream)
    obtain p o1 where st: "player_start (Player playCmd) (w_os w) = (p, o1)" by fastforce
    obtain y o2 where wr: "write_tts_audio p stream o1 = (y, o2)" by fastforce
    have o2: "pipes o2 = pipes o1" "next_fd o2 = next_fd o1" "bad_close o2 = bad_close o1"
      using write_tts_audio_pipes [OF wr] by simp_all
    have fin: "pipes (snd (player_stop p o2)) = pipes (w_os w) \<and> os_wf (snd (player_stop p o2)) \<and>
               bad_close (snd (player_stop p o2)) = bad_close o2"
      using player_session_pipes [OF wf st o2(1,2)] .
    have b1: "bad_close o1 = bad_close (w_os w)" by (rule player_start_bad_close [OF st])
    from run Pair Inr st wr fin b1 o2(3) show ?thesis
      by (cases y) (auto simp: handleReply_audio_def exc_simps client_call_def player_destroy_def
                         split: prod.splits)
  qed
qed

lemma keepsE_waitForInput_audio: "keepsE (pipes_kept P) (waitForInput_audio sv ses a)"
  by (rule keepsE_by_run) (auto simp: pipes_kept_def dest: waitForInput_audio_pipes)

lemma keepsE_handleReply_audio: "keepsE (pipes_kept P) (handleReply_audio sv r)"
  by (rule keepsE_by_run) (auto simp: pipes_kept_def dest: handleReply_audio_pipes)

lemma keepsE_handleCommand: "keepsE (pipes_kept P) (handleCommand sv ses c)"
  unfolding handleCommand_def Let_def by (intro keepsE_bindE keepsE_cout keepsE_client_call)

text \<open>
  C2. Section 5 of the specification: the audio subprocesses must be closed on
  every exit path. Whatever the server answers, whichever actions the session
  holds, and whether \<open>processActions\<close> returns or throws (an SDK stream may
  fail while a recorder or a player is running), the table of open pipes
  afterwards is the one before it and no stream has been closed twice: every
  \<open>Recorder\<close> and \<open>Player\<close> it starts is closed exactly once, by \<open>stop()\<close>
  or by its destructor.
\<close>

theorem processActions_audio_pipes:
  assumes "os_wf (w_os w)" "\<not> bad_close (w_os w)" and "processActions_audio sv ses w = (x, w')"
  shows "pipes (w_os w') = pipes (w_os w) \<and> \<not> bad_close (w_os w')"
proof -
  let ?P = "pipes_kept (pipes (w_os w))"
  have "keepsE ?P (processActions_audio sv ses)"
    unfolding processActions_audio_def
    by (rule keepsE_dispatch [OF keepsE_waitForInput_audio keepsE_handleReply_audio keepsE_handleCommand])
  moreover have "?P w" using assms(1,2) by (simp add: pipes_kept_def)
  ultimately have "?P w'" using assms(3) by (rule keepsE_D)
  then show ?thesis by (simp add: pipes_kept_def)
qed

text \<open>A server whose ASR stream fails as soon as it has been sent any audio.\<close>

lemma processActions_audio_pipes_witness:
  "os_wf (w_os mock_world) \<and> \<not> bad_close (w_os mock_world) \<and>
   pipes (w_os (snd (processActions_audio (mock_server\<lparr>sv_asr_error := (\<lambda>a. Some (ClientError ''stream reset''))\<rparr>)
       (mock_session ''s1'' [Reply mock_reply, Input mock_input]) mock_world)))
     = pipes (w_os mock_world) \<and>
   \<not> bad_close (w_os (snd (processActions_audio (mock_server\<lparr>sv_asr_error := (\<lambda>a. Some (ClientError ''stream reset''))\<rparr>)
       (mock_session ''s1'' [Reply mock_reply, Input mock_input]) mock_world)))"
proof -
  have wf: "os_wf (w_os mock_world)" "\<not> bad_close (w_os mock_world)"
    by (simp_all add: mock_world_def mock_os_def os_wf_def)
  show ?thesis
    using wf processActions_audio_pipes [OF wf prod.collapse [symmetric]] by simp
qed

section \<open>What processActions does (section 8 of the specification)\<close>

text \<open>
  C3. An action list made of replies followed by an input action: every reply is
  handled (printed and played) in order, then exactly one capture-and-submit
  cycle runs for that input action, and its session is the result. Actions after
  the input action are never looked at.
\<close>

theorem processActions_audio_input:
  "action_list ses = map Reply rs @ Input a # post \<Longrightarrow>
   processActions_audio sv ses = bindE (run_replies (handleReply_audio sv) rs) (\<lambda>_. waitForInput_audio sv ses a)"
  by (simp add: processActions_audio_def dispatch_map_Reply)

lemma processActions_audio_input_witness:
  "action_list (mock_session ''s1'' [Reply mock_reply, Input mock_input, Reply mock_reply]) = map Reply [mock_reply] @ Input mock_input # [Reply mock_reply] \<and>
   processActions_audio mock_server (mock_session ''s1'' [Reply mock_reply, Input mock_input, Reply mock_reply]) = bindE (run_replies (handleReply_audio mock_server) [mock_reply]) (\<lambda>_. waitForInput_audio mock_server (mock_session ''s1'' [Reply mock_reply, Input mock_input, Reply mock_reply]) mock_input)"
  using processActions_audio_input [of "mock_session ''s1'' [Reply mock_reply, Input mock_input, Reply mock_reply]" "[mock_reply]" mock_input "[Reply mock_reply]" mock_server] by (simp add: mock_session_def)

text \<open>
  C4. Replies followed by a command action: the replies are handled in order,
  then exactly one command-submit cycle runs, and its session is the result.
\<close>

theorem processActions_audio_command:
  "action_list ses = map Reply rs @ Command c # post \<Longrightarrow>
   processActions_audio sv ses = bindE (run_replies (handleReply_audio sv) rs) (\<lambda>_. handleCommand sv ses c)"
  by (simp add: processActions_audio_def dispatch_map_Reply)

lemma processActions_audio_command_witness:
  "action_list (mock_session ''s1'' [Reply mock_reply, Command mock_command]) = map Reply [mock_reply] @ Command mock_command # [] \<and>
   processActions_audio mock_server (mock_session ''s1'' [Reply mock_reply, Command mock_command]) = bindE (run_replies (handleReply_audio mock_server) [mock_reply]) (\<lambda>_. handleCommand mock_server (mock_session ''s1'' [Reply mock_reply, Command mock_command]) mock_command)"
  using processActions_audio_command [of "mock_session ''s1'' [Reply mock_reply, Command mock_command]" "[mock_reply]" mock_command "[]" mock_server] by (simp add: mock_session_def)

text \<open>
  C5. A list of replies only, the empty list included: the replies are handled,
  then \<open>processActions\<close> throws the protocol error ``ran all actions without
  receiving an updated session''; it never returns a session silently.
\<close>

theorem processActions_audio_only_replies:
  "action_list ses = map Reply rs \<Longrightarrow>
   processActions_audio sv ses =
     bindE (run_replies (handleReply_audio sv) rs)
       (\<lambda>_. throwE (RuntimeError ''ran all actions without receiving an updated session''))"
  using dispatch_map_Reply [of _ _ _ _ ses rs "[]"] by (simp add: processActions_audio_def)

lemma processActions_audio_only_replies_witness:
  "action_list (mock_session ''s1'' [Reply mock_reply]) = map Reply [mock_reply] \<and>
   processActions_audio mock_server (mock_session ''s1'' [Reply mock_reply]) =
     bindE (run_replies (handleReply_audio mock_server) [mock_reply])
       (\<lambda>_. throwE (RuntimeError ''ran all actions without receiving an updated session''))"
  using processActions_audio_only_replies [of "mock_session ''s1'' [Reply mock_reply]" "[mock_reply]" mock_server]
  by (simp add: mock_session_def)

text \<open>
  C6. An action of unknown kind after some replies: the replies are handled, then
  \<open>processActions\<close> throws ``received unknown action type'' before looking at
  any later action.
\<close>

theorem processActions_audio_unknown:
  "action_list ses = map Reply rs @ ActionNotSet # post \<Longrightarrow>
   processActions_audio sv ses =
     bindE (run_replies (handleReply_audio sv) rs) (\<lambda>_. throwE (RuntimeError unknown_action_msg))"
  by (simp add: processActions_audio_def dispatch_map_Reply)

lemma processActions_audio_unknown_witness:
  "action_list (mock_session ''s1'' [Reply mock_reply, ActionNotSet, Input mock_input]) = map Reply [mock_reply] @ ActionNotSet # [Input mock_input] \<and>
   processActions_audio mock_server (mock_session ''s1'' [Reply mock_reply, ActionNotSet, Input mock_input]) = bindE (run_replies (handleReply_audio mock_server) [mock_reply]) (\<lambda>_. throwE (RuntimeError unknown_action_msg))"
  using processActions_audio_unknown [of "mock_session ''s1'' [Reply mock_reply, ActionNotSet, Input mock_input]" "[mock_reply]" "[Input mock_input]" mock_server] by (simp add: mock_session_def)

text \<open>
  C7. \<open>waitForInput\<close> on every branch, for every server: once its ASR stream is
  open and the recording program has started, it prints "Recording...", and
  when \<open>ReadASRAudio\<close> throws (the stream failed, or the read did) that
  exception leaves the function with nothing submitted; otherwise it prints the
  \<open>ASRResult\<close> and submits exactly that result for the session's token, the
  server's answer being its result. Either way the recorder's pipe is closed and
  the table of open pipes is the one before.
\<close>

theorem waitForInput_audio_outcome:
  assumes "sv_newSessionASRStream sv (srv w) (token ses) = (Inr (), v1)" "os_wf (w_os w)" "spawn_ok (w_os w)"
    "read_asr_audio sv ((Recorder recordCmd)\<lparr>mStdout := Some (next_fd (w_os w))\<rparr>) 8192 []
       (snd (popen recordCmd PRead (w_os w))) = (y, o2)"
  shows "waitForInput_audio sv ses a w =
    (case y of
       Inl e \<Rightarrow> (Inl e, w\<lparr>srv := v1, calls := calls w @ [CallNewSessionASRStream (token ses)],
                         stdout := stdout w @ [Str ''\<newline>Recording...'', Endl],
                         w_os := o2\<lparr>pipes := pipes (w_os w)\<rparr>\<rparr>)
     | Inr res \<Rightarrow> (fst (sv_processASRResult sv v1 (token ses) res),
         w\<lparr>srv := snd (sv_processASRResult sv v1 (token ses) res),
           calls := calls w @ [CallNewSessionASRStream (token ses), CallProcessASRResult (token ses) res],
           stdout := stdout w @ [Str ''\<newline>Recording...'', Endl, Str ''\<newline>  ASRResult:'', Endl,
                                 Str ''    Text: '', Str (asr_text res), Endl,
                                 Str ''    Confidence: '', Real (confidence res), Endl],
           w_os := o2\<lparr>pipes := pipes (w_os w)\<rparr>\<rparr>))"
proof -
  let ?h = "next_fd (w_os w)" and ?r = "(Recorder recordCmd)\<lparr>mStdout := Some (next_fd (w_os w))\<rparr>"
  have st: "recorder_start (Recorder recordCmd) (w_os w) = (?r, snd (popen recordCmd PRead (w_os w)))"
    using assms(3) by (simp add: recorder_start_def Recorder_def popen_def)
  have p2: "pipes o2 = (pipes (w_os w))(?h \<mapsto> \<lparr>p_cmd = recordCmd, p_mode = PRead\<rparr>)"
    using read_asr_audio_pipes [OF assms(4)] assms(3) by (simp add: popen_def)
  have fresh: "pipes (w_os w) ?h = None" using os_wf_next_free [OF assms(2)] .
  have stop: "recorder_stop ?r o2 = (Recorder recordCmd, o2\<lparr>pipes := pipes (w_os w)\<rparr>)"
    using p2 fresh by (simp add: recorder_stop_def Recorder_def pclose_def fun_upd_idem)
  show ?thesis
    using assms(1,4) st stop
    by (cases y) (simp_all add: waitForInput_audio_def exc_simps client_call_def recorder_destroy_def
        recorder_stop_def Recorder_def split: prod.split)
qed

text \<open>The scenario of section 8: the mock server transcribes ten bytes of recording as "turn on lights".\<close>

lemma waitForInput_audio_outcome_witness:
  "fst (waitForInput_audio mock_server (mock_session ''s1'' []) mock_input mock_world) = Inr (mock_session ''s2'' []) \<and>
   calls (snd (waitForInput_audio mock_server (mock_session ''s1'' []) mock_input mock_world)) =
     [CallNewSessionASRStream ''s1'', CallProcessASRResult ''s1'' \<lparr>asr_text = ''turn on lights'', confidence = 92 / 100\<rparr>] \<and>
   pipes (w_os (snd (waitForInput_audio mock_server (mock_session ''s1'' []) mock_input mock_world))) = Map.empty"
proof -
  have h: "sv_newSessionASRStream mock_server (srv mock_world) (token (mock_session ''s1'' [])) = (Inr (), ())"
    "os_wf (w_os mock_world)" "spawn_ok (w_os mock_world)"
    by (simp_all add: mock_server_def mock_world_def mock_os_def os_wf_def)
  have rd: "read_asr_audio mock_server ((Recorder recordCmd)\<lparr>mStdout := Some (next_fd (w_os mock_world))\<rparr>) 8192 []
       (snd (popen recordCmd PRead (w_os mock_world))) =
     (Inr \<lparr>asr_text = ''turn on lights'', confidence = 92 / 100\<rparr>,
      (snd (popen recordCmd PRead (w_os mock_world)))\<lparr>mic := []\<rparr>)"
    by (simp add: read_asr_audio.simps recorder_readAudio_def fread_def popen_def mock_world_def mock_os_def
        mock_server_def Recorder_def)
  show ?thesis
    using waitForInput_audio_outcome [OF h rd]
    by (simp add: mock_server_def mock_session_def mock_world_def mock_os_def)
qed

section \<open>Errors and the calls a handler makes\<close>

text \<open>
  C9. When the system cannot start the recording program, \<open>popen\<close> returns
  \<open>NULL\<close>, which \<open>Recorder::start\<close> does not check: the ASR stream has been
  opened, and \<open>waitForInput\<close> then throws the recorder's ``can't read audio -
  recorder not started.'' from the first read, without submitting anything.
\<close>

theorem waitForInput_audio_spawn_failure:
  "\<not> spawn_ok (w_os w) \<Longrightarrow> fst (sv_newSessionASRStream sv (srv w) (token ses)) = Inr () \<Longrightarrow>
   fst (waitForInput_audio sv ses a w) = Inl (RuntimeError ''can't read audio - recorder not started.'') \<and>
   calls (snd (waitForInput_audio sv ses a w)) = calls w @ [CallNewSessionASRStream (token ses)]"
  by (auto simp: waitForInput_audio_def exc_simps client_call_def recorder_start_def Recorder_def
        popen_def read_asr_audio.simps recorder_readAudio_def recorder_destroy_def recorder_stop_def
        split: prod.splits)

lemma waitForInput_audio_spawn_failure_witness:
  "\<not> spawn_ok (w_os (mock_world\<lparr>w_os := mock_os\<lparr>spawn_ok := False\<rparr>\<rparr>)) \<and>
   fst (sv_newSessionASRStream mock_server (srv (mock_world\<lparr>w_os := mock_os\<lparr>spawn_ok := False\<rparr>\<rparr>)) ''s1'') = Inr () \<and>
   fst (waitForInput_audio mock_server (mock_session ''s1'' []) mock_input (mock_world\<lparr>w_os := mock_os\<lparr>spawn_ok := False\<rparr>\<rparr>))
     = Inl (RuntimeError ''can't read audio - recorder not started.'')"
  using waitForInput_audio_spawn_failure [of "mock_world\<lparr>w_os := mock_os\<lparr>spawn_ok := False\<rparr>\<rparr>" mock_server "mock_session ''s1'' []" mock_input]
  by (simp add: mock_session_def mock_server_def)

text \<open>
  C10. \<open>handleCommand\<close> prints the command and submits, for the session's
  token, a \<open>CommandResult\<close> whose id is the command's id; the server's answer
  to that one call is its result, and it makes no other call.
\<close>

theorem handleCommand_submits:
  "handleCommand sv ses c w =
     (fst (sv_processCommandResult sv (srv w) (token ses) \<lparr>result_id = command_id c\<rparr>),
      w\<lparr>stdout := stdout w @ print_command c,
        srv := snd (sv_processCommandResult sv (srv w) (token ses) \<lparr>result_id = command_id c\<rparr>),
        calls := calls w @ [CallProcessCommandResult (token ses) \<lparr>result_id = command_id c\<rparr>]\<rparr>)"
  by (simp add: handleCommand_def Let_def exc_simps client_call_def split: prod.split)

section \<open>main never deletes its session\<close>

lemma keepsE_processActions_audio_after: "keepsE (calls_after c0) (processActions_audio sv ses)"
  unfolding processActions_audio_def
proof (rule keepsE_dispatch)
  show "keepsE (calls_after c0) (waitForInput_audio sv ses a)" for ses a
    unfolding waitForInput_audio_def by (intro calls_after_rules) simp_all
  show "keepsE (calls_after c0) (handleReply_audio sv r)" for r
    unfolding handleReply_audio_def by (intro calls_after_rules) simp_all
  show "keepsE (calls_after c0) (handleCommand sv ses c)" for ses c
    unfolding handleCommand_def Let_def by (intro calls_after_rules) simp_all
qed

text \<open>
  C11. However many rounds it runs and however it ends, \<open>main\<close> of the audio
  client never calls \<open>deleteSession\<close>: the call after the \<open>while (true)\<close>
  loop is unreachable, since the loop is never left normally, and the
  \<open>catch\<close> clauses do not clean up, contrary to section 7 of the specification,
  which asks the caller to end the session.
\<close>

theorem main_audio_never_deletes:
  "\<exists>cs. calls (snd (main_audio sv n w)) = calls w @ cs \<and> (\<forall>t. CallDeleteSession t \<notin> set cs)"
proof -
  have loop: "keepsE (calls_after (calls w)) (\<lambda>w. case session_loop (\<lambda>_. True) (processActions_audio sv) n ses w of
               (Thrown e _, w') \<Rightarrow> (Inl e, w') | (OutOfFuel _, w') \<Rightarrow> (Inr Running, w')
             | (Finished session', w') \<Rightarrow>
                 bindE (client_call (CallDeleteSession (token session'))
                          (\<lambda>s. sv_deleteSession sv s (token session'))) (\<lambda>_. returnE Exited) w')" for ses
  proof (rule keepsE_by_run)
    fix w1 x w2
    assume pre: "calls_after (calls w) w1"
      and run: "(case session_loop (\<lambda>_. True) (processActions_audio sv) n ses w1 of
               (Thrown e _, w') \<Rightarrow> (Inl e, w') | (OutOfFuel _, w') \<Rightarrow> (Inr Running, w')
             | (Finished session', w') \<Rightarrow>
                 bindE (client_call (CallDeleteSession (token session'))
                          (\<lambda>s. sv_deleteSession sv s (token session'))) (\<lambda>_. returnE Exited) w') = (x, w2)"
    obtain ex w' where sl: "session_loop (\<lambda>_. True) (processActions_audio sv) n ses w1 = (ex, w')" by fastforce
    have "calls_after (calls w) w'"
      using session_loop_keeps [where pa = "processActions_audio sv" and cond = "\<lambda>_. True" and n = n and ses = ses,
             OF keepsE_processActions_audio_after pre] sl by simp
    moreover have "ex \<noteq> Finished ses'" for ses'
      using session_loop_true [of "processActions_audio sv" n ses w1 ses'] sl by simp
    ultimately show "calls_after (calls w) w2" using run sl by (cases ex) auto
  qed
  have "keepsE (calls_after (calls w)) (main_audio sv n)"
    unfolding main_audio_def new_client_def by (intro calls_after_rules keepsE_catch_std loop) simp_all
  moreover have "calls_after (calls w) w" by (simp add: calls_after_def no_delete_def)
  ultimately show ?thesis
    by (auto simp: keepsE_def calls_after_def no_delete_def)
qed

text \<open>
  C39. In the audio client \<open>createSession\<close> is inside the \<open>try\<close> block
  (unlike the text client, C35): a \<open>ClientError\<close> from it is caught, printed as
  "Diatheke Error: " and its message, and \<open>main\<close> returns; no session was
  made, so none is deleted.
\<close>

theorem main_audio_create_session_error:
  assumes "sv_version sv (srv w) = (Inr v, s1)" "sv_listModels sv s1 = (Inr ms, s2)"
    "sv_createSession sv s2 modelID = (Inl (ClientError e), s3)"
  shows "main_audio sv n w =
    (Inr Exited, w\<lparr>srv := s3,
                   calls := calls w @ [CallClient serverAddress_audio insecureConnection_audio, CallVersion,
                                      CallListModels, CallCreateSession modelID],
                   stdout := stdout w @ print_version v @ print_models ms @ [Str ''Diatheke Error: '', Str e, Endl]\<rparr>)"
  using assms by (simp add: main_audio_def exc_simps client_call_def new_client_def)

lemma main_audio_create_session_error_witness:
  "main_audio (mock_server\<lparr>sv_createSession := (\<lambda>s m. (Inl (ClientError ''no such model''), s))\<rparr>) 3 mock_world =
    (Inr Exited,
     mock_world\<lparr>srv := (),
       calls := calls mock_world @ [CallClient serverAddress_audio insecureConnection_audio, CallVersion,
                                    CallListModels, CallCreateSession modelID],
       stdout := stdout mock_world @
                 print_version \<lparr>ver_diatheke = ''2'', ver_chosun = ''1'', ver_cubic = ''5'', ver_luna = ''1''\<rparr> @
                 print_models [] @ [Str ''Diatheke Error: '', Str ''no such model'', Endl]\<rparr>)"
  by (rule main_audio_create_session_error) (simp_all add: mock_server_def mock_world_def)

end
