(* ===== verification/Cli_Client.thy ===== *)
theory Cli_Client
  imports Audio_Client
begin

text \<open>
  \<open>src/diatheke/cli_client.cpp\<close>: the Diatheke client that talks to the user
  in text. Its \<open>waitForInput\<close> prints a prompt, reads one line of standard input
  and submits it; its \<open>handleReply\<close> prints the reply; its \<open>handleCommand\<close> is a
  verbatim copy of the audio client's; its \<open>processActions\<close> is the loop of
  \<open>Dispatch\<close> with its own end-of-list message. Its \<open>main\<close> differs from the
  audio client's: the version, model list and session are requested outside the
  \<open>try\<close> (an exception there is not caught and ends the program), and
  \<open>deleteSession\<close> follows the \<open>try\<close>/\<open>catch\<close>, so it runs once the loop has
  thrown, with the last session the loop obtained.
\<close>

definition waitForInput_cli :: "'srv server \<Rightarrow> session_output \<Rightarrow> ('srv world, session_output) exc" where
  "waitForInput_cli sv session =
     bindE (cout [Endl, Str ''\<newline>Diatheke> '']) (\<lambda>_.
     bindE getline (\<lambda>text.
     client_call (CallProcessText (token session) text) (\<lambda>s. sv_processText sv s (token session) text)))"

definition handleReply_cli :: "reply_action \<Rightarrow> ('srv world, unit) exc" where
  "handleReply_cli reply = cout [Str ''\<newline>  Reply:'', Str (reply_text reply), Endl]"

text \<open>The text of \<open>handleCommand\<close> in \<open>cli_client.cpp\<close> is that of \<open>audio_client.cpp\<close>.\<close>

definition handleCommand_cli ::
  "'srv server \<Rightarrow> session_output \<Rightarrow> command_action \<Rightarrow> ('srv world, session_output) exc" where
  "handleCommand_cli sv session cmd = handleCommand sv session cmd"

definition processActions_cli :: "'srv server \<Rightarrow> session_output \<Rightarrow> ('srv world, session_output) exc" where
  "processActions_cli sv session =
     dispatch (\<lambda>ses inputAction. waitForInput_cli sv ses) handleReply_cli (handleCommand_cli sv)
       ''action list ended without session update'' session (action_list session)"

text \<open>What the replies of a list print, one after the other.\<close>

definition reply_lines :: "reply_action list \<Rightarrow> piece list" where
  "reply_lines rs = concat (map (\<lambda>r. [Str ''\<newline>  Reply:'', Str (reply_text r), Endl]) rs)"

text \<open>The text client's own configuration (lines 29 and 36) and the local \<open>modelID\<close> of its \<open>main\<close>.\<close>

definition serverAddress_cli :: string where
  "serverAddress_cli = ''localhost:9002''"

definition insecureConnection_cli :: bool where
  "insecureConnection_cli = True"

definition modelID_cli :: string where
  "modelID_cli = ''1''"

definition main_cli :: "'srv server \<Rightarrow> nat \<Rightarrow> ('srv world, run_state) exc" where
  "main_cli sv n =
     bindE (new_client serverAddress_cli insecureConnection_cli) (\<lambda>_.
     bindE (client_call CallVersion (sv_version sv)) (\<lambda>ver.
     bindE (cout (print_version ver)) (\<lambda>_.
     bindE (client_call CallListModels (sv_listModels sv)) (\<lambda>modelList.
     bindE (cout (print_models modelList)) (\<lambda>_.
     bindE (client_call (CallCreateSession modelID_cli) (\<lambda>s. sv_createSession sv s modelID_cli)) (\<lambda>session.
     (\<lambda>w. case session_loop (\<lambda>_. True) (processActions_cli sv) n session w of
            (OutOfFuel _, w') \<Rightarrow> (Inr Running, w')
          | (Thrown e current, w') \<Rightarrow>
              bindE (cout (print_error e)) (\<lambda>_.
              bindE (client_call (CallDeleteSession (token current))
                       (\<lambda>s. sv_deleteSession sv s (token current))) (\<lambda>_.
              returnE Exited)) w'
          | (Finished current, w') \<Rightarrow>
              bindE (client_call (CallDeleteSession (token current))
                       (\<lambda>s. sv_deleteSession sv s (token current))) (\<lambda>_.
              returnE Exited) w')))))))"


section \<open>Lemmas\<close>

lemma run_replies_cli:
  "run_replies handleReply_cli rs w = (Inr (), w\<lparr>stdout := stdout w @ reply_lines rs\<rparr>)"
  by (induction rs arbitrary: w) (simp_all add: handleReply_cli_def reply_lines_def exc_simps)

text \<open>
  C12. The text client on replies followed by an input action, with a line
  waiting on standard input: it prints every reply, then the prompt, reads that
  one line and submits it as text for the session's token; the server's answer
  is the result, and \<open>processText\<close> is the only call it makes.
\<close>

theorem processActions_cli_input:
  "action_list ses = map Reply rs @ Input a # post \<Longrightarrow> stdin w = l # ls \<Longrightarrow>
   processActions_cli sv ses w =
     (fst (sv_processText sv (srv w) (token ses) l),
      w\<lparr>stdout := stdout w @ reply_lines rs @ [Endl, Str ''\<newline>Diatheke> ''],
        stdin := ls, srv := snd (sv_processText sv (srv w) (token ses) l),
        calls := calls w @ [CallProcessText (token ses) l]\<rparr>)"
  by (simp add: processActions_cli_def dispatch_map_Reply exc_simps run_replies_cli
        waitForInput_cli_def getline_def client_call_def split: prod.split)

lemma processActions_cli_input_witness:
  "action_list (mock_session ''s1'' [Reply mock_reply, Input mock_input]) = map Reply [mock_reply] @ Input mock_input # [] \<and>
   stdin mock_world = ''lights on'' # [] \<and>
   calls (snd (processActions_cli mock_server (mock_session ''s1'' [Reply mock_reply, Input mock_input]) mock_world)) = [CallProcessText ''s1'' ''lights on'']"
  using processActions_cli_input [of "mock_session ''s1'' [Reply mock_reply, Input mock_input]" "[mock_reply]" mock_input "[]" mock_world "''lights on''" "[]" mock_server]
  by (simp add: mock_session_def mock_world_def)

text \<open>
  C13. At the end of standard input \<open>std::getline\<close> leaves the string empty and
  the text client submits the empty text: end of input does not end the
  conversation.
\<close>

theorem waitForInput_cli_eof:
  "stdin w = [] \<Longrightarrow>
   calls (snd (waitForInput_cli sv ses w)) = calls w @ [CallProcessText (token ses) []]"
  by (simp add: waitForInput_cli_def exc_simps getline_def client_call_def split: prod.split)

lemma waitForInput_cli_eof_witness:
  "stdin (mock_world\<lparr>stdin := []\<rparr>) = [] \<and>
   calls (snd (waitForInput_cli mock_server (mock_session ''s1'' []) (mock_world\<lparr>stdin := []\<rparr>)))
     = [CallProcessText ''s1'' []]"
  using waitForInput_cli_eof [of "mock_world\<lparr>stdin := []\<rparr>" mock_server "mock_session ''s1'' []"]
  by (simp add: mock_session_def mock_world_def)

text \<open>
  C14. The text client ends a conversation cleanly: when the server's session has
  no action that moves it on, \<open>processActions\<close> throws, \<open>main\<close> reports it and
  deletes that session, as section 7 of the specification asks.
\<close>

theorem main_cli_empty_session_deleted:
  assumes "sv_version sv (srv w) = (Inr v, s1)" "sv_listModels sv s1 = (Inr ms, s2)"
    "sv_createSession sv s2 modelID_cli = (Inr ses, s3)" "action_list ses = []"
    "sv_deleteSession sv s3 (token ses) = (Inr (), s4)"
  shows "fst (main_cli sv (Suc n) w) = Inr Exited \<and>
    calls (snd (main_cli sv (Suc n) w)) =
      calls w @ [CallClient serverAddress_cli insecureConnection_cli, CallVersion, CallListModels,
                 CallCreateSession modelID_cli, CallDeleteSession (token ses)]"
  using assms
  by (simp add: main_cli_def exc_simps client_call_def processActions_cli_def new_client_def)

lemma main_cli_empty_session_deleted_witness:
  "fst (main_cli (mock_server\<lparr>sv_createSession := (\<lambda>s m. (Inr (mock_session ''s9'' []), s))\<rparr>) (Suc 0) mock_world) = Inr Exited \<and>
   calls (snd (main_cli (mock_server\<lparr>sv_createSession := (\<lambda>s m. (Inr (mock_session ''s9'' []), s))\<rparr>) (Suc 0) mock_world)) =
     [CallClient serverAddress_cli insecureConnection_cli, CallVersion, CallListModels,
      CallCreateSession modelID_cli, CallDeleteSession ''s9'']"
  using main_cli_empty_session_deleted [of "mock_server\<lparr>sv_createSession := (\<lambda>s m. (Inr (mock_session ''s9'' []), s))\<rparr>" mock_world
     "\<lparr>ver_diatheke = ''2'', ver_chosun = ''1'', ver_cubic = ''5'', ver_luna = ''1''\<rparr>"
     "()" "[]" "()" "mock_session ''s9'' []" "()" "()" 0]
  by (simp add: mock_server_def mock_session_def mock_world_def)

text \<open>
  C35. \<open>version\<close>, \<open>listModels\<close> and \<open>createSession\<close> are called before the
  \<open>try\<close> block: when \<open>createSession\<close> throws, the exception leaves \<open>main\<close>
  uncaught (the program terminates), nothing is printed about it, and no session
  is deleted.
\<close>

theorem main_cli_create_session_uncaught:
  assumes "sv_version sv (srv w) = (Inr v, s1)" "sv_listModels sv s1 = (Inr ms, s2)"
    "sv_createSession sv s2 modelID_cli = (Inl e, s3)"
  shows "main_cli sv n w =
    (Inl e, w\<lparr>srv := s3, calls := calls w @ [CallClient serverAddress_cli insecureConnection_cli, CallVersion,
                                                CallListModels, CallCreateSession modelID_cli],
              stdout := stdout w @ print_version v @ print_models ms\<rparr>)"
  using assms by (simp add: main_cli_def exc_simps client_call_def new_client_def)

lemma main_cli_create_session_uncaught_witness:
  "main_cli (mock_server\<lparr>sv_createSession := (\<lambda>s m. (Inl (ClientError ''no such model''), s))\<rparr>) 3 mock_world =
    (Inl (ClientError ''no such model''),
     mock_world\<lparr>srv := (), calls := calls mock_world @ [CallClient serverAddress_cli insecureConnection_cli,
                                                            CallVersion, CallListModels, CallCreateSession modelID_cli],
       stdout := stdout mock_world @
                 print_version \<lparr>ver_diatheke = ''2'', ver_chosun = ''1'', ver_cubic = ''5'', ver_luna = ''1''\<rparr> @
                 print_models []\<rparr>)"
  by (rule main_cli_create_session_uncaught) (simp_all add: mock_server_def mock_world_def)

end
