(* ===== verification/Cubic_Client.thy ===== *)
theory Cubic_Client
  imports Prelude
begin

text \<open>
  The Cubic speech-recognition SDK the four clients of \<open>src/cubic/\<close> call, and
  the pieces of code they share. The SDK (\<open>CubicClient\<close>, its stream) is not in
  the repository; it is an interface \<open>cubic_server\<close>: the service's answers
  (version strings, the model list, a recognition, the responses a stream gives
  for the audio pushed on it), each of which may be a \<open>CubicException\<close>. The
  world of a Cubic client is its two output streams, the list of requests it
  made on the SDK, and the files it can open. The shared code: printing the final transcripts of a
  \<open>RecognitionResponse\<close> (the same loop in all four files), \<open>models[0]\<close>, and
  the loop that reads a file in blocks of 8192 bytes and pushes each block on
  the stream (the audio thread of \<open>stream_client.cpp\<close> and
  \<open>context_client.cpp\<close>), with the \<open>std::ifstream\<close> it reads.
\<close>

section \<open>Messages\<close>

record cubic_model =
  cm_id :: string
  cm_name :: string
  supportsContext :: bool
  allowedContextTokens :: "string list"

record recognition_alternative =
  transcript :: string

record recognition_result =
  is_partial :: bool
  alternatives :: "recognition_alternative list"

text \<open>A \<open>RecognitionResponse\<close> is its repeated field \<open>results\<close>.\<close>

type_synonym recognition_response = "recognition_result list"

datatype audio_encoding = WAV | RAW_LINEAR16

type_synonym compiled_context = string

record recognition_config =
  cfg_model_id :: string
  cfg_audio_encoding :: audio_encoding
  cfg_context :: "compiled_context list"

section \<open>The service behind the SDK\<close>

record cubic_server =
  cs_cubicVersion :: "exn + string"
  cs_serverVersion :: "exn + string"
  cs_listModels :: "exn + cubic_model list"
  cs_compileContext :: "string \<Rightarrow> string \<Rightarrow> string list \<Rightarrow> exn + compiled_context"
  cs_recognize :: "recognition_config \<Rightarrow> byte list \<Rightarrow> exn + recognition_response"
  cs_stream_responses :: "recognition_config \<Rightarrow> byte list \<Rightarrow> recognition_response list"

text \<open>The requests a client makes on the SDK, in order.\<close>

datatype cubic_event =
    EvStreamingRecognize recognition_config
  | EvPushAudio "byte list"
  | EvAudioFinished
  | EvClose
  | EvRecognize recognition_config "byte list"
  | EvCompileContext string string "string list"

text \<open>
  The world of a Cubic client: its two output streams, the requests it made on
  the SDK, and the files it can open (a name to the file's bytes, \<open>None\<close>
  when it cannot be opened).
\<close>

record cubic_world =
  cw_cout :: "piece list"
  cw_cerr :: "piece list"
  cw_events :: "cubic_event list"
  cw_files :: "string \<Rightarrow> byte list option"

definition ccout :: "piece list \<Rightarrow> (cubic_world, unit) exc" where
  "ccout ps = modifyE (\<lambda>w. w\<lparr>cw_cout := cw_cout w @ ps\<rparr>)"

definition ccerr :: "piece list \<Rightarrow> (cubic_world, unit) exc" where
  "ccerr ps = modifyE (\<lambda>w. w\<lparr>cw_cerr := cw_cerr w @ ps\<rparr>)"

definition emit :: "cubic_event list \<Rightarrow> (cubic_world, unit) exc" where
  "emit es = modifyE (\<lambda>w. w\<lparr>cw_events := cw_events w @ es\<rparr>)"

text \<open>An SDK answer: its value, or the \<open>CubicException\<close> it throws.\<close>

definition sdk :: "exn + 'a \<Rightarrow> (cubic_world, 'a) exc" where
  "sdk r = (\<lambda>w. (r, w))"

section \<open>Shared code\<close>

text \<open>
  \<open>for (int i = 0; i < resp.results_size(); i++) { ... if (!result.is_partial())
  std::cout << result.alternatives(0).transcript() << std::endl; }\<close>: a final
  result with no alternative makes \<open>alternatives(0)\<close> read out of range.
\<close>

fun print_transcripts :: "recognition_response \<Rightarrow> (cubic_world, unit) exc" where
  "print_transcripts [] = returnE ()"
| "print_transcripts (r # rs) =
     bindE (if is_partial r then returnE ()
            else (case alternatives r of
                    [] \<Rightarrow> throwE (Undefined ''alternatives(0) of an empty list'')
                  | a # _ \<Rightarrow> ccout [Str (transcript a), Endl])) (\<lambda>_.
     print_transcripts rs)"

text \<open>\<open>models[0]\<close> of a \<open>std::vector\<close>: out of range on an empty list.\<close>

definition first_model :: "cubic_model list \<Rightarrow> (cubic_world, cubic_model) exc" where
  "first_model ms = (case ms of [] \<Rightarrow> throwE (Undefined ''models[0] of an empty vector'') | m # _ \<Rightarrow> returnE m)"

text \<open>
  \<open>std::ifstream\<close>: \<open>good()\<close> and the bytes not read yet. A file that cannot be
  opened gives a stream that is not good. \<open>read(buff, n)\<close> takes \<open>n\<close> bytes if
  there are that many, and the stream stays good even when that empties it (end
  of file is only noticed by a read that comes up short); a short read takes the
  rest, sets \<open>eofbit\<close> and \<open>failbit\<close>, and \<open>gcount()\<close> is what it took.
\<close>

record ifstream =
  is_good :: bool
  is_rest :: "byte list"

definition ifstream_open :: "byte list option \<Rightarrow> ifstream" where
  "ifstream_open f = (case f of None \<Rightarrow> \<lparr>is_good = False, is_rest = []\<rparr>
                                | Some bs \<Rightarrow> \<lparr>is_good = True, is_rest = bs\<rparr>)"

text \<open>\<open>const std::string filename = "test.wav"\<close>\<close>

definition filename :: string where
  "filename = ''test.wav''"

text \<open>\<open>std::ifstream infile(filename)\<close>: what the file system holds under the name.\<close>

definition open_file :: "string \<Rightarrow> (cubic_world, byte list option) exc" where
  "open_file name = (\<lambda>w. (Inr (cw_files w name), w))"

definition ifstream_read :: "nat \<Rightarrow> ifstream \<Rightarrow> byte list \<times> ifstream" where
  "ifstream_read n st =
     (if n \<le> length (is_rest st) then (take n (is_rest st), st\<lparr>is_rest := drop n (is_rest st)\<rparr>)
      else (is_rest st, \<lparr>is_good = False, is_rest = []\<rparr>))"

definition buffSize :: nat where
  "buffSize = 8192"

text \<open>
  \<open>while (infile.good()) { infile.read(buff, buffSize);
  stream.pushAudio(buff, infile.gcount()); }\<close>: the blocks pushed, in order.
  The loop ends because a full read takes \<open>buffSize > 0\<close> bytes and a short one
  makes the stream not good.
\<close>

function push_file :: "ifstream \<Rightarrow> byte list list" where
  "push_file st =
     (if is_good st
      then (case ifstream_read buffSize st of (chunk, st') \<Rightarrow> chunk # push_file st')
      else [])"
  by pat_completeness auto
termination
  by (relation "measure (\<lambda>st. if is_good st then Suc (length (is_rest st)) else 0)")
     (auto simp: ifstream_read_def buffSize_def split: if_splits)

declare push_file.simps [simp del]

text \<open>The audio thread of the two streaming file clients: push every block, then \<open>audioFinished()\<close>.\<close>

definition audio_thread_file :: "byte list option \<Rightarrow> cubic_event list" where
  "audio_thread_file f = map EvPushAudio (push_file (ifstream_open f)) @ [EvAudioFinished]"

text \<open>The two \<open>catch\<close> clauses of every Cubic client; they print to \<open>std::cerr\<close>.\<close>

fun print_cubic_error :: "exn \<Rightarrow> (cubic_world, unit) exc" where
  "print_cubic_error (CubicError m) = ccerr [Str ''Cubic error: '', Str m, Endl]"
| "print_cubic_error (ClientError m) = ccerr [Str ''Error: '', Str m, Endl]"
| "print_cubic_error (RuntimeError m) = ccerr [Str ''Error: '', Str m, Endl]"
| "print_cubic_error (Undefined m) = throwE (Undefined m)"

section \<open>Reference definitions\<close>

text \<open>
  A result the transcript loop can print: a partial one, or a final one with
  an alternative. What the loop prints for a response of such results: the
  first alternative of every final result, one per line.
\<close>

definition printable :: "recognition_result \<Rightarrow> bool" where
  "printable r \<longleftrightarrow> is_partial r \<or> alternatives r \<noteq> []"

definition final_transcripts :: "recognition_response \<Rightarrow> piece list" where
  "final_transcripts rs =
     concat (map (\<lambda>r. [Str (transcript (hd (alternatives r))), Endl]) (filter (\<lambda>r. \<not> is_partial r) rs))"

section \<open>Evaluation of the world operations\<close>

lemma ccout_apply [exc_simps]: "ccout ps w = (Inr (), w\<lparr>cw_cout := cw_cout w @ ps\<rparr>)"
  by (simp add: ccout_def exc_simps)

lemma ccerr_apply [exc_simps]: "ccerr ps w = (Inr (), w\<lparr>cw_cerr := cw_cerr w @ ps\<rparr>)"
  by (simp add: ccerr_def exc_simps)

lemma emit_apply [exc_simps]: "emit es w = (Inr (), w\<lparr>cw_events := cw_events w @ es\<rparr>)"
  by (simp add: emit_def exc_simps)

lemma sdk_apply [exc_simps]: "sdk r w = (r, w)"
  by (simp add: sdk_def)

lemma open_file_apply [exc_simps]: "open_file name w = (Inr (cw_files w name), w)"
  by (simp add: open_file_def)

section \<open>The transcript loop\<close>

lemma print_transcripts_final:
  "list_all printable rs \<Longrightarrow>
   print_transcripts rs w = (Inr (), w\<lparr>cw_cout := cw_cout w @ final_transcripts rs\<rparr>)"
  by (induction rs arbitrary: w)
     (auto simp: printable_def final_transcripts_def exc_simps split: list.split)

lemma print_transcripts_undefined:
  "\<not> is_partial r \<Longrightarrow> alternatives r = [] \<Longrightarrow>
   print_transcripts (r # rs) w = (Inl (Undefined ''alternatives(0) of an empty list''), w)"
  by (simp add: exc_simps)

section \<open>The file loop\<close>

lemma push_file_good: "\<not> is_good st \<Longrightarrow> push_file st = []"
  by (simp add: push_file.simps)

lemma push_file_concat: "concat (push_file st) = (if is_good st then is_rest st else [])"
  by (induction st rule: push_file.induct)
     (subst push_file.simps, auto simp: ifstream_read_def split: prod.split)

text \<open>The blocks a good stream gives: block \<open>i\<close> is the bytes from \<open>i * buffSize\<close> on.\<close>

lemma push_file_shape:
  "is_good st \<Longrightarrow>
   push_file st = map (\<lambda>i. take buffSize (drop (i * buffSize) (is_rest st))) [0..<length (is_rest st) div buffSize + 1]"
proof (induction "length (is_rest st)" arbitrary: st rule: less_induct)
  case less
  show ?case
  proof (cases "buffSize \<le> length (is_rest st)")
    case True
    let ?st' = "st\<lparr>is_rest := drop buffSize (is_rest st)\<rparr>"
    have len: "length (is_rest ?st') < length (is_rest st)" using True by (simp add: buffSize_def)
    have "push_file st = take buffSize (is_rest st) # push_file ?st'"
      using less.prems True by (simp add: push_file.simps ifstream_read_def)
    also have "push_file ?st' = map (\<lambda>i. take buffSize (drop (i * buffSize) (is_rest ?st')))
                 [0..<length (is_rest ?st') div buffSize + 1]"
      using less.hyps [OF len] less.prems by simp
    moreover have "length (is_rest st) div buffSize + 1 = Suc (length (is_rest ?st') div buffSize + 1)"
      using True by (simp add: le_div_geq buffSize_def)
    ultimately show ?thesis
      by (simp only: map_upt_Suc) (simp add: add.commute)
  next
    case False
    then show ?thesis
      using less.prems by (simp add: push_file.simps ifstream_read_def buffSize_def push_file_good)
  qed
qed

text \<open>
  C15. The audio thread's file loop pushes the file exactly: the blocks it
  pushes concatenate to the file's bytes; there are \<open>length div 8192 + 1\<close> of
  them; every block but the last is a full 8192 bytes; the last holds the
  remainder, so it is empty when the length is a multiple of 8192 (the read that
  empties the stream leaves it good, and one more read comes up empty).
\<close>

theorem push_file_blocks:
  "concat (push_file (ifstream_open (Some data))) = data \<and>
   length (push_file (ifstream_open (Some data))) = length data div buffSize + 1 \<and>
   list_all (\<lambda>c. length c = buffSize) (butlast (push_file (ifstream_open (Some data)))) \<and>
   length (last (push_file (ifstream_open (Some data)))) = length data mod buffSize"
proof -
  let ?n = "length data div buffSize"
  have b: "0 < buffSize" by (simp add: buffSize_def)
  have shape: "push_file (ifstream_open (Some data)) =
      map (\<lambda>i. take buffSize (drop (i * buffSize) data)) [0..<?n + 1]"
    using push_file_shape [of "ifstream_open (Some data)"] by (simp add: ifstream_open_def)
  have full: "\<forall>i<?n. length (take buffSize (drop (i * buffSize) data)) = buffSize"
  proof (intro allI impI)
    fix i assume "i < ?n"
    then have "Suc i * buffSize \<le> ?n * buffSize" by (simp only: mult_le_cancel2) simp
    also have "\<dots> \<le> length data" by (simp add: div_times_less_eq_dividend)
    finally show "length (take buffSize (drop (i * buffSize) data)) = buffSize" by simp
  qed
  have last_len: "length (take buffSize (drop (?n * buffSize) data)) = length data mod buffSize"
    using mod_less_divisor [OF b, of "length data"] by (simp add: minus_div_mult_eq_mod)
  have split: "push_file (ifstream_open (Some data)) =
      map (\<lambda>i. take buffSize (drop (i * buffSize) data)) [0..<?n] @
      [take buffSize (drop (?n * buffSize) data)]"
    using shape by simp
  have c: "concat (push_file (ifstream_open (Some data))) = data"
    by (simp add: push_file_concat ifstream_open_def)
  show ?thesis
    using full last_len c unfolding split by (simp add: list_all_iff)
qed

end
