(* ===== verification/Cubic_File_Clients.thy ===== *)
theory Cubic_File_Clients
  imports Cubic_Client
begin

text \<open>
  The three Cubic clients that recognise the file \<open>test.wav\<close>:
  \<open>src/cubic/synchronous_client.cpp\<close> sends it whole with \<open>recognize\<close>;
  \<open>src/cubic/stream_client.cpp\<close> streams it on an audio thread in blocks of
  8192 bytes while the main thread prints the transcripts as they arrive;
  \<open>src/cubic/context_client.cpp\<close> does the same after compiling a list of
  phrases into a recognition context for the first model's first context token.
  The file \<open>filename\<close> is looked up in the world's file system when the
  client opens its \<open>std::ifstream\<close>: its bytes, or \<open>None\<close> when it cannot
  be opened. The audio thread and the main thread share only the stream: the
  thread's requests (the pushes and \<open>audioFinished\<close>) and the main thread's
  output are separate parts of the world, and the responses are the server's
  answer to all the audio pushed, so running the thread to its end before the
  main thread's loop gives the same final world as any interleaving.
  Each \<open><<\<close> chain prints left to right (C++17), so the text before a call is
  out before the call runs.
\<close>

definition serverAddress_cubic :: string where
  "serverAddress_cubic = ''localhost:2727''"

definition print_versions :: "cubic_server \<Rightarrow> (cubic_world, unit) exc" where
  "print_versions cs =
     bindE (ccout [Str ''Cubic version: '']) (\<lambda>_.
     bindE (sdk (cs_cubicVersion cs)) (\<lambda>v.
     bindE (ccout [Str v, Endl, Str ''Server version: '']) (\<lambda>_.
     bindE (sdk (cs_serverVersion cs)) (\<lambda>sv.
     ccout [Str sv, Endl, Str ''Connected to '', Str serverAddress_cubic, Endl, Endl]))))"

definition print_model_list :: "cubic_model list \<Rightarrow> piece list" where
  "print_model_list ms =
     [Str ''Available Models:'', Endl] @
     concat (map (\<lambda>m. [Str ''ID = '', Str (cm_id m), Str '', Name = '', Str (cm_name m), Endl]) ms)"

text \<open>\<open>cfg.set_model_id(modelID); cfg.set_audio_encoding(WAV)\<close>: the configuration of the clients without context.\<close>

definition stream_cfg :: "cubic_model \<Rightarrow> recognition_config" where
  "stream_cfg m = \<lparr>cfg_model_id = cm_id m, cfg_audio_encoding = WAV, cfg_context = []\<rparr>"

text \<open>\<open>while (stream.receiveResults(&resp))\<close>: the transcripts of every response in turn.\<close>

fun print_responses :: "recognition_response list \<Rightarrow> (cubic_world, unit) exc" where
  "print_responses [] = returnE ()"
| "print_responses (r # rs) = bindE (print_transcripts r) (\<lambda>_. print_responses rs)"

text \<open>
  The streaming part of \<open>stream_client.cpp\<close> and \<open>context_client.cpp\<close>, from
  \<open>streamingRecognize(cfg)\<close> to \<open>stream.close()\<close>.
\<close>

definition stream_file ::
  "cubic_server \<Rightarrow> recognition_config \<Rightarrow> (cubic_world, unit) exc" where
  "stream_file cs cfg =
     bindE (emit [EvStreamingRecognize cfg]) (\<lambda>_.
     bindE (open_file filename) (\<lambda>file.
     bindE (emit (audio_thread_file file)) (\<lambda>_.
     bindE (ccout [Str ''\<newline>Transcripts:'', Endl]) (\<lambda>_.
     bindE (print_responses (cs_stream_responses cs cfg (concat (push_file (ifstream_open file))))) (\<lambda>_.
     emit [EvClose])))))"

definition main_stream :: "cubic_server \<Rightarrow> (cubic_world, unit) exc" where
  "main_stream cs =
     bindE (catch_std
       (bindE (print_versions cs) (\<lambda>_.
        bindE (sdk (cs_listModels cs)) (\<lambda>models.
        bindE (ccout (print_model_list models)) (\<lambda>_.
        bindE (first_model models) (\<lambda>m.
        stream_file cs (stream_cfg m))))))
       print_cubic_error) (\<lambda>_.
     ccout [Str ''\<newline>Done.'', Endl])"

text \<open>
  \<open>synchronous_client.cpp\<close>: the file read whole through
  \<open>std::istreambuf_iterator\<close> (empty when it cannot be opened), one
  \<open>recognize\<close> call, its transcripts.
\<close>

definition main_sync :: "cubic_server \<Rightarrow> (cubic_world, unit) exc" where
  "main_sync cs =
     bindE (catch_std
       (bindE (print_versions cs) (\<lambda>_.
        bindE (sdk (cs_listModels cs)) (\<lambda>models.
        bindE (ccout (print_model_list models)) (\<lambda>_.
        bindE (first_model models) (\<lambda>m.
        bindE (open_file filename) (\<lambda>file.
        (let cfg = stream_cfg m;
             data = (case file of None \<Rightarrow> [] | Some bs \<Rightarrow> bs)
         in bindE (emit [EvRecognize cfg data]) (\<lambda>_.
            bindE (sdk (cs_recognize cs cfg data)) (\<lambda>resp.
            bindE (ccout [Str ''\<newline>Transcripts:'', Endl]) (\<lambda>_.
            print_transcripts resp))))))))))
       print_cubic_error) (\<lambda>_.
     ccout [Str ''\<newline>Done.'', Endl])"

section \<open>context_client.cpp\<close>

text \<open>
  The list of a model's context tokens: each token followed by \<open>", "\<close>, then
  \<open>tokString.erase(tokString.end() - 2, tokString.end())\<close>, which is undefined
  when the string is shorter than two characters.
\<close>

definition tok_string :: "string list \<Rightarrow> (cubic_world, string) exc" where
  "tok_string toks =
     (let s = concat (map (\<lambda>tok. tok @ '', '') toks)
      in if length s < 2 then throwE (Undefined ''erase before the beginning of tokString'')
         else returnE (take (length s - 2) s))"

definition print_context_model :: "cubic_model \<Rightarrow> (cubic_world, unit) exc" where
  "print_context_model m =
     bindE (ccout [Str ''  ID = '', Str (cm_id m), Endl, Str ''  Name = '', Str (cm_name m),
                   Str ''  Supports Context = '', Bool (supportsContext m), Endl]) (\<lambda>_.
     bindE (if supportsContext m
            then bindE (tok_string (allowedContextTokens m)) (\<lambda>tokString.
                 ccout [Str ''  Allowed Context Tokens = '', Str tokString, Endl])
            else returnE ()) (\<lambda>_.
     ccout [Endl]))"

fun print_context_models :: "cubic_model list \<Rightarrow> (cubic_world, unit) exc" where
  "print_context_models [] = returnE ()"
| "print_context_models (m # ms) = bindE (print_context_model m) (\<lambda>_. print_context_models ms)"

definition phrases :: "string list" where
  "phrases = [''NARITA'', ''KUALA LUMPUR INTERNATIONAL'', ''ISTANBUL ATATURK'', ''LAGUARDIA'']"

text \<open>\<open>model.allowedContextTokens()[0]\<close>: out of range when the model has none.\<close>

definition first_token :: "cubic_model \<Rightarrow> (cubic_world, string) exc" where
  "first_token m = (case allowedContextTokens m of
                      [] \<Rightarrow> throwE (Undefined ''allowedContextTokens()[0] of an empty vector'')
                    | t # _ \<Rightarrow> returnE t)"

text \<open>\<open>cfg.set_model_id(model.id()); ...; *(cfg.mutable_context()) = compiledContexts\<close>.\<close>

definition context_cfg :: "cubic_model \<Rightarrow> compiled_context \<Rightarrow> recognition_config" where
  "context_cfg m c = \<lparr>cfg_model_id = cm_id m, cfg_audio_encoding = WAV, cfg_context = [c]\<rparr>"

definition main_context :: "cubic_server \<Rightarrow> (cubic_world, unit) exc" where
  "main_context cs =
     bindE (catch_std
       (bindE (print_versions cs) (\<lambda>_.
        bindE (sdk (cs_listModels cs)) (\<lambda>models.
        bindE (ccout [Str ''Available Models:'', Endl]) (\<lambda>_.
        bindE (print_context_models models) (\<lambda>_.
        bindE (first_model models) (\<lambda>model.
        bindE (first_token model) (\<lambda>contextToken.
        bindE (emit [EvCompileContext (cm_id model) contextToken phrases]) (\<lambda>_.
        bindE (sdk (cs_compileContext cs (cm_id model) contextToken phrases)) (\<lambda>compiled.
        stream_file cs (context_cfg model compiled))))))))))
       print_cubic_error) (\<lambda>_.
     ccout [Str ''\<newline>Done.'', Endl])"

section \<open>Reference definitions and a test double\<close>

text \<open>
  What the clients print before the model list; joining strings with a
  separator; a model whose token list \<open>tokString\<close> can be built, and what
  \<open>context_client.cpp\<close> prints for it. A service answering with one model and
  one final transcript, for the witnesses.
\<close>

definition header_out :: "string \<Rightarrow> string \<Rightarrow> piece list" where
  "header_out v sv = [Str ''Cubic version: '', Str v, Endl, Str ''Server version: '', Str sv, Endl,
      Str ''Connected to '', Str serverAddress_cubic, Endl, Endl]"

fun join_with :: "string \<Rightarrow> string list \<Rightarrow> string" where
  "join_with sep [] = []"
| "join_with sep [x] = x"
| "join_with sep (x # y # zs) = x @ sep @ join_with sep (y # zs)"

definition context_model_ok :: "cubic_model \<Rightarrow> bool" where
  "context_model_ok m \<longleftrightarrow> \<not> supportsContext m \<or> allowedContextTokens m \<noteq> []"

definition context_model_out :: "cubic_model \<Rightarrow> piece list" where
  "context_model_out m =
     [Str ''  ID = '', Str (cm_id m), Endl, Str ''  Name = '', Str (cm_name m),
      Str ''  Supports Context = '', Bool (supportsContext m), Endl] @
     (if supportsContext m
      then [Str ''  Allowed Context Tokens = '', Str (join_with '', '' (allowedContextTokens m)), Endl]
      else []) @ [Endl]"


definition demo_model :: cubic_model where
  "demo_model = \<lparr>cm_id = ''1'', cm_name = ''General'', supportsContext = True,
                  allowedContextTokens = [''airport_names'']\<rparr>"

definition demo_result :: recognition_result where
  "demo_result = \<lparr>is_partial = False, alternatives = [\<lparr>transcript = ''hello world''\<rparr>]\<rparr>"

definition demo_cubic :: cubic_server where
  "demo_cubic = \<lparr>cs_cubicVersion = Inr ''1.0'', cs_serverVersion = Inr ''2.0'',
     cs_listModels = Inr [demo_model], cs_compileContext = (\<lambda>_ _ _. Inr ''compiled''),
     cs_recognize = (\<lambda>_ _. Inr [demo_result]), cs_stream_responses = (\<lambda>_ _. [[demo_result]])\<rparr>"

definition demo_cworld :: cubic_world where
  "demo_cworld = \<lparr>cw_cout = [], cw_cerr = [], cw_events = [], cw_files = [filename \<mapsto> [1, 2, 3]]\<rparr>"

lemmas demo_cubic_defs = demo_model_def demo_result_def demo_cubic_def demo_cworld_def printable_def
  context_model_ok_def

section \<open>Properties\<close>

lemma print_responses_final:
  "list_all (list_all printable) rss \<Longrightarrow>
   print_responses rss w = (Inr (), w\<lparr>cw_cout := cw_cout w @ concat (map final_transcripts rss)\<rparr>)"
  by (induction rss arbitrary: w) (simp_all add: exc_simps print_transcripts_final)

lemma print_versions_ok:
  "cs_cubicVersion cs = Inr v \<Longrightarrow> cs_serverVersion cs = Inr sv \<Longrightarrow>
   print_versions cs w = (Inr (), w\<lparr>cw_cout := cw_cout w @ header_out v sv\<rparr>)"
  by (simp add: print_versions_def header_out_def exc_simps)

lemma concat_sep_join:
  "toks \<noteq> [] \<Longrightarrow> concat (map (\<lambda>t. t @ sep) toks) = join_with sep toks @ sep"
  by (induction sep toks rule: join_with.induct) auto

text \<open>
  C20. The token list of \<open>context_client.cpp\<close> (append \<open>", "\<close> to every
  token, then erase the last two characters) is the tokens joined with
  \<open>", "\<close>, for every non-empty list of tokens.
\<close>

theorem tok_string_join:
  "toks \<noteq> [] \<Longrightarrow> tok_string toks = returnE (join_with '', '' toks)"
  by (simp add: tok_string_def Let_def concat_sep_join)

lemma print_context_model_ok:
  "context_model_ok m \<Longrightarrow>
   print_context_model m w = (Inr (), w\<lparr>cw_cout := cw_cout w @ context_model_out m\<rparr>)"
  by (auto simp: print_context_model_def context_model_ok_def context_model_out_def exc_simps
      Let_def tok_string_def concat_sep_join)

lemma print_context_models_ok:
  "list_all context_model_ok ms \<Longrightarrow>
   print_context_models ms w = (Inr (), w\<lparr>cw_cout := cw_cout w @ concat (map context_model_out ms)\<rparr>)"
  by (induction ms arbitrary: w) (simp_all add: exc_simps print_context_model_ok)

lemma print_context_model_run:
  "print_context_model m w = (r, w') \<Longrightarrow>
   cw_events w' = cw_events w \<and> (r = Inr () \<or> (\<exists>u. r = Inl (Undefined u)))"
  by (auto simp: print_context_model_def exc_simps tok_string_def Let_def split: if_splits)

lemma print_context_models_run:
  "print_context_models ms w = (r, w') \<Longrightarrow>
   cw_events w' = cw_events w \<and> (r = Inr () \<or> (\<exists>u. r = Inl (Undefined u)))"
proof (induction ms arbitrary: w)
  case (Cons m ms)
  obtain r1 w1 where 1: "print_context_model m w = (r1, w1)" by fastforce
  show ?case
  proof (cases r1)
    case (Inl e)
    then show ?thesis using Cons.prems 1 print_context_model_run [OF 1] by (auto simp: exc_simps)
  next
    case (Inr u)
    then show ?thesis using Cons.prems 1 print_context_model_run [OF 1] Cons.IH [of w1]
      by (simp add: exc_simps)
  qed
qed (simp add: exc_simps)

lemma main_stream_run:
  assumes "cs_cubicVersion cs = Inr v" "cs_serverVersion cs = Inr sv" "cs_listModels cs = Inr (m # ms)"
    "cw_files w filename = contents"
    "list_all (list_all printable) (cs_stream_responses cs (stream_cfg m) (concat (push_file (ifstream_open contents))))"
  shows "main_stream cs w =
    (Inr (), w\<lparr>cw_cout := cw_cout w @ header_out v sv @ print_model_list (m # ms) @
                 [Str ''\<newline>Transcripts:'', Endl] @
                 concat (map final_transcripts
                   (cs_stream_responses cs (stream_cfg m) (concat (push_file (ifstream_open contents))))) @
                 [Str ''\<newline>Done.'', Endl],
               cw_events := cw_events w @ [EvStreamingRecognize (stream_cfg m)] @
                 map EvPushAudio (push_file (ifstream_open contents)) @ [EvAudioFinished, EvClose]\<rparr>)"
  using assms
  by (simp add: main_stream_def stream_file_def exc_simps print_versions_ok first_model_def
        print_responses_final audio_thread_file_def)

text \<open>
  C16. \<open>stream_client.cpp\<close> on a file that opens and a service that answers:
  it prints the versions, the model list, then the final transcripts of every
  response and "Done."; on the SDK it opens one stream with the first model and
  WAV, pushes the file's blocks in order, finishes the audio and closes the
  stream; the service is asked to recognise exactly the file's bytes.
\<close>

theorem main_stream_file:
  assumes "cs_cubicVersion cs = Inr v" "cs_serverVersion cs = Inr sv" "cs_listModels cs = Inr (m # ms)"
    "cw_files w filename = Some data"
    "list_all (list_all printable) (cs_stream_responses cs (stream_cfg m) data)"
  shows "main_stream cs w =
    (Inr (), w\<lparr>cw_cout := cw_cout w @ header_out v sv @ print_model_list (m # ms) @
                 [Str ''\<newline>Transcripts:'', Endl] @
                 concat (map final_transcripts (cs_stream_responses cs (stream_cfg m) data)) @
                 [Str ''\<newline>Done.'', Endl],
               cw_events := cw_events w @ [EvStreamingRecognize (stream_cfg m)] @
                 map EvPushAudio (push_file (ifstream_open (Some data))) @ [EvAudioFinished, EvClose]\<rparr>)"
  using assms
  by (simp add: main_stream_run [where contents = "Some data"] push_file_concat ifstream_open_def)

text \<open>
  C17. When \<open>test.wav\<close> cannot be opened, \<open>stream_client.cpp\<close> reports
  nothing: it still opens a stream, pushes no audio, finishes, closes the
  stream and prints "Done.".
\<close>

theorem main_stream_missing_file:
  assumes "cs_cubicVersion cs = Inr v" "cs_serverVersion cs = Inr sv" "cs_listModels cs = Inr (m # ms)"
    "cw_files w filename = None"
    "list_all (list_all printable) (cs_stream_responses cs (stream_cfg m) [])"
  shows "main_stream cs w =
    (Inr (), w\<lparr>cw_cout := cw_cout w @ header_out v sv @ print_model_list (m # ms) @
                 [Str ''\<newline>Transcripts:'', Endl] @
                 concat (map final_transcripts (cs_stream_responses cs (stream_cfg m) [])) @
                 [Str ''\<newline>Done.'', Endl],
               cw_events := cw_events w @ [EvStreamingRecognize (stream_cfg m), EvAudioFinished, EvClose]\<rparr>)"
  using assms
  by (simp add: main_stream_run [where contents = None] push_file_good ifstream_open_def)

text \<open>
  C18. When the service lists no model, \<open>models[0]\<close> is read out of range
  (undefined behaviour) before any stream is opened: nothing is caught, "Done."
  is not reached, and no request has been made on the stream.
\<close>

theorem main_stream_no_models:
  assumes "cs_cubicVersion cs = Inr v" "cs_serverVersion cs = Inr sv" "cs_listModels cs = Inr []"
  shows "main_stream cs w =
    (Inl (Undefined ''models[0] of an empty vector''),
     w\<lparr>cw_cout := cw_cout w @ header_out v sv @ print_model_list []\<rparr>)"
  using assms
  by (simp add: main_stream_def exc_simps print_versions_ok first_model_def)

text \<open>
  C19. A \<open>CubicException\<close> from \<open>listModels\<close> is caught: "Cubic error: "
  and its message go to \<open>std::cerr\<close>, "Done." to \<open>std::cout\<close>, and no
  stream is opened.
\<close>

theorem main_stream_cubic_error:
  assumes "cs_cubicVersion cs = Inr v" "cs_serverVersion cs = Inr sv" "cs_listModels cs = Inl (CubicError e)"
  shows "main_stream cs w =
    (Inr (), w\<lparr>cw_cout := cw_cout w @ header_out v sv @ [Str ''\<newline>Done.'', Endl],
               cw_cerr := cw_cerr w @ [Str ''Cubic error: '', Str e, Endl]\<rparr>)"
  using assms
  by (simp add: main_stream_def exc_simps print_versions_ok)

text \<open>
  C21. If the first model has no context token, \<open>context_client.cpp\<close> runs into
  undefined behaviour before it makes any request on the SDK: \<open>erase\<close> on a
  string shorter than two characters when the model supports context,
  \<open>allowedContextTokens()[0]\<close> otherwise.
\<close>

theorem main_context_no_tokens:
  assumes "cs_cubicVersion cs = Inr v" "cs_serverVersion cs = Inr sv" "cs_listModels cs = Inr (m # ms)"
    "allowedContextTokens m = []"
  shows "\<exists>u w'. main_context cs w = (Inl (Undefined u), w') \<and> cw_events w' = cw_events w"
proof -
  let ?w1 = "w\<lparr>cw_cout := cw_cout w @ header_out v sv @ [Str ''Available Models:'', Endl]\<rparr>"
  obtain r w2 where run: "print_context_models (m # ms) ?w1 = (r, w2)" by fastforce
  have ev: "cw_events w2 = cw_events w" and r: "r = Inr () \<or> (\<exists>u. r = Inl (Undefined u))"
    using print_context_models_run [OF run] by simp_all
  show ?thesis
    using r
  proof (elim disjE exE)
    assume "r = Inr ()"
    then show ?thesis
      using assms run ev by (simp add: main_context_def exc_simps print_versions_ok first_model_def first_token_def)
  next
    fix u assume "r = Inl (Undefined u)"
    then show ?thesis
      using assms run ev by (simp add: main_context_def exc_simps print_versions_ok)
  qed
qed

text \<open>
  C22. \<open>context_client.cpp\<close> on a file that opens: it prints every model with
  its joined token list, compiles the phrases for the first model's first token,
  streams the file's blocks with the compiled context in the configuration, and
  prints the final transcripts and "Done.".
\<close>

theorem main_context_run:
  assumes "cs_cubicVersion cs = Inr v" "cs_serverVersion cs = Inr sv" "cs_listModels cs = Inr (m # ms)"
    "list_all context_model_ok (m # ms)" "allowedContextTokens m = t # ts"
    "cs_compileContext cs (cm_id m) t phrases = Inr c"
    "cw_files w filename = Some data"
    "list_all (list_all printable) (cs_stream_responses cs (context_cfg m c) data)"
  shows "main_context cs w =
    (Inr (), w\<lparr>cw_cout := cw_cout w @ header_out v sv @ [Str ''Available Models:'', Endl] @
                 concat (map context_model_out (m # ms)) @ [Str ''\<newline>Transcripts:'', Endl] @
                 concat (map final_transcripts (cs_stream_responses cs (context_cfg m c) data)) @
                 [Str ''\<newline>Done.'', Endl],
               cw_events := cw_events w @
                 [EvCompileContext (cm_id m) t phrases, EvStreamingRecognize (context_cfg m c)] @
                 map EvPushAudio (push_file (ifstream_open (Some data))) @ [EvAudioFinished, EvClose]\<rparr>)"
proof -
  have cm: "print_context_models (m # ms) = (\<lambda>w. (Inr (), w\<lparr>cw_cout := cw_cout w @ concat (map context_model_out (m # ms))\<rparr>))"
    using print_context_models_ok [OF assms(4)] by (intro ext) simp
  show ?thesis
    using assms(1-3,5-8)
    by (simp add: main_context_def stream_file_def exc_simps print_versions_ok first_model_def cm
        first_token_def print_responses_final audio_thread_file_def push_file_concat ifstream_open_def
        del: print_context_models.simps)
qed

text \<open>
  C23. \<open>synchronous_client.cpp\<close> sends the whole file in one \<open>recognize\<close>
  request with the first model and prints the final transcripts of its answer.
\<close>

theorem main_sync_file:
  assumes "cs_cubicVersion cs = Inr v" "cs_serverVersion cs = Inr sv" "cs_listModels cs = Inr (m # ms)"
    "cw_files w filename = Some data"
    "cs_recognize cs (stream_cfg m) data = Inr resp" "list_all printable resp"
  shows "main_sync cs w =
    (Inr (), w\<lparr>cw_cout := cw_cout w @ header_out v sv @ print_model_list (m # ms) @
                 [Str ''\<newline>Transcripts:'', Endl] @ final_transcripts resp @ [Str ''\<newline>Done.'', Endl],
               cw_events := cw_events w @ [EvRecognize (stream_cfg m) data]\<rparr>)"
  using assms
  by (simp add: main_sync_def exc_simps print_versions_ok first_model_def print_transcripts_final)

lemma main_stream_file_witness:
  "fst (main_stream demo_cubic demo_cworld) = Inr () \<and>
   cw_events (snd (main_stream demo_cubic demo_cworld)) =
     [EvStreamingRecognize (stream_cfg demo_model), EvPushAudio [1, 2, 3], EvAudioFinished, EvClose]"
  using main_stream_file [where cs = demo_cubic and v = "''1.0''" and sv = "''2.0''" and m = demo_model
      and ms = "[]" and data = "[1, 2, 3]" and w = demo_cworld]
  by (simp add: demo_cubic_defs push_file.simps ifstream_read_def ifstream_open_def buffSize_def)

lemma main_stream_missing_file_witness:
  "cw_events (snd (main_stream demo_cubic (demo_cworld\<lparr>cw_files := Map.empty\<rparr>))) =
     [EvStreamingRecognize (stream_cfg demo_model), EvAudioFinished, EvClose]"
  using main_stream_missing_file [where cs = demo_cubic and v = "''1.0''" and sv = "''2.0''" and m = demo_model
      and ms = "[]" and w = "demo_cworld\<lparr>cw_files := Map.empty\<rparr>"]
  by (simp add: demo_cubic_defs)

lemma main_stream_no_models_witness:
  "main_stream (demo_cubic\<lparr>cs_listModels := Inr []\<rparr>) demo_cworld =
     (Inl (Undefined ''models[0] of an empty vector''),
      demo_cworld\<lparr>cw_cout := header_out ''1.0'' ''2.0'' @ print_model_list []\<rparr>)"
  using main_stream_no_models [where cs = "demo_cubic\<lparr>cs_listModels := Inr []\<rparr>" and v = "''1.0''"
      and sv = "''2.0''" and w = demo_cworld]
  by (simp add: demo_cubic_def demo_cworld_def)

lemma main_stream_cubic_error_witness:
  "cw_cerr (snd (main_stream (demo_cubic\<lparr>cs_listModels := Inl (CubicError ''unavailable'')\<rparr>) demo_cworld)) =
     [Str ''Cubic error: '', Str ''unavailable'', Endl]"
  using main_stream_cubic_error [where cs = "demo_cubic\<lparr>cs_listModels := Inl (CubicError ''unavailable'')\<rparr>"
      and v = "''1.0''" and sv = "''2.0''" and e = "''unavailable''" and w = demo_cworld]
  by (simp add: demo_cubic_def demo_cworld_def)

lemma tok_string_join_witness:
  "tok_string [''airport_names'', ''city_names''] = returnE ''airport_names, city_names''"
  using tok_string_join [of "[''airport_names'', ''city_names'']"] by simp

lemma main_context_no_tokens_witness:
  "\<exists>u w'. main_context (demo_cubic\<lparr>cs_listModels := Inr [demo_model\<lparr>allowedContextTokens := []\<rparr>]\<rparr>) demo_cworld
      = (Inl (Undefined u), w') \<and> cw_events w' = []"
  using main_context_no_tokens [where cs = "demo_cubic\<lparr>cs_listModels := Inr [demo_model\<lparr>allowedContextTokens := []\<rparr>]\<rparr>"
      and v = "''1.0''" and sv = "''2.0''" and m = "demo_model\<lparr>allowedContextTokens := []\<rparr>" and ms = "[]"
      and w = demo_cworld]
  by (simp add: demo_cubic_def demo_cworld_def)

lemma main_context_run_witness:
  "cw_events (snd (main_context demo_cubic demo_cworld)) =
     [EvCompileContext ''1'' ''airport_names'' phrases, EvStreamingRecognize (context_cfg demo_model ''compiled''),
      EvPushAudio [1, 2, 3], EvAudioFinished, EvClose]"
  using main_context_run [where cs = demo_cubic and v = "''1.0''" and sv = "''2.0''" and m = demo_model
      and ms = "[]" and t = "''airport_names''" and ts = "[]" and c = "''compiled''" and data = "[1, 2, 3]"
      and w = demo_cworld]
  by (simp add: demo_cubic_defs push_file.simps ifstream_read_def ifstream_open_def buffSize_def)

lemma main_sync_file_witness:
  "snd (main_sync demo_cubic demo_cworld) =
     demo_cworld\<lparr>cw_cout := header_out ''1.0'' ''2.0'' @ print_model_list [demo_model] @
        [Str ''\<newline>Transcripts:'', Endl, Str ''hello world'', Endl, Str ''\<newline>Done.'', Endl],
      cw_events := [EvRecognize (stream_cfg demo_model) [1, 2, 3]]\<rparr>"
  using main_sync_file [where cs = demo_cubic and v = "''1.0''" and sv = "''2.0''" and m = demo_model
      and ms = "[]" and data = "[1, 2, 3]" and resp = "[demo_result]" and w = demo_cworld]
  by (simp add: demo_cubic_defs final_transcripts_def)

end
