(* ===== verification/Cubic_Mic_Client.thy ===== *)
theory Cubic_Mic_Client
  imports Cubic_File_Clients
begin

text \<open>
  \<open>src/cubic/mic_client.cpp\<close>: after the same prefix as the file clients (with
  \<open>RAW_LINEAR16\<close> audio), \<open>main\<close> opens one stream and runs three threads on it.
  The audio thread starts a \<open>Recorder\<close> and pushes what it reads while the
  atomic \<open>isRecording\<close> is set, then stops the recorder and finishes the audio;
  the results thread prints the final transcripts of every response until the
  stream ends; the main thread prints a prompt, waits for a line on standard
  input, clears \<open>isRecording\<close>, joins both threads and closes the stream.
  The threads are an interleaving: \<open>mic_step\<close> is one atomic step of one of
  them, each thread's program counter says where it is. A step of a printing
  thread is one \<open>operator<<\<close> on \<open>std::cout\<close>: the pieces a statement still
  has to write are the thread's pending output, so the other threads can run
  between two pieces of one statement. The \<open>Recorder\<close> the
  file includes is not the one of \<open>src/diatheke\<close> (its \<open>readAudio()\<close>
  takes no buffer) and is not in the repository: it is modelled by what the
  thread sees, a \<open>start\<close> that may fail to run the recording program without
  saying so, and a \<open>readAudio\<close> that then throws, as the Diatheke recorder does.
  An exception that leaves a thread's function calls \<open>std::terminate\<close>.
\<close>

datatype audio_pc = AStart | ACheck | ARead | AStop | AFinish | ADone

datatype results_pc = RRecv | RDone

datatype main_pc = MPrint | MWait | MFlag | MJoinA | MJoinR | MClose | MDone

text \<open>The stream as the threads share it: whether \<open>audioFinished\<close> was called,
  and the responses the service has still to deliver. \<open>receiveResults\<close>
  returns false once the service has sent its last response, which it does only
  after the client's \<open>audioFinished\<close>. \<open>r_pending\<close> and \<open>m_pending\<close> are
  the pieces the results thread's and the main thread's current output
  statements have still to write.\<close>

record mic_state =
  isRecording :: bool
  a_pc :: audio_pc
  rec_started :: bool
  r_pc :: results_pc
  r_pending :: "piece list"
  m_pc :: main_pc
  m_pending :: "piece list"
  st_finished :: bool
  st_responses :: "recognition_response list"
  m_stdin :: "string list"
  mw :: cubic_world
  terminated :: bool

definition recording_msg :: "piece list" where
  "recording_msg = [Str ''\<newline>\<newline>Recording. Press Enter to stop.'', Str ''\<newline>\<newline>Transcripts:'', Endl]"

definition mic_cfg :: "cubic_model \<Rightarrow> recognition_config" where
  "mic_cfg m = \<lparr>cfg_model_id = cm_id m, cfg_audio_encoding = RAW_LINEAR16, cfg_context = []\<rparr>"

text \<open>Lines 59 to 79, before the threads: versions, models, \<open>models[0]\<close>, the stream.\<close>

definition mic_prefix :: "cubic_server \<Rightarrow> (cubic_world, recognition_config) exc" where
  "mic_prefix cs =
     bindE (print_versions cs) (\<lambda>_.
     bindE (sdk (cs_listModels cs)) (\<lambda>models.
     bindE (ccout (print_model_list models)) (\<lambda>_.
     bindE (first_model models) (\<lambda>m.
     bindE (emit [EvStreamingRecognize (mic_cfg m)]) (\<lambda>_.
     returnE (mic_cfg m))))))"

text \<open>The state when the threads are created (lines 82 to 110).\<close>

definition mic_init :: "cubic_world \<Rightarrow> recognition_response list \<Rightarrow> string list \<Rightarrow> mic_state" where
  "mic_init w rs input =
     \<lparr>isRecording = True, a_pc = AStart, rec_started = False, r_pc = RRecv, r_pending = [],
      m_pc = MPrint, m_pending = recording_msg, st_finished = False, st_responses = rs, m_stdin = input,
      mw = w, terminated = False\<rparr>"

definition push_audio :: "byte list \<Rightarrow> cubic_world \<Rightarrow> cubic_world" where
  "push_audio c w = w\<lparr>cw_events := cw_events w @ [EvPushAudio c]\<rparr>"

inductive mic_step :: "mic_state \<Rightarrow> mic_state \<Rightarrow> bool" where
  audio_start:
    "\<not> terminated s \<Longrightarrow> a_pc s = AStart \<Longrightarrow> mic_step s (s\<lparr>a_pc := ACheck, rec_started := ok\<rparr>)"
| audio_check_on:
    "\<not> terminated s \<Longrightarrow> a_pc s = ACheck \<Longrightarrow> isRecording s \<Longrightarrow> mic_step s (s\<lparr>a_pc := ARead\<rparr>)"
| audio_check_off:
    "\<not> terminated s \<Longrightarrow> a_pc s = ACheck \<Longrightarrow> \<not> isRecording s \<Longrightarrow> mic_step s (s\<lparr>a_pc := AStop\<rparr>)"
| audio_read:
    "\<not> terminated s \<Longrightarrow> a_pc s = ARead \<Longrightarrow> rec_started s \<Longrightarrow>
     mic_step s (s\<lparr>a_pc := ACheck, mw := push_audio c (mw s)\<rparr>)"
| audio_read_fail:
    "\<not> terminated s \<Longrightarrow> a_pc s = ARead \<Longrightarrow> \<not> rec_started s \<Longrightarrow> mic_step s (s\<lparr>terminated := True\<rparr>)"
| audio_stop:
    "\<not> terminated s \<Longrightarrow> a_pc s = AStop \<Longrightarrow> mic_step s (s\<lparr>a_pc := AFinish, rec_started := False\<rparr>)"
| audio_finish:
    "\<not> terminated s \<Longrightarrow> a_pc s = AFinish \<Longrightarrow>
     mic_step s (s\<lparr>a_pc := ADone, st_finished := True,
                   mw := (mw s)\<lparr>cw_events := cw_events (mw s) @ [EvAudioFinished]\<rparr>\<rparr>)"
| results_recv:
    "\<not> terminated s \<Longrightarrow> r_pc s = RRecv \<Longrightarrow> r_pending s = [] \<Longrightarrow> st_responses s = r # rs \<Longrightarrow>
     list_all printable r \<Longrightarrow> mic_step s (s\<lparr>st_responses := rs, r_pending := final_transcripts r\<rparr>)"
| results_print:
    "\<not> terminated s \<Longrightarrow> r_pc s = RRecv \<Longrightarrow> r_pending s = p # ps \<Longrightarrow>
     mic_step s (s\<lparr>r_pending := ps, mw := (mw s)\<lparr>cw_cout := cw_cout (mw s) @ [p]\<rparr>\<rparr>)"
| results_end:
    "\<not> terminated s \<Longrightarrow> r_pc s = RRecv \<Longrightarrow> r_pending s = [] \<Longrightarrow> st_responses s = [] \<Longrightarrow> st_finished s \<Longrightarrow>
     mic_step s (s\<lparr>r_pc := RDone\<rparr>)"
| main_print:
    "\<not> terminated s \<Longrightarrow> m_pc s = MPrint \<Longrightarrow> m_pending s = p # ps \<Longrightarrow>
     mic_step s (s\<lparr>m_pc := (if ps = [] then MWait else MPrint), m_pending := ps,
                   mw := (mw s)\<lparr>cw_cout := cw_cout (mw s) @ [p]\<rparr>\<rparr>)"
| main_enter:
    "\<not> terminated s \<Longrightarrow> m_pc s = MWait \<Longrightarrow> mic_step s (s\<lparr>m_pc := MFlag, m_stdin := drop 1 (m_stdin s)\<rparr>)"
| main_flag:
    "\<not> terminated s \<Longrightarrow> m_pc s = MFlag \<Longrightarrow> mic_step s (s\<lparr>m_pc := MJoinA, isRecording := False\<rparr>)"
| main_join_audio:
    "\<not> terminated s \<Longrightarrow> m_pc s = MJoinA \<Longrightarrow> a_pc s = ADone \<Longrightarrow> mic_step s (s\<lparr>m_pc := MJoinR\<rparr>)"
| main_join_results:
    "\<not> terminated s \<Longrightarrow> m_pc s = MJoinR \<Longrightarrow> r_pc s = RDone \<Longrightarrow> mic_step s (s\<lparr>m_pc := MClose\<rparr>)"
| main_close:
    "\<not> terminated s \<Longrightarrow> m_pc s = MClose \<Longrightarrow>
     mic_step s (s\<lparr>m_pc := MDone, mw := (mw s)\<lparr>cw_events := cw_events (mw s) @ [EvClose]\<rparr>\<rparr>)"

code_pred mic_step .

text \<open>
  \<open>main\<close>: its outcomes. The prefix may throw (caught, or undefined behaviour
  at \<open>models[0]\<close>); otherwise the threads run until the main thread has
  closed the stream, and "Done." is printed, or until an exception in the audio
  thread calls \<open>std::terminate\<close>, which ends the process where it stands
  (the catch clauses never see it). The responses are the service's answers on
  the stream, a parameter: what it recognises in the microphone's audio.
\<close>

definition done_msg :: "piece list" where
  "done_msg = [Str ''\<newline>Done.'', Endl]"

inductive main_mic ::
  "cubic_server \<Rightarrow> recognition_response list \<Rightarrow> string list \<Rightarrow> cubic_world \<Rightarrow> exn + unit \<Rightarrow> cubic_world \<Rightarrow> bool" where
  prefix_undefined:
    "mic_prefix cs w = (Inl (Undefined u), w1) \<Longrightarrow> main_mic cs rs input w (Inl (Undefined u)) w1"
| prefix_caught:
    "mic_prefix cs w = (Inl e, w1) \<Longrightarrow> print_cubic_error e w1 = (Inr (), w2) \<Longrightarrow>
     main_mic cs rs input w (Inr ()) (w2\<lparr>cw_cout := cw_cout w2 @ done_msg\<rparr>)"
| threads_done:
    "mic_prefix cs w = (Inr cfg, w1) \<Longrightarrow> mic_step\<^sup>*\<^sup>* (mic_init w1 rs input) s \<Longrightarrow> m_pc s = MDone \<Longrightarrow>
     main_mic cs rs input w (Inr ()) ((mw s)\<lparr>cw_cout := cw_cout (mw s) @ done_msg\<rparr>)"
| threads_terminate:
    "mic_prefix cs w = (Inr cfg, w1) \<Longrightarrow> mic_step\<^sup>*\<^sup>* (mic_init w1 rs input) s \<Longrightarrow> terminated s \<Longrightarrow>
     main_mic cs rs input w (Inl (Undefined ''std::terminate'')) (mw s)"

text \<open>How the three program counters and the flags hang together.\<close>

definition mic_ctrl :: "mic_state \<Rightarrow> bool" where
  "mic_ctrl s \<longleftrightarrow>
     (isRecording s \<longleftrightarrow> m_pc s \<in> set [MPrint, MWait, MFlag]) \<and>
     (m_pc s = MPrint \<longleftrightarrow> m_pending s \<noteq> []) \<and>
     (st_finished s \<longleftrightarrow> a_pc s = ADone) \<and>
     (m_pc s \<in> set [MJoinR, MClose, MDone] \<longrightarrow> a_pc s = ADone) \<and>
     (m_pc s \<in> set [MClose, MDone] \<longrightarrow> r_pc s = RDone) \<and>
     (r_pc s = RDone \<longrightarrow> st_responses s = [] \<and> r_pending s = [] \<and> a_pc s = ADone) \<and>
     (terminated s \<longrightarrow> a_pc s = ARead \<and> \<not> rec_started s)"

definition mic_events_inv :: "cubic_event list \<Rightarrow> mic_state \<Rightarrow> bool" where
  "mic_events_inv E0 s \<longleftrightarrow>
     (\<exists>cs. cw_events (mw s) = E0 @ map EvPushAudio cs @
            (if a_pc s = ADone then [EvAudioFinished] else []) @ (if m_pc s = MDone then [EvClose] else []))"

definition mic_cout_inv :: "piece list \<Rightarrow> recognition_response list \<Rightarrow> mic_state \<Rightarrow> bool" where
  "mic_cout_inv C0 rs0 s \<longleftrightarrow>
     (\<exists>pre tdone mdone z. rs0 = pre @ st_responses s \<and>
        concat (map final_transcripts pre) = tdone @ r_pending s \<and> recording_msg = mdone @ m_pending s \<and>
        z \<in> shuffles tdone mdone \<and> cw_cout (mw s) = C0 @ z)"

abbreviation mic_reach :: "cubic_world \<Rightarrow> recognition_response list \<Rightarrow> string list \<Rightarrow> mic_state \<Rightarrow> bool" where
  "mic_reach w rs input s \<equiv> mic_step\<^sup>*\<^sup>* (mic_init w rs input) s"

text \<open>A ranking of the states for the proof that the program can finish.\<close>

fun main_rank :: "main_pc \<Rightarrow> nat" where
  "main_rank MPrint = 6" | "main_rank MWait = 5" | "main_rank MFlag = 4" | "main_rank MJoinA = 3"
| "main_rank MJoinR = 2" | "main_rank MClose = 1" | "main_rank MDone = 0"

fun audio_rank :: "audio_pc \<Rightarrow> nat" where
  "audio_rank AStart = 4" | "audio_rank ARead = 4" | "audio_rank ACheck = 3" | "audio_rank AStop = 2"
| "audio_rank AFinish = 1" | "audio_rank ADone = 0"

fun results_rank :: "results_pc \<Rightarrow> nat" where
  "results_rank RRecv = 1" | "results_rank RDone = 0"

definition mic_rank :: "mic_state \<Rightarrow> nat" where
  "mic_rank s = main_rank (m_pc s) + length (m_pending s) + audio_rank (a_pc s) + results_rank (r_pc s) +
                length (r_pending s) + length (st_responses s) + length (concat (map final_transcripts (st_responses s)))"

definition mic_live :: "mic_state \<Rightarrow> bool" where
  "mic_live s \<longleftrightarrow> mic_ctrl s \<and> \<not> terminated s \<and> \<not> (a_pc s = ARead \<and> \<not> rec_started s) \<and>
                   list_all (list_all printable) (st_responses s)"

text \<open>What is left to do once \<open>isRecording\<close> is cleared: every step lowers it.\<close>

definition mic_left :: "mic_state \<Rightarrow> nat" where
  "mic_left s = mic_rank s + (if terminated s then 0 else 1)"

lemma mic_step_ctrl: "mic_step s s' \<Longrightarrow> mic_ctrl s \<Longrightarrow> mic_ctrl s'"
  by (induction rule: mic_step.induct) (auto simp: mic_ctrl_def)

lemma mic_reach_ctrl: "mic_reach w rs input s \<Longrightarrow> mic_ctrl s"
proof (induction rule: rtranclp_induct)
  case base
  then show ?case by (simp add: mic_init_def mic_ctrl_def recording_msg_def)
next
  case (step s s')
  show ?case by (fact mic_step_ctrl [OF step.hyps(2) step.IH])
qed

lemma mic_step_events:
  assumes "mic_step s s'" "mic_ctrl s" "mic_events_inv E0 s"
  shows "mic_events_inv E0 s'"
  using assms
proof (induction rule: mic_step.induct)
  case (audio_read s c)
  then obtain cs where "cw_events (mw s) = E0 @ map EvPushAudio cs" "m_pc s \<noteq> MDone"
    by (auto simp: mic_events_inv_def mic_ctrl_def)
  then show ?case
    using audio_read.hyps by (auto simp: mic_events_inv_def push_audio_def intro!: exI [of _ "cs @ [c]"])
next
  case (audio_finish s)
  then have "m_pc s \<noteq> MDone" by (auto simp: mic_ctrl_def)
  then show ?case using audio_finish by (simp add: mic_events_inv_def)
next
  case (main_close s)
  then have "a_pc s = ADone" by (simp add: mic_ctrl_def)
  then show ?case using main_close by (simp add: mic_events_inv_def)
qed (simp_all add: mic_events_inv_def)

lemma mic_reach_events:
  "mic_reach w rs input s \<Longrightarrow> mic_events_inv (cw_events w) s"
proof (induction rule: rtranclp_induct)
  case base
  then show ?case by (auto simp: mic_events_inv_def mic_init_def intro: exI [of _ "[]"])
next
  case (step s s')
  show ?case by (fact mic_step_events [OF step.hyps(2) mic_reach_ctrl [OF step.hyps(1)] step.IH])
qed

lemma mic_step_cout:
  assumes "mic_step s s'" "mic_cout_inv C0 rs0 s"
  shows "mic_cout_inv C0 rs0 s'"
  using assms
proof (induction rule: mic_step.induct)
  case (results_recv s r rs)
  then obtain pre mdone z where "rs0 = pre @ r # rs" "recording_msg = mdone @ m_pending s"
    "z \<in> shuffles (concat (map final_transcripts pre)) mdone" "cw_cout (mw s) = C0 @ z"
    by (auto simp: mic_cout_inv_def)
  then show ?case
    unfolding mic_cout_inv_def
    by (intro exI [of _ "pre @ [r]"] exI [of _ "concat (map final_transcripts pre)"] exI [of _ mdone] exI [of _ z]) simp
next
  case (results_print s p ps)
  then obtain pre tdone mdone z where "rs0 = pre @ st_responses s" "concat (map final_transcripts pre) = tdone @ p # ps"
    "recording_msg = mdone @ m_pending s" "z \<in> shuffles tdone mdone" "cw_cout (mw s) = C0 @ z"
    by (auto simp: mic_cout_inv_def)
  then show ?case
    unfolding mic_cout_inv_def
    by (intro exI [of _ pre] exI [of _ "tdone @ [p]"] exI [of _ mdone] exI [of _ "z @ [p]"]) (simp add: snoc_in_shuffles)
next
  case (main_print s p ps)
  then obtain pre tdone mdone z where "rs0 = pre @ st_responses s" "concat (map final_transcripts pre) = tdone @ r_pending s"
    "recording_msg = mdone @ p # ps" "z \<in> shuffles tdone mdone" "cw_cout (mw s) = C0 @ z"
    by (auto simp: mic_cout_inv_def)
  then show ?case
    unfolding mic_cout_inv_def
    by (intro exI [of _ pre] exI [of _ tdone] exI [of _ "mdone @ [p]"] exI [of _ "z @ [p]"]) (simp add: snoc_in_shuffles)
qed (simp_all add: mic_cout_inv_def push_audio_def)

lemma mic_reach_cout:
  "mic_reach w rs input s \<Longrightarrow> mic_cout_inv (cw_cout w) rs s"
proof (induction rule: rtranclp_induct)
  case base
  show ?case
    unfolding mic_cout_inv_def mic_init_def
    by (intro exI [of _ "[]"] exI [of _ "[]"] exI [of _ "[]"] exI [of _ "[]"]) simp
next
  case (step s s')
  show ?case by (fact mic_step_cout [OF step.hyps(2) step.IH])
qed

lemma mic_reach_suffix: "mic_reach w rs input s \<Longrightarrow> \<exists>pre. rs = pre @ st_responses s"
  using mic_reach_cout [of w rs input s] by (auto simp: mic_cout_inv_def)

lemma mic_reach_printable:
  "mic_reach w rs input s \<Longrightarrow> list_all (list_all printable) rs \<Longrightarrow> list_all (list_all printable) (st_responses s)"
  using mic_reach_suffix [of w rs input s] by auto

lemma mic_audio_can_step: "\<not> terminated s \<Longrightarrow> a_pc s \<noteq> ADone \<Longrightarrow> \<exists>s'. mic_step s s'"
  by (cases "a_pc s"; cases "isRecording s"; cases "rec_started s") (fastforce intro: mic_step.intros)+

lemma mic_results_can_step:
  "\<not> terminated s \<Longrightarrow> r_pc s = RRecv \<Longrightarrow> st_finished s \<Longrightarrow> list_all (list_all printable) (st_responses s) \<Longrightarrow>
   \<exists>s'. mic_step s s'"
  by (cases "r_pending s"; cases "st_responses s") (fastforce intro: mic_step.intros)+

text \<open>The results thread writes the rest of its current statement, one piece per step.\<close>

lemma mic_results_flush:
  "\<not> terminated s \<Longrightarrow> r_pc s = RRecv \<Longrightarrow>
   mic_step\<^sup>*\<^sup>* s (s\<lparr>r_pending := [], mw := (mw s)\<lparr>cw_cout := cw_cout (mw s) @ r_pending s\<rparr>\<rparr>)"
proof (induction "r_pending s" arbitrary: s)
  case Nil
  then have "r_pending s = []" by simp
  then have "s\<lparr>r_pending := [], mw := (mw s)\<lparr>cw_cout := cw_cout (mw s) @ r_pending s\<rparr>\<rparr> = s"
    by (cases s) simp
  then show ?case by (metis rtranclp.rtrancl_refl)
next
  case (Cons p ps)
  let ?s1 = "s\<lparr>r_pending := ps, mw := (mw s)\<lparr>cw_cout := cw_cout (mw s) @ [p]\<rparr>\<rparr>"
  have "mic_step s ?s1" by (rule mic_step.results_print) (use Cons in simp_all)
  moreover have "mic_step\<^sup>*\<^sup>* ?s1 (?s1\<lparr>r_pending := [], mw := (mw ?s1)\<lparr>cw_cout := cw_cout (mw ?s1) @ r_pending ?s1\<rparr>\<rparr>)"
    by (rule Cons.hyps) (use Cons in simp_all)
  ultimately show ?case using Cons.hyps(2) [symmetric] by (simp add: converse_rtranclp_into_rtranclp)
qed

lemma mic_live_pick:
  assumes "mic_live s" "mic_step s s'" "\<not> terminated s'" "\<not> (a_pc s' = ARead \<and> \<not> rec_started s')"
    "set (st_responses s') \<subseteq> set (st_responses s)" "mic_rank s' < mic_rank s"
  shows "\<exists>s'. mic_step s s' \<and> mic_live s' \<and> mic_rank s' < mic_rank s"
proof -
  have "mic_ctrl s" "list_all (list_all printable) (st_responses s)"
    using assms(1) by (simp_all add: mic_live_def)
  then have "mic_live s'"
    using assms(2-5) mic_step_ctrl [OF assms(2)] by (auto simp: mic_live_def list_all_iff subset_iff)
  then show ?thesis using assms(2,6) by blast
qed

text \<open>While the main thread waits for the audio thread, the audio thread can step.\<close>

lemma mic_live_step_audio:
  assumes live: "mic_live s" and MJoinA: "m_pc s = MJoinA"
  shows "\<exists>s'. mic_step s s' \<and> mic_live s' \<and> mic_rank s' < mic_rank s"
proof -
  have nt: "\<not> terminated s" and rd: "\<not> (a_pc s = ARead \<and> \<not> rec_started s)"
    and nr: "\<not> isRecording s"
    using live MJoinA by (simp_all add: mic_live_def mic_ctrl_def)
  note pick = mic_live_pick [OF live]
  show ?thesis
  proof (cases "a_pc s")
    case AStart
    show ?thesis by (rule pick [OF mic_step.audio_start [OF nt AStart, of True]]) (use AStart MJoinA nt in \<open>auto simp: mic_rank_def\<close>)
  next
    case ACheck
    show ?thesis by (rule pick [OF mic_step.audio_check_off [OF nt ACheck nr]]) (use ACheck MJoinA nt in \<open>auto simp: mic_rank_def\<close>)
  next
    case ARead
    then have "rec_started s" using rd by simp
    show ?thesis by (rule pick [OF mic_step.audio_read [OF nt ARead \<open>rec_started s\<close>, of "[]"]]) (use ARead MJoinA nt in \<open>auto simp: mic_rank_def push_audio_def\<close>)
  next
    case AStop
    show ?thesis by (rule pick [OF mic_step.audio_stop [OF nt AStop]]) (use AStop MJoinA nt in \<open>auto simp: mic_rank_def\<close>)
  next
    case AFinish
    show ?thesis by (rule pick [OF mic_step.audio_finish [OF nt AFinish]]) (use AFinish MJoinA nt in \<open>auto simp: mic_rank_def\<close>)
  next
    case ADone
    show ?thesis by (rule pick [OF mic_step.main_join_audio [OF nt MJoinA ADone]]) (use ADone MJoinA nt in \<open>auto simp: mic_rank_def\<close>)
  qed
qed

text \<open>While the main thread waits for the results thread, that thread can step.\<close>

lemma mic_live_step_results:
  assumes live: "mic_live s" and MJoinR: "m_pc s = MJoinR"
  shows "\<exists>s'. mic_step s s' \<and> mic_live s' \<and> mic_rank s' < mic_rank s"
proof -
  have nt: "\<not> terminated s" and pr: "list_all (list_all printable) (st_responses s)"
    and ad: "a_pc s = ADone" "st_finished s"
    using live MJoinR by (simp_all add: mic_live_def mic_ctrl_def)
  note pick = mic_live_pick [OF live]
  show ?thesis
  proof (cases "r_pc s")
    case RDone
    show ?thesis by (rule pick [OF mic_step.main_join_results [OF nt MJoinR RDone]]) (use RDone MJoinR ad nt in \<open>auto simp: mic_rank_def\<close>)
  next
    case RRecv
    show ?thesis
    proof (cases "r_pending s")
      case (Cons p ps)
      show ?thesis by (rule pick [OF mic_step.results_print [OF nt RRecv Cons]]) (use RRecv ad Cons nt in \<open>auto simp: mic_rank_def\<close>)
    next
      case Nil
      then have rp: "r_pending s = []" .
      show ?thesis
      proof (cases "st_responses s")
        case Nil
        show ?thesis by (rule pick [OF mic_step.results_end [OF nt RRecv rp Nil ad(2)]]) (use RRecv ad Nil nt in \<open>auto simp: mic_rank_def\<close>)
      next
        case (Cons r rs)
        then have "list_all printable r" using pr by simp
        show ?thesis by (rule pick [OF mic_step.results_recv [OF nt RRecv rp Cons \<open>list_all printable r\<close>]]) (use RRecv ad Cons rp nt in \<open>auto simp: mic_rank_def\<close>)
      qed
    qed
  qed
qed

text \<open>Every live state that has not closed its stream has a step that lowers the rank.\<close>

lemma mic_live_step:
  assumes live: "mic_live s" and "m_pc s \<noteq> MDone"
  shows "\<exists>s'. mic_step s s' \<and> mic_live s' \<and> mic_rank s' < mic_rank s"
proof -
  have nt: "\<not> terminated s" and rd: "\<not> (a_pc s = ARead \<and> \<not> rec_started s)"
    using live by (simp_all add: mic_live_def)
  note pick = mic_live_pick [OF live]
  show ?thesis
  proof (cases "m_pc s")
    case MJoinA
    then show ?thesis by (rule mic_live_step_audio [OF live])
  next
    case MJoinR
    then show ?thesis by (rule mic_live_step_results [OF live])
  next
    case MPrint
    then obtain p ps where pp: "m_pending s = p # ps"
      using live by (cases "m_pending s") (auto simp: mic_live_def mic_ctrl_def)
    show ?thesis by (rule pick [OF mic_step.main_print [OF nt MPrint pp]]) (use MPrint pp nt rd in \<open>auto simp: mic_rank_def\<close>)
  next
    case MWait
    show ?thesis by (rule pick [OF mic_step.main_enter [OF nt MWait]]) (use MWait nt rd in \<open>auto simp: mic_rank_def\<close>)
  next
    case MFlag
    show ?thesis by (rule pick [OF mic_step.main_flag [OF nt MFlag]]) (use MFlag nt rd in \<open>auto simp: mic_rank_def\<close>)
  next
    case MClose
    show ?thesis by (rule pick [OF mic_step.main_close [OF nt MClose]]) (use MClose nt rd in \<open>auto simp: mic_rank_def\<close>)
  qed (use assms(2) in simp)
qed

lemma mic_live_finish:
  "mic_live s \<Longrightarrow> \<exists>s'. mic_step\<^sup>*\<^sup>* s s' \<and> m_pc s' = MDone \<and> \<not> terminated s'"
proof (induction "mic_rank s" arbitrary: s rule: less_induct)
  case less
  show ?case
  proof (cases "m_pc s = MDone")
    case True
    then show ?thesis using less.prems by (auto simp: mic_live_def)
  next
    case False
    then obtain s1 where "mic_step s s1" "mic_live s1" "mic_rank s1 < mic_rank s"
      using mic_live_step less.prems by blast
    then show ?thesis using less.hyps [of s1] by (meson converse_rtranclp_into_rtranclp)
  qed
qed

lemma mic_init_live:
  "list_all (list_all printable) rs \<Longrightarrow> mic_live (mic_init w rs input)"
  by (simp add: mic_live_def mic_init_def mic_ctrl_def recording_msg_def)

lemma mic_failed_read_step:
  "mic_step s s' \<Longrightarrow> a_pc s = ARead \<Longrightarrow> \<not> rec_started s \<Longrightarrow> a_pc s' = ARead \<and> \<not> rec_started s'"
  by (induction rule: mic_step.induct) auto

lemma mic_failed_read_steps:
  "mic_step\<^sup>*\<^sup>* s s' \<Longrightarrow> a_pc s = ARead \<Longrightarrow> \<not> rec_started s \<Longrightarrow> a_pc s' = ARead \<and> \<not> rec_started s'"
  by (induction rule: rtranclp_induct) (auto dest: mic_failed_read_step)

text \<open>The audio thread starts its recorder (which may fail) and enters its loop.\<close>

lemma mic_audio_reaches_read:
  "mic_step\<^sup>*\<^sup>* (mic_init w rs input) ((mic_init w rs input)\<lparr>a_pc := ARead, rec_started := ok\<rparr>)"
proof -
  let ?s0 = "mic_init w rs input"
  let ?s1 = "?s0\<lparr>a_pc := ACheck, rec_started := ok\<rparr>"
  have "mic_step ?s0 ?s1" by (rule mic_step.audio_start) (simp_all add: mic_init_def)
  moreover have "mic_step ?s1 (?s1\<lparr>a_pc := ARead\<rparr>)" by (rule mic_step.audio_check_on) (simp_all add: mic_init_def)
  moreover have "?s1\<lparr>a_pc := ARead\<rparr> = ?s0\<lparr>a_pc := ARead, rec_started := ok\<rparr>" by (simp add: mic_init_def)
  ultimately show ?thesis by (metis converse_rtranclp_into_rtranclp r_into_rtranclp)
qed

lemma main_mic_finishes:
  assumes "mic_prefix cs w = (Inr cfg, w1)" "list_all (list_all printable) rs"
  shows "\<exists>w'. main_mic cs rs input w (Inr ()) w'"
  using mic_live_finish [OF mic_init_live [OF assms(2), of w1 input]] main_mic.threads_done [OF assms(1)]
  by blast

text \<open>
  C24. Whatever the interleaving, the requests on the microphone client's
  stream are audio pushes, then \<open>audioFinished\<close> once the audio thread is
  done, then \<open>close\<close> once the main thread is done: no audio is pushed after
  \<open>audioFinished\<close> and the stream is closed only after it.
\<close>

theorem mic_stream_protocol:
  assumes "mic_step\<^sup>*\<^sup>* (mic_init w rs input) s"
  shows "\<exists>chunks. cw_events (mw s) = cw_events w @ map EvPushAudio chunks @
           (if a_pc s = ADone then [EvAudioFinished] else []) @ (if m_pc s = MDone then [EvClose] else [])"
  using mic_reach_events [OF assms] by (simp add: mic_events_inv_def)

text \<open>
  C25. The three threads never deadlock: in every reachable state in which the
  process is alive and the main thread has not closed the stream, some thread
  can take a step (when the service's responses are printable).
\<close>

theorem mic_no_deadlock:
  assumes "mic_step\<^sup>*\<^sup>* (mic_init w rs input) s" "list_all (list_all printable) rs"
    "\<not> terminated s" "m_pc s \<noteq> MDone"
  shows "\<exists>s'. mic_step s s'"
proof (cases "a_pc s = ADone")
  case False
  then show ?thesis using mic_audio_can_step assms(3) by blast
next
  case True
  have ctrl: "mic_ctrl s" using mic_reach_ctrl [OF assms(1)] .
  have pr: "list_all (list_all printable) (st_responses s)" using mic_reach_printable [OF assms(1,2)] .
  show ?thesis
  proof (cases "r_pc s")
    case RRecv
    then show ?thesis using mic_results_can_step [OF assms(3) RRecv _ pr] ctrl True by (simp add: mic_ctrl_def)
  next
    case RDone
    then show ?thesis using assms(3,4) True ctrl
      by (cases "m_pc s"; cases "m_pending s") (fastforce simp: mic_ctrl_def intro: mic_step.intros)+
  qed
qed

text \<open>
  C26. From every reachable state the program can still finish, closing the
  stream without terminating, unless the audio thread is about to read from a
  recorder whose program never started.
\<close>

theorem mic_can_finish:
  assumes "mic_step\<^sup>*\<^sup>* (mic_init w rs input) s" "list_all (list_all printable) rs"
    "\<not> terminated s" "\<not> (a_pc s = ARead \<and> \<not> rec_started s)"
  shows "\<exists>s'. mic_step\<^sup>*\<^sup>* s s' \<and> m_pc s' = MDone \<and> \<not> terminated s'"
  using mic_live_finish [of s] mic_reach_ctrl [OF assms(1)] mic_reach_printable [OF assms(1,2)] assms(3,4)
  by (simp add: mic_live_def)

text \<open>
  C27. When \<open>mic_client.cpp\<close> ends normally after opening its stream, it has
  pushed some audio, finished it and closed the stream, and its output is an
  interleaving of the final transcripts of every response, in order, with the
  pieces of the prompt, in order, then "Done.".
\<close>

theorem main_mic_output:
  assumes "main_mic cs rs input w (Inr ()) w'" "mic_prefix cs w = (Inr cfg, w1)"
  shows "(\<exists>chunks. cw_events w' = cw_events w1 @ map EvPushAudio chunks @ [EvAudioFinished, EvClose]) \<and>
         (\<exists>z \<in> shuffles (concat (map final_transcripts rs)) recording_msg. cw_cout w' = cw_cout w1 @ z @ done_msg)"
  using assms(1)
proof (cases rule: main_mic.cases)
  case (prefix_caught e w1' w2)
  then show ?thesis using assms(2) by simp
next
  case (threads_done cfg' w1' s)
  then have w1: "w1' = w1" using assms(2) by simp
  have reach: "mic_step\<^sup>*\<^sup>* (mic_init w1 rs input) s" using threads_done w1 by simp
  have ctrl: "mic_ctrl s" using mic_reach_ctrl [OF reach] .
  then have fin: "a_pc s = ADone" "st_responses s = []" "r_pending s = []" "m_pending s = []"
    using threads_done by (simp_all add: mic_ctrl_def)
  show ?thesis
    using mic_reach_events [OF reach] mic_reach_cout [OF reach] threads_done fin
    by (auto simp: mic_events_inv_def mic_cout_inv_def)
qed

text \<open>
  C28. When the recording program did not start, the audio thread's
  \<open>readAudio\<close> throws, and from the moment it is about to read no run of the
  program closes the stream or reaches "Done.": the thread can only die, which
  calls \<open>std::terminate\<close>, and the main thread waits for it forever otherwise.
\<close>

theorem mic_recorder_failure:
  assumes "mic_step\<^sup>*\<^sup>* (mic_init w rs input) s" "a_pc s = ARead" "\<not> rec_started s"
    "mic_step\<^sup>*\<^sup>* s s'"
  shows "m_pc s' \<noteq> MDone"
proof -
  have "a_pc s' = ARead" using mic_failed_read_steps [OF assms(4,2,3)] by simp
  moreover have "mic_ctrl s'" using mic_reach_ctrl [OF rtranclp_trans [OF assms(1,4)]] .
  ultimately show ?thesis by (auto simp: mic_ctrl_def)
qed

text \<open>
  C29. For every service and input, a run exists in which the recording
  program fails to start and the audio thread calls \<open>std::terminate\<close> before
  any audio is pushed: the stream is never closed and nothing more is printed,
  neither an error message nor "Done.".
\<close>

theorem main_mic_terminate:
  assumes "mic_prefix cs w = (Inr cfg, w1)"
  shows "\<exists>w'. main_mic cs rs input w (Inl (Undefined ''std::terminate'')) w' \<and>
              cw_events w' = cw_events w1 \<and> cw_cout w' = cw_cout w1 \<and> cw_cerr w' = cw_cerr w1"
proof -
  let ?s2 = "(mic_init w1 rs input)\<lparr>a_pc := ARead, rec_started := False\<rparr>"
  have "mic_step ?s2 (?s2\<lparr>terminated := True\<rparr>)" by (rule mic_step.audio_read_fail) (simp_all add: mic_init_def)
  with mic_audio_reaches_read [of w1 rs input False]
  have "mic_step\<^sup>*\<^sup>* (mic_init w1 rs input) (?s2\<lparr>terminated := True\<rparr>)" by simp
  from main_mic.threads_terminate [OF assms this] show ?thesis by (auto simp: mic_init_def)
qed

text \<open>
  C30. The results thread and the main thread print on \<open>std::cout\<close> without
  synchronisation, and each \<open><<\<close> is a call of its own: a transcript can
  appear inside the prompt statement, between "Recording. Press Enter to stop."
  and the "Transcripts:" heading that should introduce it.
\<close>

theorem mic_transcript_inside_prompt:
  assumes "list_all printable r"
  shows "\<exists>s. mic_step\<^sup>*\<^sup>* (mic_init w (r # rs) input) s \<and>
             cw_cout (mw s) = cw_cout w @ [Str ''\<newline>\<newline>Recording. Press Enter to stop.''] @
                              final_transcripts r @ [Str ''\<newline>\<newline>Transcripts:'', Endl]"
proof -
  let ?a = "Str ''\<newline>\<newline>Recording. Press Enter to stop.''" and ?b = "Str ''\<newline>\<newline>Transcripts:''"
  let ?s0 = "mic_init w (r # rs) input"
  let ?s1 = "?s0\<lparr>m_pc := (if [?b, Endl] = [] then MWait else MPrint), m_pending := [?b, Endl],
                  mw := (mw ?s0)\<lparr>cw_cout := cw_cout (mw ?s0) @ [?a]\<rparr>\<rparr>"
  let ?s2 = "?s1\<lparr>st_responses := rs, r_pending := final_transcripts r\<rparr>"
  let ?s3 = "?s2\<lparr>r_pending := [], mw := (mw ?s2)\<lparr>cw_cout := cw_cout (mw ?s2) @ r_pending ?s2\<rparr>\<rparr>"
  let ?s4 = "?s3\<lparr>m_pc := (if [Endl] = [] then MWait else MPrint), m_pending := [Endl],
                  mw := (mw ?s3)\<lparr>cw_cout := cw_cout (mw ?s3) @ [?b]\<rparr>\<rparr>"
  let ?s5 = "?s4\<lparr>m_pc := (if ([] :: piece list) = [] then MWait else MPrint), m_pending := [],
                  mw := (mw ?s4)\<lparr>cw_cout := cw_cout (mw ?s4) @ [Endl]\<rparr>\<rparr>"
  have "mic_step ?s0 ?s1" by (rule mic_step.main_print) (simp_all add: mic_init_def recording_msg_def)
  moreover have "mic_step ?s1 ?s2" by (rule mic_step.results_recv) (simp_all add: mic_init_def assms)
  moreover have "mic_step\<^sup>*\<^sup>* ?s2 ?s3" by (rule mic_results_flush) (simp_all add: mic_init_def)
  moreover have "mic_step ?s3 ?s4" by (rule mic_step.main_print) (simp_all add: mic_init_def)
  moreover have "mic_step ?s4 ?s5" by (rule mic_step.main_print) (simp_all add: mic_init_def)
  ultimately have "mic_step\<^sup>*\<^sup>* ?s0 ?s5"
    by (meson converse_rtranclp_into_rtranclp rtranclp.rtrancl_into_rtrancl)
  then show ?thesis by (intro exI [of _ ?s5]) (simp add: mic_init_def)
qed

lemma main_rank_le: "main_rank p \<le> 6"
  by (cases p) simp_all

lemma audio_rank_le: "audio_rank p \<le> 4"
  by (cases p) simp_all

lemma results_rank_le: "results_rank p \<le> 1"
  by (cases p) simp_all

lemma mic_left_le:
  "mic_left s \<le> 12 + length (m_pending s) + length (r_pending s) + length (st_responses s) +
                length (concat (map final_transcripts (st_responses s)))"
  using main_rank_le [of "m_pc s"] audio_rank_le [of "a_pc s"] results_rank_le [of "r_pc s"]
  by (simp add: mic_left_def mic_rank_def)

lemma mic_step_after_enter:
  "mic_step s s' \<Longrightarrow> \<not> isRecording s \<Longrightarrow> \<not> isRecording s' \<and> mic_left s' < mic_left s"
  by (induction rule: mic_step.induct) (simp_all add: mic_left_def mic_rank_def)

lemma mic_steps_after_enter_le:
  "(mic_step ^^ k) s s' \<Longrightarrow> \<not> isRecording s \<Longrightarrow> k + mic_left s' \<le> mic_left s \<and> \<not> isRecording s'"
proof (induction k arbitrary: s')
  case 0
  then show ?case by simp
next
  case (Suc k)
  then obtain s1 where k: "(mic_step ^^ k) s s1" and st: "mic_step s1 s'" by (meson relpowp_Suc_E)
  from Suc.IH [OF k Suc.prems(2)] have "k + mic_left s1 \<le> mic_left s" "\<not> isRecording s1" by simp_all
  with mic_step_after_enter [OF st] show ?case by simp
qed

text \<open>
  C36. Once the main thread has cleared \<open>isRecording\<close> (the user pressed
  Enter), the program terminates: the steps of the three threads from such a
  state form a well-founded relation, so every run is finite (the audio loop
  reads at most once more, the results loop ends with the responses).
\<close>

theorem mic_terminates_after_enter:
  "wfp (\<lambda>s' s. mic_step s s' \<and> \<not> isRecording s)"
proof (rule wfp_if_convertible_to_nat)
  fix s' s assume "mic_step s s' \<and> \<not> isRecording s"
  then show "mic_left s' < mic_left s" using mic_step_after_enter by blast
qed

text \<open>
  C37. A bound for C36: from a state where \<open>isRecording\<close> is clear, any run
  has at most twelve steps more than there are pieces of output still pending
  in the main and the results threads, responses still to come and pieces of
  their final transcripts.
\<close>

theorem mic_steps_after_enter:
  "(mic_step ^^ k) s s' \<Longrightarrow> \<not> isRecording s \<Longrightarrow>
   k \<le> 12 + length (m_pending s) + length (r_pending s) + length (st_responses s) +
        length (concat (map final_transcripts (st_responses s)))"
  using mic_steps_after_enter_le [of k s s'] mic_left_le [of s] by simp

text \<open>
  C40. With an empty model list the microphone client reads \<open>models[0]\<close> out of
  range before it opens its stream: every outcome of \<open>main\<close> is that
  undefined behaviour, with the versions and the empty list printed and no
  request on the SDK.
\<close>

theorem main_mic_no_models:
  assumes "cs_cubicVersion cs = Inr v" "cs_serverVersion cs = Inr sv" "cs_listModels cs = Inr []"
    "main_mic cs rs input w r w'"
  shows "r = Inl (Undefined ''models[0] of an empty vector'') \<and> cw_events w' = cw_events w \<and>
         cw_cout w' = cw_cout w @ header_out v sv @ print_model_list []"
proof -
  have p: "mic_prefix cs w = (Inl (Undefined ''models[0] of an empty vector''),
             w\<lparr>cw_cout := cw_cout w @ header_out v sv @ print_model_list []\<rparr>)"
    using assms(1-3) by (simp add: mic_prefix_def exc_simps print_versions_ok first_model_def)
  show ?thesis
    using assms(4) by (cases rule: main_mic.cases) (use p in \<open>auto simp: exc_simps\<close>)
qed

lemma mic_prefix_demo:
  "mic_prefix demo_cubic demo_cworld =
     (Inr (mic_cfg demo_model),
      demo_cworld\<lparr>cw_cout := header_out ''1.0'' ''2.0'' @ print_model_list [demo_model],
                   cw_events := [EvStreamingRecognize (mic_cfg demo_model)]\<rparr>)"
  by (simp add: mic_prefix_def exc_simps print_versions_ok demo_cubic_def demo_cworld_def first_model_def)

lemma mic_stream_protocol_witness:
  "\<exists>chunks. cw_events (mw ((mic_init demo_cworld [] [''''])\<lparr>a_pc := ACheck, rec_started := True,
       mw := push_audio [1, 2] demo_cworld\<rparr>)) = cw_events demo_cworld @ map EvPushAudio chunks @ [] @ []"
proof -
  let ?s2 = "(mic_init demo_cworld [] [''''])\<lparr>a_pc := ARead, rec_started := True\<rparr>"
  have "mic_step ?s2 (?s2\<lparr>a_pc := ACheck, mw := push_audio [1, 2] (mw ?s2)\<rparr>)"
    by (rule mic_step.audio_read) (simp_all add: mic_init_def)
  with mic_audio_reaches_read [of demo_cworld "[]" "['''']" True]
  have "mic_step\<^sup>*\<^sup>* (mic_init demo_cworld [] ['''']) (?s2\<lparr>a_pc := ACheck, mw := push_audio [1, 2] (mw ?s2)\<rparr>)"
    by simp
  from mic_stream_protocol [OF this] show ?thesis by (simp add: mic_init_def)
qed

lemma mic_no_deadlock_witness:
  "\<exists>s'. mic_step (mic_init demo_cworld [[demo_result]] ['''']) s'"
  by (rule mic_no_deadlock [of demo_cworld "[[demo_result]]" "['''']"])
     (simp_all add: mic_init_def demo_result_def printable_def)

lemma mic_can_finish_witness:
  "\<exists>s'. mic_step\<^sup>*\<^sup>* (mic_init demo_cworld [[demo_result]] ['''']) s' \<and> m_pc s' = MDone \<and> \<not> terminated s'"
  by (rule mic_can_finish [of demo_cworld "[[demo_result]]" "['''']"])
     (simp_all add: mic_init_def demo_result_def printable_def)

lemma main_mic_output_witness:
  "\<exists>w'. main_mic demo_cubic [] [''''] demo_cworld (Inr ()) w' \<and>
     (\<exists>chunks. cw_events w' = [EvStreamingRecognize (mic_cfg demo_model)] @ map EvPushAudio chunks @
                              [EvAudioFinished, EvClose])"
proof -
  obtain w' where run: "main_mic demo_cubic [] [''''] demo_cworld (Inr ()) w'"
    using main_mic_finishes [OF mic_prefix_demo, of "[]" "[[]]"] by auto
  show ?thesis using run main_mic_output [OF run mic_prefix_demo] by (auto simp: demo_cworld_def)
qed

lemma mic_recorder_failure_witness:
  "m_pc ((mic_init demo_cworld [] [''''])\<lparr>a_pc := ARead, rec_started := False\<rparr>) \<noteq> MDone"
  using mic_recorder_failure [OF mic_audio_reaches_read [of demo_cworld "[]" "['''']" False] _ _ rtranclp.rtrancl_refl]
  by (simp add: mic_init_def)

lemma main_mic_terminate_witness:
  "\<exists>w'. main_mic demo_cubic [] [''''] demo_cworld (Inl (Undefined ''std::terminate'')) w' \<and>
     cw_events w' = [EvStreamingRecognize (mic_cfg demo_model)] \<and>
     cw_cout w' = header_out ''1.0'' ''2.0'' @ print_model_list [demo_model] \<and> cw_cerr w' = []"
  using main_mic_terminate [OF mic_prefix_demo, of "[]" "['''']"] by (simp add: demo_cworld_def)

lemma mic_transcript_inside_prompt_witness:
  "\<exists>s. mic_step\<^sup>*\<^sup>* (mic_init demo_cworld [[demo_result]] ['''']) s \<and>
       cw_cout (mw s) = [Str ''\<newline>\<newline>Recording. Press Enter to stop.'', Str ''hello world'', Endl,
                         Str ''\<newline>\<newline>Transcripts:'', Endl]"
  using mic_transcript_inside_prompt [of "[demo_result]" demo_cworld "[]" "['''']"]
  by (simp add: demo_result_def printable_def final_transcripts_def demo_cworld_def)

lemma mic_steps_after_enter_witness:
  "(mic_step ^^ 1) ((mic_init demo_cworld [] [''''])\<lparr>isRecording := False, m_pc := MJoinA, m_pending := []\<rparr>)
       ((mic_init demo_cworld [] [''''])\<lparr>isRecording := False, m_pc := MJoinA, m_pending := [],
          a_pc := ACheck, rec_started := True\<rparr>) \<and>
   \<not> isRecording ((mic_init demo_cworld [] [''''])\<lparr>isRecording := False, m_pc := MJoinA, m_pending := []\<rparr>) \<and>
   1 \<le> 12 + length (m_pending ((mic_init demo_cworld [] [''''])\<lparr>isRecording := False, m_pc := MJoinA, m_pending := []\<rparr>)) +
        length (r_pending ((mic_init demo_cworld [] [''''])\<lparr>isRecording := False, m_pc := MJoinA, m_pending := []\<rparr>)) +
        length (st_responses ((mic_init demo_cworld [] [''''])\<lparr>isRecording := False, m_pc := MJoinA, m_pending := []\<rparr>)) +
        length (concat (map final_transcripts
          (st_responses ((mic_init demo_cworld [] [''''])\<lparr>isRecording := False, m_pc := MJoinA, m_pending := []\<rparr>))))"
proof -
  let ?s = "(mic_init demo_cworld [] [''''])\<lparr>isRecording := False, m_pc := MJoinA, m_pending := []\<rparr>"
  have "mic_step ?s (?s\<lparr>a_pc := ACheck, rec_started := True\<rparr>)"
    by (rule mic_step.audio_start) (simp_all add: mic_init_def)
  then have st: "(mic_step ^^ 1) ?s (?s\<lparr>a_pc := ACheck, rec_started := True\<rparr>)" by (simp only: relpowp_1)
  show ?thesis using st mic_steps_after_enter [OF st] by simp
qed

lemma main_mic_no_models_witness:
  "main_mic (demo_cubic\<lparr>cs_listModels := Inr []\<rparr>) [] [''''] demo_cworld
     (Inl (Undefined ''models[0] of an empty vector'')) (demo_cworld\<lparr>cw_cout := header_out ''1.0'' ''2.0'' @ print_model_list []\<rparr>) \<and>
   cw_events demo_cworld = []"
proof -
  have p: "mic_prefix (demo_cubic\<lparr>cs_listModels := Inr []\<rparr>) demo_cworld =
      (Inl (Undefined ''models[0] of an empty vector''), demo_cworld\<lparr>cw_cout := header_out ''1.0'' ''2.0'' @ print_model_list []\<rparr>)"
    by (simp add: mic_prefix_def exc_simps print_versions_ok first_model_def demo_cubic_def demo_cworld_def)
  have run: "main_mic (demo_cubic\<lparr>cs_listModels := Inr []\<rparr>) [] [''''] demo_cworld
     (Inl (Undefined ''models[0] of an empty vector'')) (demo_cworld\<lparr>cw_cout := header_out ''1.0'' ''2.0'' @ print_model_list []\<rparr>)"
    by (rule main_mic.prefix_undefined [OF p])
  show ?thesis
    using run main_mic_no_models [OF _ _ _ run] by (simp add: demo_cubic_def demo_cworld_def)
qed

end
