(* ===== verification/Spec2Isabelle.thy ===== *)
theory Spec2Isabelle
  imports Cli_Client Cubic_Mic_Client
begin

text \<open>
  \<^bold>\<open>A verification library for the Cobalt Speech C++ examples.\<close>

  \<^bold>\<open>The program.\<close> The repository holds example clients of two gRPC services,
  reached through SDKs that are not part of it. Under \<open>src/diatheke/\<close>, two
  clients of the Diatheke dialogue service: \<open>audio_client.cpp\<close> (voice in,
  voice out) and \<open>cli_client.cpp\<close> (text in, text out). Both create a session
  and then loop forever on \<open>processActions\<close>, which walks the session's list
  of actions: an input action makes the client capture the user's input and
  submit it, a reply is printed or played and the walk goes on, a command action
  is executed and its result submitted; each submission returns the next
  session. The audio client records through \<open>Recorder\<close>
  (\<open>recorder.h\<close>, \<open>recorder.cpp\<close>) and plays through \<open>Player\<close>
  (\<open>player.h\<close>); both run an external \<open>sox\<close> process through a
  \<open>popen\<close> pipe. Under \<open>src/cubic/\<close>, four clients of the Cubic recognition
  service (a synchronous one, two streaming from a file, one streaming from the
  microphone on threads).

  \<^bold>\<open>How it is modelled.\<close> A shallow embedding, one theory per component:
  \<^item> \<open>Prelude\<close>: C++ exceptions as the datatype \<open>exn\<close>; an operation on a
    state \<open>'s\<close> as \<open>'s \<Rightarrow> (exn + 'a) \<times> 's\<close> (the state survives a throw),
    with sequencing \<open>bindE\<close>, \<open>try\<close>/\<open>catch\<close> \<open>catchE\<close>, and the destructor of a
    local object as \<open>unwindE\<close> (while an exception unwinds) and \<open>finallyE\<close>;
    \<open>keepsE P m\<close>, that every run of \<open>m\<close> keeps \<open>P\<close>, with one rule per
    combinator (the collection \<open>exc_simps\<close> evaluates them).
  \<^item> \<open>Process_IO\<close>: the environment, not repository code: the C library's
    \<open>popen\<close>/\<open>fread\<close>/\<open>fwrite\<close>/\<open>pclose\<close> over a table of open pipes
    (a \<open>FILE*\<close> is a handle, \<open>NULL\<close> is \<open>None\<close>), the microphone as the bytes
    it will still deliver, the speaker as the bytes written to it; a
    \<open>pclose\<close> of a stream that is not open (a double close) is undefined in C
    and is recorded in \<open>bad_close\<close>.
  \<^item> \<open>Recorder\<close> and \<open>Player\<close>: the two classes as records and their methods as
    functions on the object and the system. \<open>player.cpp\<close> is not in the
    repository: the player's methods follow the specification's AudioWriter and
    the shape of \<open>Recorder\<close>.
  \<^item> \<open>Diatheke_Client\<close>: the protocol messages (\<open>action\<close> is the protobuf
    oneof, \<open>ActionNotSet\<close> a message with no known kind), the SDK as an
    interface \<open>'srv server\<close> (a record of the server's answers as functions of
    a server state, so every theorem holds for every server; \<open>mock_server\<close> is
    the test double of section 8 of the specification), the world a client runs
    in (server, system, the list of SDK calls made, console output, standard
    input), the client constructor \<open>Diatheke::Client(serverAddress,
    insecureConnection)\<close> (\<open>new_client\<close>, a recorded call that cannot fail:
    the channel is opened lazily), and the SDK loops \<open>ReadASRAudio\<close> and
    \<open>WriteTTSAudio\<close>. Their streams can fail, as section 7 says an external
    call can: the ASR stream once some audio has been sent
    (\<open>sv_asr_error\<close>), the TTS stream by an error message among its chunks.
  \<^item> \<open>Dispatch\<close>: the loop of \<open>processActions\<close>, defined once over handlers
    (the two clients contain it as a copy), its abstract specification
    \<open>dispatch_spec\<close> (section 4.1), and \<open>session_loop\<close>, the
    \<open>while (true)\<close> loop of \<open>main\<close> with its condition, which remembers the
    session it holds when an exception leaves it; the statement after the loop
    (the audio client's \<open>deleteSession\<close>, line 199) is in the model, and its
    unreachability is proved (\<open>session_loop_true\<close>).
  \<^item> \<open>Audio_Client\<close> and \<open>Cli_Client\<close>: every function of the two clients,
    with their output, their SDK calls and, for the audio client, the local
    recorder and player and their destructors.
  \<^item> \<open>Cubic_Client\<close>: the Cubic SDK as the interface \<open>cubic_server\<close> (the
    service's answers; the world is \<open>std::cout\<close>, \<open>std::cerr\<close> and the list
    of requests made), and the code the four Cubic clients repeat: the
    transcript loop (\<open>print_transcripts\<close>), \<open>models[0]\<close>
    (\<open>first_model\<close>), the \<open>std::ifstream\<close> read loop that feeds
    \<open>pushAudio\<close> (\<open>push_file\<close>, a \<open>function\<close> with its termination
    proof) and the catch clauses.
  \<^item> \<open>Cubic_File_Clients\<close>: \<open>main\<close> of \<open>stream_client.cpp\<close>
    (\<open>main_stream\<close>), \<open>synchronous_client.cpp\<close> (\<open>main_sync\<close>) and
    \<open>context_client.cpp\<close> (\<open>main_context\<close>). The world holds the file
    system: \<open>std::ifstream infile(filename)\<close> looks \<open>test.wav\<close> up in it
    (its bytes, or \<open>None\<close> when it cannot be opened). The audio
    thread and the main thread share only the stream, so the thread's requests
    are emitted whole before the main thread's result loop.
    The \<open>CubicClient\<close> constructor is not recorded as a request: unlike
    Diatheke's, its outcome is not observed by any theorem, and the
    \<open>serverAddress\<close> it is given is printed as "Connected to".
  \<^item> \<open>Cubic_Mic_Client\<close>: \<open>mic_client.cpp\<close>. Its prefix is a function
    (\<open>mic_prefix\<close>); its three threads are an inductive interleaving relation
    \<open>mic_step\<close>, one rule per atomic statement, on a state holding each
    thread's program counter, the atomic \<open>isRecording\<close>, the recorder, the
    stream (\<open>audioFinished\<close> called, responses still to come), standard
    input and the world. An output statement is not atomic: each
    \<open>operator<<\<close> on \<open>std::cout\<close> is a step, and the pieces a statement
    has still to write are its thread's pending output (\<open>m_pending\<close>,
    \<open>r_pending\<close>); \<open>main_mic\<close> relates a run of \<open>main\<close> to its
    outcomes (caught error, undefined behaviour, "Done.", \<open>std::terminate\<close>).
    The microphone's audio is any bytes, and the service's responses a
    parameter. The invariants are proved by rule induction over
    \<open>mic_step\<^sup>*\<^sup>*\<close>, the liveness by a ranking of the states.

  \<^bold>\<open>Bounds and fuel.\<close> Both \<open>main\<close> functions loop forever by design, so
  \<open>session_loop\<close> takes a fuel \<open>n\<close>, the number of rounds; \<open>OutOfFuel\<close> means
  the program is still running. The theorems about \<open>main\<close> hold for every fuel
  (\<open>main_audio_never_deletes\<close>) or name the round they need
  (\<open>main_cli_empty_session_deleted\<close>). \<open>ReadASRAudio\<close> needs no fuel: its
  termination is proved, since a round that goes on has taken a byte from the
  finite recording; nor does the file loop of the Cubic clients, whose measure is
  the bytes left while the stream is good. Reads are in blocks of 8192 bytes, as
  in the source. The microphone client's threads need no fuel either: a run may be
  infinite only while \<open>isRecording\<close> is set (the user has not pressed Enter),
  and from the moment it is cleared the measure \<open>mic_left\<close> (program
  counters' ranks, pending pieces of output, responses left and the pieces of
  their transcripts, whether the process is alive) falls at every step (C36,
  C37).

  \<^bold>\<open>What is proved.\<close> (C\<open>n\<close> are the claims of \<open>PROJECT.json\<close>.)
  \<^item> The loop refines its specification (C1), and the four outcomes of section
    8 follow for the audio client (C3 to C6) and for the text client's input
    path (C12); \<open>waitForInput\<close> of the audio client either throws the
    stream's error or submits exactly the transcript, closing its recorder in
    both cases (C7, with the scenario of section 8 as its witness).
  \<^item> Resources (section 5): whatever the server does, SDK stream failures
    included, \<open>processActions\<close> of the audio client leaves every recording
    and playback process closed, and closed once (C2), by the invariants of
    \<open>Recorder\<close> and \<open>Player\<close> and the destructor model.
  \<^item> The SDK read loop consumes the recording from its front, block by block, and
    stops exactly when the recording ends, the recogniser is done or the stream
    fails (C8); a recorder
    whose process could not start makes \<open>waitForInput\<close> throw (C9);
    \<open>handleCommand\<close> submits one result carrying the command's id (C10).
  \<^item> Error handling at the top (section 7): the audio client never deletes its
    session (C11, a bug: the call after the endless loop is proved unreachable); the text client submits empty
    text at end of input (C13) and deletes the session once the loop fails (C14),
    but an error of \<open>createSession\<close>, called before its \<open>try\<close>, escapes
    \<open>main\<close> uncaught (C35), while the audio client, whose call is inside its
    \<open>try\<close>, catches and prints it (C39).
  \<^item> \<open>Recorder\<close>: a start/read/stop cycle hands over exactly the next bytes
    of the recording and closes its pipe (C31); \<open>start\<close> and \<open>stop\<close> are
    idempotent as their comments say, and a stop followed by the destructor
    closes nothing twice (C32, C33); a failed start is silent and
    surfaces as the read error (C34); its well-formedness is kept by every
    method (C38).
  \<^item> Cubic: the file loop pushes the file exactly, in full 8192-byte blocks and
    a last short (possibly empty) one (C15); the streaming, context and
    synchronous clients make exactly the requests and print exactly the
    transcripts they should (C16, C22, C23); a missing file is streamed as no
    audio without a message (C17); an empty model list (C18) or a first model
    without context tokens (C21) is undefined behaviour before any request; a
    Cubic error is reported on \<open>std::cerr\<close> (C19); the token string equals
    joining with ", " (C20).
  \<^item> Cubic microphone client, for every interleaving: the stream sees pushes,
    then \<open>audioFinished\<close>, then \<open>close\<close> (C24); the threads never
    deadlock (C25) and can always finish (C26), unless the recorder failed, in
    which case no run finishes (C28) and a run exists that ends in
    \<open>std::terminate\<close> unreported (C29); the output of a normal end is
    an interleaving (\<open>shuffles\<close>) of every transcript, in order, with the
    pieces of the prompt, then "Done." (C27), and a transcript can indeed land
    inside the prompt statement, before its "Transcripts:" heading (C30).
    Once Enter has cleared \<open>isRecording\<close> the program terminates (C36),
    within twelve steps more than the output and responses left (C37); with no model it
    stops at \<open>models[0]\<close> before any request (C40).

  \<^bold>\<open>Not modelled, and why.\<close> The bodies of \<open>Player\<close>'s methods:
  \<open>player.cpp\<close> is not in the repository, so they follow the specification's
  AudioWriter and the shape of \<open>Recorder\<close>, and \<open>Player\<close> stays partly
  modelled. The \<open>Recorder\<close> that \<open>mic_client.cpp\<close> includes is not in the
  repository either and is modelled only by what the audio thread observes. What is left of the source
  files is \<open>#include\<close>s, namespace aliases and two unused constants (the
  global \<open>modelID\<close> of \<open>cli_client.cpp\<close> and \<open>mic_client.cpp\<close>, both
  shadowed by a local one). Out of scope:
  the gRPC protocol, the recogniser, the speech synthesiser and the \<open>sox\<close>
  processes, which are the environment; the formatting of numbers by
  \<open>std::cout\<close>, kept as typed pieces.
\<close>

end
